theory Spec2Isabelle
  imports Complex_Main "HOL-Library.List_Lexorder" "HOL-Library.Char_ord"
begin

section \<open>The waveguide mode-solver wrapper of cspdk (send\_to\_FDE.py)\<close>

text \<open>
  The module defines one class, \<open>Waveguide\<close>: a pydantic model of 23 declared fields
  with two private attributes, \<open>_cached_data\<close> and \<open>_waveguide\<close>, that are set on first
  use. Everything the class computes itself is embedded below; the libraries it calls
  (tidy3d, gplugins, numpy, hashlib, pathlib, xarray) are parameters of the model, collected
  in the record \<open>env\<close>, so every theorem holds whatever those libraries return.

  Python exceptions are values of type \<open>error\<close>; a method that can raise returns
  \<open>error + 'a\<close>, and a method that changes the instance or the outside world returns the
  new instance and the new world beside its result. Where a call involves two instances
  or a client makes several calls, the instances are the objects of a heap.
\<close>

subsection \<open>Errors\<close>

datatype error =
    KeyError string
  | ValueError string
  | IndexError
  | LibraryError string

subsection \<open>Floats and arrays\<close>

text \<open>
  A float is a real number or a non-finite value. numpy does not raise on a float division
  by zero: the quotient is \<open>nan\<close> or an infinity, which \<open>NonFinite\<close> stands for. The
  operations \<open>fdiv\<close>, \<open>fmul\<close> and \<open>fadd\<close> are those of the real numbers, without rounding
  or overflow; they are used for the formula of the propagation loss and for the frequency
  of the material models.
\<close>

datatype float64 = Fl real | NonFinite

fun fdiv :: "float64 \<Rightarrow> float64 \<Rightarrow> float64" where
  "fdiv (Fl a) (Fl b) = (if b = 0 then NonFinite else Fl (a / b))"
| "fdiv _ _ = NonFinite"

fun fmul :: "float64 \<Rightarrow> float64 \<Rightarrow> float64" where
  "fmul (Fl a) (Fl b) = Fl (a * b)"
| "fmul _ _ = NonFinite"

fun fadd :: "float64 \<Rightarrow> float64 \<Rightarrow> float64" where
  "fadd (Fl a) (Fl b) = Fl (a + b)"
| "fadd _ _ = NonFinite"

text \<open>
  The arithmetic of IEEE 754 binary64, as numpy and Python apply it to \<open>float64\<close> values:
  the exact result is rounded to the nearest number with a significand of 53 bits, a tie
  to the one with an even significand. \<open>float_exponent x\<close> is the exponent of the binade
  of \<open>x\<close>, not less than \<open>-1022\<close> (below \<open>2^-1022\<close> the numbers are subnormal, with the
  spacing \<open>2^-1074\<close>); \<open>ulp x\<close> is the spacing of the float64 numbers there. A result of
  magnitude \<open>2^1024\<close> or more after rounding overflows to an infinity. The float64 numbers
  are the reals \<open>x\<close> with \<open>round64 x = x\<close> and \<open>\<bar>x\<bar> < 2^1024\<close>. The exponent is
  given by the binary logarithm; from bounds \<open>2^e \<le> x < 2^(e+1)\<close> on a concrete number
  the rounding is computed by lemma \<open>round64_eval\<close> below.
\<close>

definition round_half_even :: "real \<Rightarrow> int" where
  "round_half_even y =
     (let f = \<lfloor>y\<rfloor>; d = y - of_int f
      in if d < 1 / 2 then f else if 1 / 2 < d then f + 1 else if even f then f else f + 1)"

definition float_exponent :: "real \<Rightarrow> int" where
  "float_exponent x = max \<lfloor>log 2 \<bar>x\<bar>\<rfloor> (- 1022)"

definition ulp :: "real \<Rightarrow> real" where
  "ulp x = 2 powr (of_int (float_exponent x - 52))"

definition round64 :: "real \<Rightarrow> real" where
  "round64 x = of_int (round_half_even (x / ulp x)) * ulp x"

definition fl64 :: "real \<Rightarrow> float64" where
  "fl64 x = (if \<bar>round64 x\<bar> < 2 ^ 1024 then Fl (round64 x) else NonFinite)"

definition pow2 :: "int \<Rightarrow> real" where
  "pow2 e = 2 powr (of_int e)"

text \<open>
  The rounded operations. An operation with a \<open>NonFinite\<close> operand is \<open>NonFinite\<close>: this is
  IEEE for \<open>nan\<close>; of the operations on an infinity only a finite number divided by an
  infinity is finite in IEEE (it is 0), which the loop over the modes below turns into
  \<open>0 / 0 = nan\<close>.
\<close>

fun fdiv64 :: "float64 \<Rightarrow> float64 \<Rightarrow> float64" where
  "fdiv64 (Fl a) (Fl b) = (if b = 0 then NonFinite else fl64 (a / b))"
| "fdiv64 _ _ = NonFinite"

fun fmul64 :: "float64 \<Rightarrow> float64 \<Rightarrow> float64" where
  "fmul64 (Fl a) (Fl b) = fl64 (a * b)"
| "fmul64 _ _ = NonFinite"

fun fadd64 :: "float64 \<Rightarrow> float64 \<Rightarrow> float64" where
  "fadd64 (Fl a) (Fl b) = fl64 (a + b)"
| "fadd64 _ _ = NonFinite"

text \<open>\<open>np.sum\<close> of a short sequence of floats adds them from the first on.\<close>

definition np_sum :: "float64 list \<Rightarrow> float64" where
  "np_sum xs = (case xs of [] \<Rightarrow> Fl 0 | x # rest \<Rightarrow> foldl fadd64 x rest)"

text \<open>
  \<open>np.abs\<close>, and the order of \<open>np.argmin\<close>, in which an infinity is the largest value (a
  \<open>NonFinite\<close> difference of two finite numbers is an infinity).
\<close>

fun fabs :: "float64 \<Rightarrow> float64" where
  "fabs (Fl a) = Fl \<bar>a\<bar>"
| "fabs NonFinite = NonFinite"

fun fless :: "float64 \<Rightarrow> float64 \<Rightarrow> bool" where
  "fless (Fl a) (Fl b) = (a < b)"
| "fless (Fl a) NonFinite = True"
| "fless NonFinite b = False"

text \<open>
  A numpy array is its shape and its elements in row-major order; a well-formed array has
  \<open>prod_list shape\<close> elements. An array of dtype float holds \<open>float64\<close> values, one of
  dtype complex holds complex numbers.
\<close>

datatype 'a ndarray = NdArray (shape: "nat list") (flat: "'a list")

datatype npy = RealArr "float64 ndarray" | ComplexArr "complex ndarray"

definition nd_map :: "('a \<Rightarrow> 'b) \<Rightarrow> 'a ndarray \<Rightarrow> 'b ndarray" where
  "nd_map f a = NdArray (shape a) (map f (flat a))"

text \<open>\<open>squeeze\<close> drops every axis of size 1.\<close>

definition squeeze :: "'a ndarray \<Rightarrow> 'a ndarray" where
  "squeeze a = NdArray (filter (\<lambda>n. n \<noteq> 1) (shape a)) (flat a)"

text \<open>The multi-index of a flat position, and back.\<close>

fun unravel :: "nat list \<Rightarrow> nat \<Rightarrow> nat list" where
  "unravel [] k = []"
| "unravel (n # ns) k = (k div prod_list ns) # unravel ns (k mod prod_list ns)"

fun ravel :: "nat list \<Rightarrow> nat list \<Rightarrow> nat" where
  "ravel (n # ns) (i # is) = i * prod_list ns + ravel ns is"
| "ravel _ _ = 0"

text \<open>\<open>a.T\<close> reverses the axes.\<close>

definition nd_T :: "'a ndarray \<Rightarrow> 'a ndarray" where
  "nd_T a =
     NdArray (rev (shape a))
       (map (\<lambda>k. flat a ! ravel (shape a) (rev (unravel (rev (shape a)) k)))
          [0 ..< prod_list (shape a)])"

definition npy_T :: "npy \<Rightarrow> npy" where
  "npy_T v = (case v of RealArr a \<Rightarrow> RealArr (nd_T a) | ComplexArr a \<Rightarrow> ComplexArr (nd_T a))"

text \<open>
  Broadcasting of two shapes: aligned at the last axis, two sizes agree when they are
  equal or one of them is 1; numpy raises ValueError otherwise.
\<close>

fun broadcast_rev :: "nat list \<Rightarrow> nat list \<Rightarrow> nat list option" where
  "broadcast_rev [] ys = Some ys"
| "broadcast_rev xs [] = Some xs"
| "broadcast_rev (x # xs) (y # ys) =
     (if x = y \<or> y = 1 then map_option ((#) x) (broadcast_rev xs ys)
      else if x = 1 then map_option ((#) y) (broadcast_rev xs ys)
      else None)"

definition broadcast_shapes :: "nat list \<Rightarrow> nat list \<Rightarrow> nat list option" where
  "broadcast_shapes s t = map_option rev (broadcast_rev (rev s) (rev t))"

text \<open>
  The position read in an operand of shape \<open>s\<close> for the multi-index \<open>idx\<close> of the result:
  the last \<open>length s\<close> entries of \<open>idx\<close>, with 0 on every axis of size 1.
\<close>

definition operand_index :: "nat list \<Rightarrow> nat list \<Rightarrow> nat" where
  "operand_index s idx =
     ravel s (map2 (\<lambda>n i. if n = 1 then 0 else i) s (drop (length idx - length s) idx))"

definition nd_binop ::
  "('a \<Rightarrow> 'b \<Rightarrow> 'c) \<Rightarrow> 'a ndarray \<Rightarrow> 'b ndarray \<Rightarrow> error + 'c ndarray" where
  "nd_binop f a b =
     (case broadcast_shapes (shape a) (shape b) of
        None \<Rightarrow> Inl (ValueError ''operands could not be broadcast together'')
      | Some s \<Rightarrow>
          Inr (NdArray s
            (map (\<lambda>k. f (flat a ! operand_index (shape a) (unravel s k))
                         (flat b ! operand_index (shape b) (unravel s k)))
               [0 ..< prod_list s])))"

subsection \<open>The configuration\<close>

text \<open>
  A material specification is a name, a refractive index, a pair of the real and imaginary
  part of the index, or a tidy3d medium object (of type \<open>'m\<close>).
\<close>

datatype 'm material =
    MatName string
  | MatIndex real
  | MatNK real real
  | MatMedium 'm

text \<open>\<open>group_index_step: bool | float\<close>.\<close>

datatype group_step = StepBool bool | StepFloat real

text \<open>\<open>cache_path: PathType | None\<close>, where a path is a \<open>str\<close> or a \<open>pathlib.Path\<close>.\<close>

datatype path_type = PathStr string | PathObj string

text \<open>
  The declared fields, in the order of the class body. \<open>wavelength\<close> is the array the
  validator \<open>_fix_wavelength_type\<close> has made of the argument.
\<close>

record 'm config =
  wavelength :: "real ndarray"
  core_width :: real
  core_thickness :: real
  core_material :: "'m material"
  clad_material :: "'m material"
  box_material :: "'m material option"
  slab_thickness :: real
  clad_thickness :: "real option"
  box_thickness :: "real option"
  side_margin :: "real option"
  sidewall_angle :: real
  sidewall_thickness :: real
  sidewall_k :: real
  surface_thickness :: real
  surface_k :: real
  bend_radius :: "real option"
  num_modes :: int
  group_index_step :: group_step
  precision :: string
  grid_resolution :: int
  max_grid_scaling :: real
  cache_path :: "path_type option"
  overwrite :: bool

text \<open>The Python values of the fields, as \<open>getattr\<close> hands them to the serializer.\<close>

datatype 'm pyval =
    PyNone
  | PyBool bool
  | PyInt int
  | PyFloat real
  | PyStr string
  | PyTuple "'m pyval list"
  | PyArray "real ndarray"
  | PyMedium 'm
  | PyPath string

fun py_material :: "'m material \<Rightarrow> 'm pyval" where
  "py_material (MatName s) = PyStr s"
| "py_material (MatIndex n) = PyFloat n"
| "py_material (MatNK n k) = PyTuple [PyFloat n, PyFloat k]"
| "py_material (MatMedium m) = PyMedium m"

definition py_opt :: "('a \<Rightarrow> 'm pyval) \<Rightarrow> 'a option \<Rightarrow> 'm pyval" where
  "py_opt f v = (case v of None \<Rightarrow> PyNone | Some x \<Rightarrow> f x)"

fun py_group_step :: "group_step \<Rightarrow> 'm pyval" where
  "py_group_step (StepBool b) = PyBool b"
| "py_group_step (StepFloat x) = PyFloat x"

fun py_path :: "path_type \<Rightarrow> 'm pyval" where
  "py_path (PathStr s) = PyStr s"
| "py_path (PathObj s) = PyPath s"

text \<open>\<open>self.__fields__.keys()\<close>: the declared names, in declaration order.\<close>

definition fields_keys :: "string list" where
  "fields_keys =
     [''wavelength'', ''core_width'', ''core_thickness'', ''core_material'',
      ''clad_material'', ''box_material'', ''slab_thickness'', ''clad_thickness'',
      ''box_thickness'', ''side_margin'', ''sidewall_angle'', ''sidewall_thickness'',
      ''sidewall_k'', ''surface_thickness'', ''surface_k'', ''bend_radius'', ''num_modes'',
      ''group_index_step'', ''precision'', ''grid_resolution'', ''max_grid_scaling'',
      ''cache_path'', ''overwrite'']"

text \<open>\<open>getattr(self, setting)\<close> for a declared field; any other name is not looked up here.\<close>

definition getattr :: "'m config \<Rightarrow> string \<Rightarrow> 'm pyval" where
  "getattr c setting =
     (if setting = ''wavelength'' then PyArray (wavelength c)
      else if setting = ''core_width'' then PyFloat (core_width c)
      else if setting = ''core_thickness'' then PyFloat (core_thickness c)
      else if setting = ''core_material'' then py_material (core_material c)
      else if setting = ''clad_material'' then py_material (clad_material c)
      else if setting = ''box_material'' then py_opt py_material (box_material c)
      else if setting = ''slab_thickness'' then PyFloat (slab_thickness c)
      else if setting = ''clad_thickness'' then py_opt PyFloat (clad_thickness c)
      else if setting = ''box_thickness'' then py_opt PyFloat (box_thickness c)
      else if setting = ''side_margin'' then py_opt PyFloat (side_margin c)
      else if setting = ''sidewall_angle'' then PyFloat (sidewall_angle c)
      else if setting = ''sidewall_thickness'' then PyFloat (sidewall_thickness c)
      else if setting = ''sidewall_k'' then PyFloat (sidewall_k c)
      else if setting = ''surface_thickness'' then PyFloat (surface_thickness c)
      else if setting = ''surface_k'' then PyFloat (surface_k c)
      else if setting = ''bend_radius'' then py_opt PyFloat (bend_radius c)
      else if setting = ''num_modes'' then PyInt (num_modes c)
      else if setting = ''group_index_step'' then py_group_step (group_index_step c)
      else if setting = ''precision'' then PyStr (precision c)
      else if setting = ''grid_resolution'' then PyInt (grid_resolution c)
      else if setting = ''max_grid_scaling'' then PyFloat (max_grid_scaling c)
      else if setting = ''cache_path'' then py_opt py_path (cache_path c)
      else if setting = ''overwrite'' then PyBool (overwrite c)
      else PyNone)"

subsection \<open>Libraries, the outside world and the instance\<close>

text \<open>
  A path is a directory and a file name in it. \<open>pathlib.Path(cache_path)\<close> is the
  directory as given; pathlib's normalisation of a spelling (a trailing or doubled slash)
  is not modelled, so equal paths of the model are equal paths of the program.
\<close>

datatype path = Path (parent: string) (name: string)

fun pathlib_Path :: "path_type \<Rightarrow> string" where
  "pathlib_Path (PathStr s) = s"
| "pathlib_Path (PathObj s) = s"

definition path_str :: "path \<Rightarrow> string" where
  "path_str p = parent p @ ''/'' @ name p"

text \<open>An \<open>.npz\<close> archive is the arrays it holds under their names, as is a result dict.\<close>

type_synonym npz = "string \<rightharpoonup> npy"

text \<open>
  What the code reads of the mode solver's result: for a field component \<open>F\<close> the array
  \<open>fields[F].squeeze(drop=True).values\<close>, the coordinate arrays of \<open>Ex\<close>, and for a mode
  \<open>i\<close> the samples of \<open>fields[F].sel(mode_index=i)\<close> (\<open>None\<close> when the solver has no mode
  \<open>i\<close>); and the squeezed values of \<open>wg.n_complex\<close>, \<open>wg.mode_area\<close> and \<open>wg.n_group\<close>.
\<close>

record solver_data =
  field_values :: "string \<Rightarrow> npy"
  field_sel :: "string \<Rightarrow> nat \<Rightarrow> complex list option"
  coords_x :: npy
  coords_y :: npy
  n_complex :: npy
  wg_mode_area :: npy
  wg_n_group :: "npy option"

text \<open>The keyword arguments of \<open>td.ModeSpec\<close> and \<open>waveguide.RectangularDielectric\<close>.\<close>

record mode_spec =
  ms_num_modes :: int
  ms_target_neff :: real
  ms_bend_radius :: "real option"
  ms_bend_axis :: nat
  ms_num_pml :: "nat \<times> nat"
  ms_precision :: string
  ms_group_index_step :: group_step

record 'm rect_args =
  rd_wavelength :: "real ndarray"
  rd_core_width :: real
  rd_core_thickness :: real
  rd_core_medium :: 'm
  rd_clad_medium :: 'm
  rd_box_medium :: "'m option"
  rd_slab_thickness :: real
  rd_clad_thickness :: "real option"
  rd_box_thickness :: "real option"
  rd_side_margin :: "real option"
  rd_sidewall_angle :: real
  rd_sidewall_thickness :: real
  rd_sidewall_medium :: "'m option"
  rd_surface_thickness :: real
  rd_surface_medium :: "'m option"
  rd_propagation_axis :: nat
  rd_normal_axis :: nat
  rd_mode_spec :: mode_spec
  rd_grid_resolution :: int
  rd_max_grid_scaling :: real

text \<open>
  An \<open>xarray.DataArray\<close>: its values, the coordinates \<open>y\<close> and \<open>x\<close>, and its name.
\<close>

record data_array =
  da_values :: npy
  da_coords_y :: npy
  da_coords_x :: npy
  da_name :: "string option"

text \<open>
  The library functions the module calls. \<open>custom_serializer\<close> is called by \<open>filepath\<close> and
  \<open>__repr__\<close> but neither defined nor imported in the module: it is a parameter like the
  rest. \<open>md5_hexdigest s\<close> is \<open>hashlib.md5(s.encode()).hexdigest()\<close>. \<open>mode_solver_data\<close>
  is \<open>wg.mode_solver.data\<close> with the properties of \<open>wg\<close> derived from it, which runs the
  mode solver. \<open>epsilon\<close> is \<open>wg.mode_solver.simulation.epsilon(wg.mode_solver.plane, freq)\<close>,
  \<open>outer_dot\<close> the method of the solver's data, and \<open>repr_str\<close> the \<open>repr\<close> of a string.
  \<open>np_sum_abs2 e\<close> is the float64 number that \<open>np.sum(np.abs(e) ** 2)\<close> returns for the
  samples \<open>e\<close>. \<open>np_value v data\<close> is the array that the branch of \<open>plot_field\<close> for the
  value \<open>v\<close> computes from \<open>data\<close> (\<open>data.real\<close>, \<open>data.imag\<close>, \<open>np.abs(data)\<close>, the two
  lines for \<open>dB\<close>, \<open>np.arctan2(data.imag, data.real)\<close>). \<open>DataArray values y x\<close> is
  \<open>xarray.DataArray(values, coords={"y": y, "x": x})\<close>, and \<open>plot a dB\<close> is \<open>a.plot\<close>
  with the keyword arguments (with \<open>vmin=-20\<close> when \<open>dB\<close> holds) followed by
  \<open>set_aspect\<close>. The functions with a result of type \<open>error + 'a\<close> may raise.
\<close>

record ('m, 'w) env =
  custom_serializer :: "'m pyval \<Rightarrow> error + string"
  md5_hexdigest :: "string \<Rightarrow> string"
  get_medium :: "'m material \<Rightarrow> error + 'm"
  eps_model :: "'m \<Rightarrow> float64 \<Rightarrow> complex"
  from_nk :: "real \<Rightarrow> real \<Rightarrow> float64 \<Rightarrow> 'm"
  C_0 :: real
  ModeSpec :: "mode_spec \<Rightarrow> error + mode_spec"
  RectangularDielectric :: "'m rect_args \<Rightarrow> error + 'w"
  mode_solver_data :: "'w \<Rightarrow> error + solver_data"
  epsilon :: "'w \<Rightarrow> float64 ndarray \<Rightarrow> error + complex ndarray"
  outer_dot :: "solver_data \<Rightarrow> solver_data \<Rightarrow> bool \<Rightarrow> error + complex ndarray"
  repr_str :: "string \<Rightarrow> string"
  np_sum_abs2 :: "complex list \<Rightarrow> float64"
  np_value :: "string \<Rightarrow> npy \<Rightarrow> error + npy"
  DataArray :: "npy \<Rightarrow> npy \<Rightarrow> npy \<Rightarrow> error + data_array"
  plot :: "data_array \<Rightarrow> bool \<Rightarrow> error + unit"

text \<open>
  The calls that reach outside the instance, in the order they are made: the trace of a
  run. The number is the identity of the instance that makes the call.
\<close>

datatype call =
    MkDir string
  | LogInfo string
  | NpLoad path
  | NpSavez path
  | Construct nat
  | RunModeSolver nat
  | PlotGrid nat
  | Plot nat string

record world =
  dirs :: "string set"
  files :: "path \<rightharpoonup> npz"
  calls :: "call list"

text \<open>
  An instance: its identity, its declared fields and the two private attributes, \<open>None\<close>
  while the attribute is not set (\<open>hasattr\<close> is false).
\<close>

record ('m, 'w) Waveguide =
  ident :: nat
  cfg :: "'m config"
  private_cached_data :: "npz option"
  private_waveguide :: "'w option"

definition class_name :: string where
  "class_name = ''Waveguide''"

subsection \<open>The cache key and \<open>filepath\<close>\<close>

text \<open>
  The list comprehension of \<open>filepath\<close>: the settings are serialized in the order of the
  names, and the first exception ends it.
\<close>

fun settings :: "('m pyval \<Rightarrow> error + string) \<Rightarrow> 'm config \<Rightarrow> string list \<Rightarrow> error + string list" where
  "settings ser c [] = Inr []"
| "settings ser c (setting # rest) =
     (case ser (getattr c setting) of
        Inl e \<Rightarrow> Inl e
      | Inr v \<Rightarrow>
          (case settings ser c rest of
             Inl e \<Rightarrow> Inl e
           | Inr vs \<Rightarrow> Inr ((setting @ ''='' @ v) # vs)))"

text \<open>\<open>sep.join(xs)\<close>.\<close>

fun join :: "string \<Rightarrow> string list \<Rightarrow> string" where
  "join sep [] = []"
| "join sep [x] = x"
| "join sep (x # y # ys) = x @ sep @ join sep (y # ys)"

text \<open>The key \<open>h\<close> of \<open>filepath\<close>; \<open>sort\<close> is Python's \<open>sorted\<close> on strings.\<close>

definition cache_key :: "('m, 'w) env \<Rightarrow> 'm config \<Rightarrow> error + string" where
  "cache_key E c =
     (case settings (custom_serializer E) c (sort fields_keys) of
        Inl e \<Rightarrow> Inl e
      | Inr ss \<Rightarrow> Inr (take 16 (md5_hexdigest E (join ''_'' ss))))"

definition mkdir :: "string \<Rightarrow> world \<Rightarrow> world" where
  "mkdir d w = w\<lparr>dirs := insert d (dirs w), calls := calls w @ [MkDir d]\<rparr>"

text \<open>\<open>not self.cache_path\<close> holds of \<open>None\<close> and of the empty string.\<close>

definition cache_dir :: "'m config \<Rightarrow> string option" where
  "cache_dir c =
     (case cache_path c of
        None \<Rightarrow> None
      | Some p \<Rightarrow> if p = PathStr [] then None else Some (pathlib_Path p))"

definition filepath ::
  "('m, 'w) env \<Rightarrow> ('m, 'w) Waveguide \<Rightarrow> world \<Rightarrow> (error + path option) \<times> world" where
  "filepath E self w =
     (case cache_dir (cfg self) of
        None \<Rightarrow> (Inr None, w)
      | Some d \<Rightarrow>
          (let w1 = mkdir d w in
           case cache_key E (cfg self) of
             Inl e \<Rightarrow> (Inl e, w1)
           | Inr h \<Rightarrow> (Inr (Some (Path d (class_name @ ''_'' @ h @ ''.npz''))), w1)))"

subsection \<open>The validator of \<open>wavelength\<close>\<close>

text \<open>
  \<open>_fix_wavelength_type\<close> returns \<open>np.array(v, dtype=float)\<close>: a number becomes an array
  of rank 0, a list or a tuple of numbers an array of rank 1, an array stays what it is.
\<close>

datatype wavelength_arg =
    WNumber real
  | WList "real list"
  | WTuple "real list"
  | WArray "real ndarray"

fun fix_wavelength_type :: "wavelength_arg \<Rightarrow> real ndarray" where
  "fix_wavelength_type (WNumber x) = NdArray [] [x]"
| "fix_wavelength_type (WList xs) = NdArray [length xs] xs"
| "fix_wavelength_type (WTuple xs) = NdArray [length xs] xs"
| "fix_wavelength_type (WArray a) = a"

subsection \<open>The property \<open>waveguide\<close>\<close>

definition bind :: "error + 'a \<Rightarrow> ('a \<Rightarrow> error + 'b) \<Rightarrow> error + 'b" where
  "bind r f = (case r of Inl e \<Rightarrow> Inl e | Inr v \<Rightarrow> f v)"

text \<open>\<open>np.mean\<close>; of no elements it is \<open>nan\<close>.\<close>

definition np_mean :: "real ndarray \<Rightarrow> float64" where
  "np_mean a =
     (if flat a = [] then NonFinite else Fl (sum_list (flat a) / real (length (flat a))))"

text \<open>
  A material that is a medium object is used as it is, any other is resolved by
  \<open>get_medium\<close>.
\<close>

definition resolve_medium :: "('m, 'w) env \<Rightarrow> 'm material \<Rightarrow> error + 'm" where
  "resolve_medium E mat = (case mat of MatMedium m \<Rightarrow> Inr m | _ \<Rightarrow> get_medium E mat)"

text \<open>The truth value of \<open>self.box_material\<close> in \<open>if self.box_material\<close>.\<close>

fun truthy_material :: "'m material \<Rightarrow> bool" where
  "truthy_material (MatName s) = (s \<noteq> [])"
| "truthy_material (MatIndex n) = (n \<noteq> 0)"
| "truthy_material (MatNK n k) = True"
| "truthy_material (MatMedium m) = True"

definition truthy_float :: "real option \<Rightarrow> bool" where
  "truthy_float v = (case v of None \<Rightarrow> False | Some x \<Rightarrow> x \<noteq> 0)"

text \<open>The body of the \<open>if not hasattr(self, "_waveguide")\<close> branch, up to the constructor.\<close>

definition build_waveguide :: "('m, 'w) env \<Rightarrow> 'm config \<Rightarrow> error + 'w" where
  "build_waveguide E c =
     bind (resolve_medium E (core_material c)) (\<lambda>core_medium.
     bind (resolve_medium E (clad_material c)) (\<lambda>clad_medium.
     bind (case box_material c of
             None \<Rightarrow> Inr None
           | Some b \<Rightarrow>
               if truthy_material b then map_sum id Some (resolve_medium E b) else Inr None)
       (\<lambda>box_medium.
     let freq0 = fdiv (Fl (C_0 E)) (np_mean (wavelength c));
         n_core = csqrt (eps_model E core_medium freq0);
         n_clad = csqrt (eps_model E clad_medium freq0);
         sidewall_medium =
           (if sidewall_k c \<noteq> 0
            then Some (from_nk E (Re n_clad) (Im n_clad + sidewall_k c) freq0) else None);
         surface_medium =
           (if surface_k c \<noteq> 0
            then Some (from_nk E (Re n_clad) (Im n_clad + surface_k c) freq0) else None)
     in
     bind (ModeSpec E
        \<lparr>ms_num_modes = num_modes c,
         ms_target_neff = Re n_core,
         ms_bend_radius = bend_radius c,
         ms_bend_axis = 1,
         ms_num_pml = (if truthy_float (bend_radius c) then (12, 12) else (0, 0)),
         ms_precision = precision c,
         ms_group_index_step = group_index_step c\<rparr>)
       (\<lambda>mode_spec.
     RectangularDielectric E
        \<lparr>rd_wavelength = wavelength c,
         rd_core_width = core_width c,
         rd_core_thickness = core_thickness c,
         rd_core_medium = core_medium,
         rd_clad_medium = clad_medium,
         rd_box_medium = box_medium,
         rd_slab_thickness = slab_thickness c,
         rd_clad_thickness = clad_thickness c,
         rd_box_thickness = box_thickness c,
         rd_side_margin = side_margin c,
         rd_sidewall_angle = sidewall_angle c,
         rd_sidewall_thickness = sidewall_thickness c,
         rd_sidewall_medium = sidewall_medium,
         rd_surface_thickness = surface_thickness c,
         rd_surface_medium = surface_medium,
         rd_propagation_axis = 2,
         rd_normal_axis = 1,
         rd_mode_spec = mode_spec,
         rd_grid_resolution = grid_resolution c,
         rd_max_grid_scaling = max_grid_scaling c\<rparr>))))"

text \<open>
  The property: the object is built and stored when the attribute is not set, and the
  stored object is returned. An exception of a library leaves the attribute unset.
\<close>

definition waveguide ::
  "('m, 'w) env \<Rightarrow> ('m, 'w) Waveguide \<Rightarrow> world \<Rightarrow>
     (error + 'w) \<times> ('m, 'w) Waveguide \<times> world" where
  "waveguide E self w =
     (case private_waveguide self of
        Some wg \<Rightarrow> (Inr wg, self, w)
      | None \<Rightarrow>
          (case build_waveguide E (cfg self) of
             Inl e \<Rightarrow> (Inl e, self, w)
           | Inr wg \<Rightarrow>
               (Inr wg, self\<lparr>private_waveguide := Some wg\<rparr>,
                w\<lparr>calls := calls w @ [Construct (ident self)]\<rparr>)))"

subsection \<open>The property \<open>_data\<close>\<close>

text \<open>
  The body of the loop over the modes, for the two numbers
  \<open>np.sum(np.abs(e) ** 2)\<close> of \<open>Ex\<close> and \<open>Ey\<close>: they are divided by their sum, multiplied
  by 100, and the two quotients by their sum are stored in \<open>fraction_te[i]\<close> and
  \<open>fraction_tm[i]\<close>. Every operation is one of float64 and rounds.
\<close>

definition mode_fractions :: "float64 \<Rightarrow> float64 \<Rightarrow> float64 \<times> float64" where
  "mode_fractions a0 a1 =
     (let areas_e = [a0, a1];
          total = np_sum areas_e;
          areas_n = map (\<lambda>a. fdiv64 a total) areas_e;
          areas_p = map (\<lambda>a. fmul64 a (Fl 100)) areas_n
      in (fdiv64 (areas_p ! 0) (fadd64 (areas_p ! 0) (areas_p ! 1)),
          fdiv64 (areas_p ! 1) (fadd64 (areas_p ! 0) (areas_p ! 1))))"

text \<open>The loop \<open>for i in range(self.num_modes)\<close>; a mode the solver has not raises.\<close>

fun fractions_loop ::
  "('m, 'w) env \<Rightarrow> solver_data \<Rightarrow> nat list \<Rightarrow> error + (float64 \<times> float64) list" where
  "fractions_loop E sd [] = Inr []"
| "fractions_loop E sd (i # rest) =
     (case field_sel sd ''Ex'' i of
        None \<Rightarrow> Inl (KeyError ''mode_index'')
      | Some ex \<Rightarrow>
          (case field_sel sd ''Ey'' i of
             None \<Rightarrow> Inl (KeyError ''mode_index'')
           | Some ey \<Rightarrow>
               (case fractions_loop E sd rest of
                  Inl e \<Rightarrow> Inl e
                | Inr fr \<Rightarrow>
                    Inr (mode_fractions (np_sum_abs2 E ex) (np_sum_abs2 E ey) # fr))))"

text \<open>The keys \<open>f + c for f in "EH" for c in "xyz"\<close>.\<close>

definition field_names :: "string list" where
  "field_names = [[f, c]. f \<leftarrow> ''EH'', c \<leftarrow> ''xyz'']"

text \<open>
  The dict as it stands when \<open>np.zeros(self.num_modes)\<close> is reached: the six fields, the
  coordinates, \<open>n_eff\<close> and \<open>mode_area\<close>. It is already assigned to \<open>self._cached_data\<close>.
\<close>

definition partial_dict :: "solver_data \<Rightarrow> npz" where
  "partial_dict sd =
     (map_of (map (\<lambda>k. (k, field_values sd k)) field_names))
       (''x'' \<mapsto> coords_x sd, ''y'' \<mapsto> coords_y sd,
        ''n_eff'' \<mapsto> n_complex sd, ''mode_area'' \<mapsto> wg_mode_area sd)"

text \<open>
  The rest of the collection: the fractions and the group index. \<open>np.zeros\<close> raises on a
  negative size.
\<close>

definition collect :: "('m, 'w) env \<Rightarrow> 'm config \<Rightarrow> solver_data \<Rightarrow> error + npz" where
  "collect E c sd =
     (if num_modes c < 0 then Inl (ValueError ''negative dimensions are not allowed'')
      else
        case fractions_loop E sd [0 ..< nat (num_modes c)] of
          Inl e \<Rightarrow> Inl e
        | Inr fr \<Rightarrow>
            (let n = nat (num_modes c);
                 d = (partial_dict sd)
                       (''fraction_te'' \<mapsto> RealArr (NdArray [n] (map fst fr)),
                        ''fraction_tm'' \<mapsto> RealArr (NdArray [n] (map snd fr)))
             in Inr (case wg_n_group sd of None \<Rightarrow> d | Some g \<Rightarrow> d(''n_group'' \<mapsto> g))))"

text \<open>\<open>filepath and filepath.exists() and not self.overwrite\<close>: the file to load, if any.\<close>

definition cached_file :: "'m config \<Rightarrow> path option \<Rightarrow> world \<Rightarrow> (path \<times> npz) option" where
  "cached_file c fp w =
     (case fp of
        None \<Rightarrow> None
      | Some p \<Rightarrow>
          (case files w p of
             None \<Rightarrow> None
           | Some d \<Rightarrow> if overwrite c then None else Some (p, d)))"

text \<open>
  The property. The archive that \<open>np.savez\<close> writes and \<open>np.load\<close> reads is the mapping
  itself (the format stores the arrays bit for bit). An exception after the assignment of
  the dict leaves the partial dict in \<open>_cached_data\<close>.
\<close>

text \<open>
  The parts of the body of \<open>_data\<close>: a call is appended to the trace; \<open>store\<close> is the
  final \<open>if filepath:\<close> with the log line and \<open>np.savez\<close>; \<open>compute_data\<close> is the body from
  \<open>wg = self.waveguide\<close> to the end, for the file path \<open>fp\<close> read before.
\<close>

definition log_call :: "call list \<Rightarrow> world \<Rightarrow> world" where
  "log_call cs w = w\<lparr>calls := calls w @ cs\<rparr>"

definition store :: "path option \<Rightarrow> npz \<Rightarrow> world \<Rightarrow> world" where
  "store fp d w =
     (case fp of
        None \<Rightarrow> w
      | Some p \<Rightarrow>
          log_call [LogInfo (''store data into '' @ path_str p @ ''.''), NpSavez p]
            (w\<lparr>files := (files w)(p \<mapsto> d)\<rparr>))"

definition compute_data ::
  "('m, 'w) env \<Rightarrow> path option \<Rightarrow> ('m, 'w) Waveguide \<Rightarrow> world \<Rightarrow>
     (error + npz) \<times> ('m, 'w) Waveguide \<times> world" where
  "compute_data E fp self w =
     (case waveguide E self w of
        (Inl e, self1, w2) \<Rightarrow> (Inl e, self1, w2)
      | (Inr wg, self1, w2) \<Rightarrow>
          (let w3 = log_call [RunModeSolver (ident self)] w2 in
           case mode_solver_data E wg of
             Inl e \<Rightarrow> (Inl e, self1, w3)
           | Inr sd \<Rightarrow>
               (case collect E (cfg self) sd of
                  Inl e \<Rightarrow> (Inl e, self1\<lparr>private_cached_data := Some (partial_dict sd)\<rparr>, w3)
                | Inr d \<Rightarrow> (Inr d, self1\<lparr>private_cached_data := Some d\<rparr>, store fp d w3))))"

definition private_data ::
  "('m, 'w) env \<Rightarrow> ('m, 'w) Waveguide \<Rightarrow> world \<Rightarrow>
     (error + npz) \<times> ('m, 'w) Waveguide \<times> world" where
  "private_data E self w =
     (case private_cached_data self of
        Some d \<Rightarrow> (Inr d, self, w)
      | None \<Rightarrow>
          (case filepath E self w of
             (Inl e, w1) \<Rightarrow> (Inl e, self, w1)
           | (Inr fp, w1) \<Rightarrow>
               (case cached_file (cfg self) fp w1 of
                  Some (p, d) \<Rightarrow>
                    (Inr d, self\<lparr>private_cached_data := Some d\<rparr>,
                     log_call [LogInfo (''load data from '' @ path_str p @ ''.''), NpLoad p] w1)
                | None \<Rightarrow> compute_data E fp self w1)))"

text \<open>\<open>self._data[key]\<close> and the accessors built on it.\<close>

definition getitem :: "npz \<Rightarrow> string \<Rightarrow> error + npy" where
  "getitem d k = (case d k of None \<Rightarrow> Inl (KeyError k) | Some v \<Rightarrow> Inr v)"

definition data_item ::
  "string \<Rightarrow> ('m, 'w) env \<Rightarrow> ('m, 'w) Waveguide \<Rightarrow> world \<Rightarrow>
     (error + npy) \<times> ('m, 'w) Waveguide \<times> world" where
  "data_item k E self w =
     (case private_data E self w of
        (Inl e, self1, w1) \<Rightarrow> (Inl e, self1, w1)
      | (Inr d, self1, w1) \<Rightarrow> (getitem d k, self1, w1))"

definition fraction_te where "fraction_te = data_item ''fraction_te''"

definition fraction_tm where "fraction_tm = data_item ''fraction_tm''"

definition n_eff where "n_eff = data_item ''n_eff''"

definition mode_area where "mode_area = data_item ''mode_area''"

text \<open>\<open>self._data.get("n_group", None)\<close>.\<close>

definition n_group ::
  "('m, 'w) env \<Rightarrow> ('m, 'w) Waveguide \<Rightarrow> world \<Rightarrow>
     (error + npy option) \<times> ('m, 'w) Waveguide \<times> world" where
  "n_group E self w =
     (case private_data E self w of
        (Inl e, self1, w1) \<Rightarrow> (Inl e, self1, w1)
      | (Inr d, self1, w1) \<Rightarrow> (Inr (d ''n_group''), self1, w1))"

subsection \<open>The accessor \<open>loss_dB_per_cm\<close>\<close>

text \<open>\<open>np.imag\<close>; the imaginary part of an array of dtype float is zero.\<close>

definition np_imag :: "npy \<Rightarrow> real ndarray" where
  "np_imag v = (case v of ComplexArr a \<Rightarrow> nd_map Im a | RealArr a \<Rightarrow> nd_map (\<lambda>x. 0) a)"

text \<open>
  The three lines of the property, with the operations in the order Python applies them:
  \<open>(2 * np.pi) * imag.T\<close>, then the division, and
  \<open>((20 * np.log10(np.e)) * alpha.T) * 1e-2\<close>.
\<close>

definition loss_dB_per_cm ::
  "('m, 'w) env \<Rightarrow> ('m, 'w) Waveguide \<Rightarrow> world \<Rightarrow>
     (error + float64 ndarray) \<times> ('m, 'w) Waveguide \<times> world" where
  "loss_dB_per_cm E self w =
     (let wavelength_m = nd_map (\<lambda>x. x * (1 / 10 ^ 6)) (wavelength (cfg self)) in
      case n_eff E self w of
        (Inl e, self1, w1) \<Rightarrow> (Inl e, self1, w1)
      | (Inr n, self1, w1) \<Rightarrow>
          (bind (nd_binop (\<lambda>a b. fdiv (Fl a) (Fl b))
                   (nd_map (\<lambda>x. 2 * pi * x) (nd_T (np_imag n))) wavelength_m)
             (\<lambda>alpha.
                Inr (nd_map (\<lambda>x. fmul (fmul (Fl (20 * log 10 (exp 1))) x) (Fl (1 / 10 ^ 2)))
                       (nd_T alpha))),
           self1, w1))"

subsection \<open>The property \<open>index\<close> and \<open>overlap\<close>\<close>

text \<open>\<open>a[i]\<close> for \<open>i \<ge> 0\<close>: the index selects along the first axis.\<close>

definition index_first :: "'a ndarray \<Rightarrow> nat \<Rightarrow> error + 'a ndarray" where
  "index_first a i =
     (case shape a of
        [] \<Rightarrow> Inl IndexError
      | n # rest \<Rightarrow>
          if i < n
          then Inr (NdArray rest (take (prod_list rest) (drop (i * prod_list rest) (flat a))))
          else Inl IndexError)"

definition index ::
  "('m, 'w) env \<Rightarrow> ('m, 'w) Waveguide \<Rightarrow> world \<Rightarrow>
     (error + complex ndarray) \<times> ('m, 'w) Waveguide \<times> world" where
  "index E self w =
     (case waveguide E self w of
        (Inl e, self1, w1) \<Rightarrow> (Inl e, self1, w1)
      | (Inr wg, self1, w1) \<Rightarrow>
          (let size = length (flat (wavelength (cfg self)));
               wl = (if size > 1 then index_first (wavelength (cfg self)) (size div 2)
                     else Inr (wavelength (cfg self)))
           in (bind wl (\<lambda>wl.
               bind (epsilon E wg (nd_map (\<lambda>x. fdiv (Fl (C_0 E)) (Fl x)) wl)) (\<lambda>eps.
               Inr (nd_map csqrt (nd_T (squeeze eps))))),
               self1, w1)))"

text \<open>
  \<open>overlap\<close> is given another instance, which may be this very object. Instances are
  objects of a heap: \<open>h i\<close> is the instance of identity \<open>i\<close>, and an assignment to a
  private attribute updates the heap at \<open>i\<close>. The method reads the simulation object and
  the solver's data of this instance, then those of the other one, as the first access
  has left it.
\<close>

type_synonym ('m, 'w) heap = "nat \<Rightarrow> ('m, 'w) Waveguide"

definition overlap ::
  "('m, 'w) env \<Rightarrow> nat \<Rightarrow> nat \<Rightarrow> bool \<Rightarrow> ('m, 'w) heap \<Rightarrow> world \<Rightarrow>
     (error + complex ndarray) \<times> ('m, 'w) heap \<times> world" where
  "overlap E i j conjugate h w =
     (case waveguide E (h i) w of
        (Inl e, self1, w1) \<Rightarrow> (Inl e, h(i := self1), w1)
      | (Inr wg, self1, w1) \<Rightarrow>
          (let h1 = h(i := self1);
               w2 = log_call [RunModeSolver (ident (h i))] w1 in
           case mode_solver_data E wg of
             Inl e \<Rightarrow> (Inl e, h1, w2)
           | Inr self_data \<Rightarrow>
               (case waveguide E (h1 j) w2 of
                  (Inl e, other1, w3) \<Rightarrow> (Inl e, h1(j := other1), w3)
                | (Inr wg', other1, w3) \<Rightarrow>
                    (let h2 = h1(j := other1);
                         w4 = log_call [RunModeSolver (ident (h1 j))] w3 in
                     case mode_solver_data E wg' of
                       Inl e \<Rightarrow> (Inl e, h2, w4)
                     | Inr other_data \<Rightarrow>
                         (bind (outer_dot E self_data other_data conjugate)
                            (\<lambda>r. Inr (squeeze r)),
                          h2, w4)))))"

subsection \<open>Plots\<close>

text \<open>
  What is drawn is not modelled: a plot that has succeeded is the call \<open>Plot\<close> or
  \<open>PlotGrid\<close> in the trace, and the artist it returns is \<open>()\<close>.
\<close>

definition plot_grid ::
  "('m, 'w) env \<Rightarrow> ('m, 'w) Waveguide \<Rightarrow> world \<Rightarrow>
     (error + unit) \<times> ('m, 'w) Waveguide \<times> world" where
  "plot_grid E self w =
     (case waveguide E self w of
        (Inl e, self1, w1) \<Rightarrow> (Inl e, self1, w1)
      | (Inr wg, self1, w1) \<Rightarrow> (Inr (), self1, log_call [PlotGrid (ident self)] w1))"

definition plot_index ::
  "('m, 'w) env \<Rightarrow> ('m, 'w) Waveguide \<Rightarrow> world \<Rightarrow>
     (error + unit) \<times> ('m, 'w) Waveguide \<times> world" where
  "plot_index E self w =
     (case index E self w of
        (Inl e, self1, w1) \<Rightarrow> (Inl e, self1, w1)
      | (Inr idx, self1, w1) \<Rightarrow> (Inr (), self1, log_call [Plot (ident self) ''index''] w1))"

definition ipython_display where
  "ipython_display = plot_index"

text \<open>\<open>data[..., i]\<close>: the index selects along the last axis, a negative one from its end.\<close>

definition index_last :: "'a ndarray \<Rightarrow> int \<Rightarrow> error + 'a ndarray" where
  "index_last a i =
     (case rev (shape a) of
        [] \<Rightarrow> Inl IndexError
      | n # rest \<Rightarrow>
          (let j = (if i < 0 then i + int n else i) in
           if 0 \<le> j \<and> j < int n
           then Inr (NdArray (rev rest)
                  (map (\<lambda>k. flat a ! (k * n + nat j)) [0 ..< prod_list rest]))
           else Inl IndexError))"

definition npy_index_last :: "npy \<Rightarrow> int \<Rightarrow> error + npy" where
  "npy_index_last v i =
     (case v of
        RealArr a \<Rightarrow> map_sum id RealArr (index_last a i)
      | ComplexArr a \<Rightarrow> map_sum id ComplexArr (index_last a i))"

text \<open>\<open>np.argmin\<close>: the position of the first least element.\<close>

fun argmin_from :: "nat \<Rightarrow> float64 \<Rightarrow> nat \<Rightarrow> float64 list \<Rightarrow> nat" where
  "argmin_from best v i [] = best"
| "argmin_from best v i (x # xs) =
     (if fless x v then argmin_from i x (Suc i) xs else argmin_from best v (Suc i) xs)"

definition argmin :: "float64 list \<Rightarrow> nat" where
  "argmin xs = (case xs of [] \<Rightarrow> 0 | x # rest \<Rightarrow> argmin_from 0 x 1 rest)"

text \<open>The decimal digits of an integer, for the message of the ValueError.\<close>

fun str_nat :: "nat \<Rightarrow> string" where
  "str_nat n =
     (if n < 10 then [char_of (48 + n)] else str_nat (n div 10) @ [char_of (48 + n mod 10)])"

definition str_int :: "int \<Rightarrow> string" where
  "str_int i = (if i < 0 then ''-'' @ str_nat (nat (- i)) else str_nat (nat i))"

definition quoted :: "string \<Rightarrow> string" where
  "quoted s = [CHR 0x27] @ s @ [CHR 0x27]"

definition value_message :: string where
  "value_message =
     ''value must be one of ''
       @ join '', '' (map quoted [''real'', ''imag'', ''abs'', ''phase'', ''dB''])"

text \<open>
  The body of \<open>plot_field\<close> after the first reading of \<open>self._data\<close>. The statements are
  in the order of the source: the lookup \<open>self._data[field_name]\<close> comes first, the check
  of \<open>mode_index\<close> second, the two selections next (the difference
  \<open>wavelength - self.wavelength\<close> is one of float64), then the branch of \<open>value\<close> with its
  ValueError, the coordinates and the construction of the \<open>DataArray\<close> from the transposed
  array, the assignment of the name, and the plot. The second reading of \<open>self._data\<close>
  finds the mapping of the first.
\<close>

definition plot_field_body ::
  "('m, 'w) env \<Rightarrow> 'm config \<Rightarrow> npz \<Rightarrow> string \<Rightarrow> string \<Rightarrow> int \<Rightarrow> real option \<Rightarrow>
     error + unit" where
  "plot_field_body E c d field_name val mode_index wl =
     bind (getitem d field_name) (\<lambda>data.
     if mode_index \<ge> num_modes c
     then Inl (ValueError (''mode_index = '' @ str_int mode_index
                  @ '' must be less than num_modes '' @ str_int (num_modes c)))
     else
     bind (if num_modes c > 1 then npy_index_last data mode_index else Inr data) (\<lambda>data.
     bind (if length (flat (wavelength c)) > 1
           then npy_index_last data
                  (if truthy_float wl
                   then int (argmin (map (\<lambda>x. fabs (fl64 (the wl - x))) (flat (wavelength c))))
                   else int (length (flat (wavelength c)) div 2))
           else Inr data) (\<lambda>data.
     if val \<notin> {''real'', ''imag'', ''abs'', ''dB'', ''phase''}
     then Inl (ValueError value_message)
     else
     bind (np_value E val data) (\<lambda>data.
     bind (getitem d ''y'') (\<lambda>y.
     bind (getitem d ''x'') (\<lambda>x.
     bind (DataArray E (npy_T data) y x) (\<lambda>data_array.
     plot E (data_array\<lparr>da_name := Some field_name\<rparr>) (val = ''dB''))))))))"

definition plot_field ::
  "('m, 'w) env \<Rightarrow> ('m, 'w) Waveguide \<Rightarrow> string \<Rightarrow> string \<Rightarrow> int \<Rightarrow> real option \<Rightarrow> world \<Rightarrow>
     (error + unit) \<times> ('m, 'w) Waveguide \<times> world" where
  "plot_field E self field_name val mode_index wl w =
     (case private_data E self w of
        (Inl e, self1, w1) \<Rightarrow> (Inl e, self1, w1)
      | (Inr d, self1, w1) \<Rightarrow>
          (case plot_field_body E (cfg self) d field_name val mode_index wl of
             Inl e \<Rightarrow> (Inl e, self1, w1)
           | Inr u \<Rightarrow> (Inr (), self1, log_call [Plot (ident self) field_name] w1)))"

subsection \<open>\<open>__repr__\<close> and \<open>__str__\<close>\<close>

definition repr ::
  "('m, 'w) env \<Rightarrow> ('m, 'w) Waveguide \<Rightarrow> error + string" where
  "repr E self =
     bind (settings (\<lambda>v. map_sum id (repr_str E) (custom_serializer E v)) (cfg self) fields_keys)
       (\<lambda>ss. Inr (class_name @ ''('' @ join '', '' ss @ '')''))"

definition str where
  "str = repr"

subsection \<open>The calls a client can make\<close>

text \<open>
  Every property and method of the class, and what a call of it on the instance \<open>h i\<close>
  does to the heap and to the world; the value it returns or the exception it raises is
  dropped here. A run is a sequence of calls, each on an instance of the heap.
\<close>

datatype operation =
    Get_filepath
  | Get_waveguide
  | Get_data
  | Get_fraction_te
  | Get_fraction_tm
  | Get_n_eff
  | Get_n_group
  | Get_mode_area
  | Get_loss_dB_per_cm
  | Get_index
  | Call_overlap nat bool
  | Call_plot_grid
  | Call_plot_index
  | Call_plot_field string string int "real option"
  | Call_ipython_display
  | Call_repr
  | Call_str

definition on_self ::
  "(('m, 'w) Waveguide \<Rightarrow> world \<Rightarrow> 'r \<times> ('m, 'w) Waveguide \<times> world) \<Rightarrow>
     nat \<Rightarrow> ('m, 'w) heap \<Rightarrow> world \<Rightarrow> ('m, 'w) heap \<times> world" where
  "on_self m i h w = (case m (h i) w of (r, self1, w1) \<Rightarrow> (h(i := self1), w1))"

fun exec ::
  "('m, 'w) env \<Rightarrow> nat \<Rightarrow> operation \<Rightarrow> ('m, 'w) heap \<Rightarrow> world \<Rightarrow>
     ('m, 'w) heap \<times> world" where
  "exec E i Get_filepath h w = (h, snd (filepath E (h i) w))"
| "exec E i Get_waveguide h w = on_self (waveguide E) i h w"
| "exec E i Get_data h w = on_self (private_data E) i h w"
| "exec E i Get_fraction_te h w = on_self (fraction_te E) i h w"
| "exec E i Get_fraction_tm h w = on_self (fraction_tm E) i h w"
| "exec E i Get_n_eff h w = on_self (n_eff E) i h w"
| "exec E i Get_n_group h w = on_self (n_group E) i h w"
| "exec E i Get_mode_area h w = on_self (mode_area E) i h w"
| "exec E i Get_loss_dB_per_cm h w = on_self (loss_dB_per_cm E) i h w"
| "exec E i Get_index h w = on_self (index E) i h w"
| "exec E i (Call_overlap j conjugate) h w = snd (overlap E i j conjugate h w)"
| "exec E i Call_plot_grid h w = on_self (plot_grid E) i h w"
| "exec E i Call_plot_index h w = on_self (plot_index E) i h w"
| "exec E i (Call_plot_field field_name val mode_index wl) h w =
     on_self (\<lambda>self. plot_field E self field_name val mode_index wl) i h w"
| "exec E i Call_ipython_display h w = on_self (ipython_display E) i h w"
| "exec E i Call_repr h w = (h, w)"
| "exec E i Call_str h w = (h, w)"

fun run ::
  "('m, 'w) env \<Rightarrow> (nat \<times> operation) list \<Rightarrow> ('m, 'w) heap \<Rightarrow> world \<Rightarrow>
     ('m, 'w) heap \<times> world" where
  "run E [] h w = (h, w)"
| "run E ((i, op) # cs) h w = (case exec E i op h w of (h1, w1) \<Rightarrow> run E cs h1 w1)"

text \<open>
  The calls whose body starts by reading \<open>self.waveguide\<close>. The other accessors read
  \<open>self._data\<close>, which reads \<open>self.waveguide\<close> only when no cache file is loaded.
\<close>

fun reads_waveguide :: "operation \<Rightarrow> bool" where
  "reads_waveguide Get_waveguide = True"
| "reads_waveguide Get_index = True"
| "reads_waveguide (Call_overlap j conjugate) = True"
| "reads_waveguide Call_plot_grid = True"
| "reads_waveguide Call_plot_index = True"
| "reads_waveguide Call_ipython_display = True"
| "reads_waveguide _ = False"

text \<open>The number of times the simulation object of the instance \<open>i\<close> was constructed.\<close>

definition constructions :: "nat \<Rightarrow> call list \<Rightarrow> nat" where
  "constructions i cs = length (filter (\<lambda>c. c = Construct i) cs)"

subsection \<open>Reference values\<close>

text \<open>The declared names in lexicographic order, and the digits of a hexadecimal digest.\<close>

definition sorted_keys :: "string list" where
  "sorted_keys =
     [''bend_radius'', ''box_material'', ''box_thickness'', ''cache_path'',
      ''clad_material'', ''clad_thickness'', ''core_material'', ''core_thickness'',
      ''core_width'', ''grid_resolution'', ''group_index_step'', ''max_grid_scaling'',
      ''num_modes'', ''overwrite'', ''precision'', ''side_margin'', ''sidewall_angle'',
      ''sidewall_k'', ''sidewall_thickness'', ''slab_thickness'', ''surface_k'',
      ''surface_thickness'', ''wavelength'']"

definition hexdigits :: string where
  "hexdigits = ''0123456789abcdef''"

text \<open>
  1 when the attribute \<open>_waveguide\<close> is set. A step from \<open>(self, w)\<close> to \<open>(self', w')\<close>
  keeps the memo when it keeps the identity and the declared fields, keeps a simulation
  object that is set, constructs one for this instance exactly when it sets the
  attribute, and constructs none for another identity. A step from a heap to a heap keeps
  the memo when it does so for every instance.
\<close>

definition built :: "('m, 'w) Waveguide \<Rightarrow> nat" where
  "built self = (case private_waveguide self of None \<Rightarrow> 0 | Some wg \<Rightarrow> 1)"

definition memo_step ::
  "('m, 'w) Waveguide \<Rightarrow> world \<Rightarrow> ('m, 'w) Waveguide \<Rightarrow> world \<Rightarrow> bool" where
  "memo_step self w self' w' =
     (ident self' = ident self \<and> cfg self' = cfg self
      \<and> (\<forall>wg. private_waveguide self = Some wg \<longrightarrow> private_waveguide self' = Some wg)
      \<and> constructions (ident self) (calls w') + built self
          = constructions (ident self) (calls w) + built self'
      \<and> (\<forall>k. k \<noteq> ident self \<longrightarrow> constructions k (calls w') = constructions k (calls w)))"

definition memo_heap ::
  "('m, 'w) heap \<Rightarrow> world \<Rightarrow> ('m, 'w) heap \<Rightarrow> world \<Rightarrow> bool" where
  "memo_heap h w h' w' =
     (\<forall>k. ident (h' k) = ident (h k) \<and> cfg (h' k) = cfg (h k)
        \<and> (\<forall>wg. private_waveguide (h k) = Some wg \<longrightarrow> private_waveguide (h' k) = Some wg)
        \<and> constructions k (calls w') + built (h k)
            = constructions k (calls w) + built (h' k))"

section \<open>Example inputs\<close>

text \<open>
  A library environment and two configurations to evaluate the model on. The serializer
  and the digest of the example are stand-ins: the theorems below hold for every
  environment.
\<close>

fun ex_serializer :: "nat pyval \<Rightarrow> error + string" where
  "ex_serializer PyNone = Inr ''None''"
| "ex_serializer (PyBool b) = Inr (if b then ''True'' else ''False'')"
| "ex_serializer (PyStr s) = Inr s"
| "ex_serializer (PyPath s) = Inr s"
| "ex_serializer (PyInt i) = Inr (if i = 2 then ''2'' else if i = 20 then ''20'' else ''int'')"
| "ex_serializer (PyFloat x) = Inr ''float''"
| "ex_serializer (PyTuple vs) = Inr ''tuple''"
| "ex_serializer (PyArray a) = Inr ''array''"
| "ex_serializer (PyMedium m) = Inr ''medium''"

definition ex_solver_data :: solver_data where
  "ex_solver_data =
     \<lparr>field_values = (\<lambda>F. ComplexArr (NdArray [2, 2] [1, 0, 0, 1])),
      field_sel = (\<lambda>F i. if i < 2
                   then Some (if F = ''Ex'' then [Complex 3 4, 0] else [0, Complex 0 5])
                   else None),
      coords_x = RealArr (NdArray [1] [Fl 0]),
      coords_y = RealArr (NdArray [2] [Fl 0, Fl 1]),
      n_complex = ComplexArr (NdArray [2] [Complex 2 (1/10), Complex (3/2) (1/5)]),
      wg_mode_area = RealArr (NdArray [2] [Fl 1, Fl 2]),
      wg_n_group = None\<rparr>"

text \<open>
  The sum of the squared moduli, for samples on which every float64 operation of
  \<open>np.sum(np.abs(e) ** 2)\<close> is exact (small integers and Gaussian integers of integer
  modulus).
\<close>

definition ex_sum_abs2 :: "complex list \<Rightarrow> float64" where
  "ex_sum_abs2 e = Fl (\<Sum>z\<leftarrow>e. (cmod z)\<^sup>2)"

definition ex_env :: "(nat, nat) env" where
  "ex_env =
     \<lparr>custom_serializer = ex_serializer,
      md5_hexdigest = (\<lambda>s. ''0123456789abcdef0123456789abcdef''),
      get_medium = (\<lambda>m. Inr 0),
      eps_model = (\<lambda>m f. 4),
      from_nk = (\<lambda>n k f. 1),
      C_0 = 299792458 * 10 ^ 6,
      ModeSpec = Inr,
      RectangularDielectric = (\<lambda>args. Inr 7),
      mode_solver_data = (\<lambda>wg. Inr ex_solver_data),
      epsilon = (\<lambda>wg f. Inr (NdArray [1, 2] [4, 9])),
      outer_dot = (\<lambda>a b c. Inr (NdArray [1] [1])),
      repr_str = (\<lambda>s. [CHR 0x27] @ s @ [CHR 0x27]),
      np_sum_abs2 = ex_sum_abs2,
      np_value = (\<lambda>v data. Inr data),
      DataArray = (\<lambda>values y x.
        Inr \<lparr>da_values = values, da_coords_y = y, da_coords_x = x, da_name = None\<rparr>),
      plot = (\<lambda>a dB. Inr ())\<rparr>"

definition ex_config :: "wavelength_arg \<Rightarrow> nat config" where
  "ex_config v =
     \<lparr>wavelength = fix_wavelength_type v,
      core_width = 1, core_thickness = 3 / 10,
      core_material = MatName ''sin'', clad_material = MatName ''sio2'',
      box_material = None,
      slab_thickness = 0, clad_thickness = None, box_thickness = None, side_margin = None,
      sidewall_angle = 0, sidewall_thickness = 0, sidewall_k = 0,
      surface_thickness = 0, surface_k = 0,
      bend_radius = None, num_modes = 2, group_index_step = StepBool False,
      precision = ''double'', grid_resolution = 20, max_grid_scaling = 6 / 5,
      cache_path = Some (PathStr ''modes''), overwrite = False\<rparr>"

definition ex_self :: "wavelength_arg \<Rightarrow> (nat, nat) Waveguide" where
  "ex_self v =
     \<lparr>ident = 0, cfg = ex_config v, private_cached_data = None, private_waveguide = None\<rparr>"

definition ex_world :: world where
  "ex_world = \<lparr>dirs = {}, files = Map.empty, calls = []\<rparr>"

definition ex_nocache :: "(nat, nat) Waveguide" where
  "ex_nocache =
     \<lparr>ident = 1, cfg = (ex_config (WNumber (31 / 20)))\<lparr>cache_path := None\<rparr>,
      private_cached_data = None, private_waveguide = None\<rparr>"

definition ex_path :: path where
  "ex_path = Path ''modes'' ''Waveguide_0123456789abcdef.npz''"

definition ex_npz :: npz where
  "ex_npz = [''n_eff'' \<mapsto> ComplexArr (NdArray [] [Complex 2 0])]"

definition ex_world_cached :: world where
  "ex_world_cached = \<lparr>dirs = {''modes''}, files = [ex_path \<mapsto> ex_npz], calls = []\<rparr>"

definition ex_other :: "(nat, nat) Waveguide" where
  "ex_other =
     \<lparr>ident = 5, cfg = ex_config (WList [31 / 20]), private_cached_data = None,
      private_waveguide = None\<rparr>"

text \<open>A heap of instances without cache directory, and one with the instance \<open>ex_self\<close>.\<close>

definition ex_heap :: "(nat, nat) heap" where
  "ex_heap k = ex_nocache\<lparr>ident := k\<rparr>"

definition ex_heap_cached :: "(nat, nat) heap" where
  "ex_heap_cached k = (ex_self (WNumber (31 / 20)))\<lparr>ident := k\<rparr>"

text \<open>
  A solver whose modes have the field \<open>Ex\<close> of energy 1 and the field \<open>Ey\<close> of energy 14.
\<close>

definition round_solver_data :: solver_data where
  "round_solver_data =
     ex_solver_data\<lparr>field_sel :=
       (\<lambda>F i. if i < 2 then Some (if F = ''Ex'' then [1, 0, 0] else [3, 2, 1]) else None)\<rparr>"

definition round_env :: "(nat, nat) env" where
  "round_env = ex_env\<lparr>mode_solver_data := (\<lambda>wg. Inr round_solver_data)\<rparr>"

section \<open>Properties\<close>

subsection \<open>The cache key\<close>

lemma settings_cong:
  "(\<And>n. n \<in> set ns \<Longrightarrow> ser (getattr c n) = ser (getattr c' n)) \<Longrightarrow>
   settings ser c ns = settings ser c' ns"
  by (induction ns) (simp_all split: sum.splits)

lemma cache_key_cong:
  assumes "\<And>n. n \<in> set fields_keys \<Longrightarrow>
             custom_serializer E (getattr c n) = custom_serializer E (getattr c' n)"
  shows "cache_key E c = cache_key E c'"
proof -
  have "settings (custom_serializer E) c (sort fields_keys)
      = settings (custom_serializer E) c' (sort fields_keys)"
    by (rule settings_cong) (simp add: assms)
  then show ?thesis
    by (simp add: cache_key_def)
qed

text \<open>
  Claim C1. Two configurations whose declared fields all serialize to the same values
  derive the same cache key, whatever the serializer and the digest are. Hence the cache
  files of the two have the same name, and the same path when the two use the same cache
  directory: the directory of the path is \<open>cache_path\<close> itself, not a part of the key.
  Configurations built from a list, a tuple or an array of the same wavelengths have the
  same \<open>wavelength\<close> field, so they are a case of this.
\<close>

theorem filepath_same_serialization:
  assumes "\<forall>n \<in> set fields_keys.
             custom_serializer E (getattr (cfg a) n) = custom_serializer E (getattr (cfg b) n)"
  shows "cache_key E (cfg a) = cache_key E (cfg b)
       \<and> (\<forall>p q. fst (filepath E a w) = Inr (Some p) \<and> fst (filepath E b w') = Inr (Some q)
              \<longrightarrow> name p = name q)
       \<and> (cache_dir (cfg a) = cache_dir (cfg b)
              \<longrightarrow> fst (filepath E a w) = fst (filepath E b w'))"
proof -
  have key: "cache_key E (cfg a) = cache_key E (cfg b)"
    using assms by (intro cache_key_cong) simp
  have names: "name p = name q"
    if "fst (filepath E a w) = Inr (Some p)" "fst (filepath E b w') = Inr (Some q)" for p q
    using that key
    by (auto simp: filepath_def Let_def split: option.splits sum.splits)
  have paths: "fst (filepath E a w) = fst (filepath E b w')"
    if "cache_dir (cfg a) = cache_dir (cfg b)"
    using that key
    by (auto simp: filepath_def Let_def split: option.splits sum.splits)
  show ?thesis
    using key names paths by blast
qed

theorem filepath_same_serialization_witness:
  "cache_key ex_env (cfg (ex_self (WList [31 / 20, 8 / 5])))
     = cache_key ex_env (cfg (ex_self (WTuple [31 / 20, 8 / 5])))
   \<and> fst (filepath ex_env (ex_self (WList [31 / 20, 8 / 5])) ex_world)
     = fst (filepath ex_env (ex_self (WTuple [31 / 20, 8 / 5])) ex_world)"
proof -
  have same: "cfg (ex_self (WList [31 / 20, 8 / 5])) = cfg (ex_self (WTuple [31 / 20, 8 / 5]))"
    by (simp add: ex_self_def ex_config_def)
  have hyp: "\<forall>n \<in> set fields_keys.
      custom_serializer ex_env (getattr (cfg (ex_self (WList [31 / 20, 8 / 5]))) n)
    = custom_serializer ex_env (getattr (cfg (ex_self (WTuple [31 / 20, 8 / 5]))) n)"
    by (simp add: same)
  have dir: "cache_dir (cfg (ex_self (WList [31 / 20, 8 / 5])))
           = cache_dir (cfg (ex_self (WTuple [31 / 20, 8 / 5])))"
    by (simp add: same)
  from filepath_same_serialization [OF hyp, of ex_world ex_world] dir
  show ?thesis by blast
qed

lemma sort_fields_keys: "sort fields_keys = sorted_keys"
  unfolding fields_keys_def sorted_keys_def by code_simp

lemma distinct_fields_keys: "distinct fields_keys"
  unfolding fields_keys_def by code_simp

lemma settings_total:
  "(\<And>n. n \<in> set ns \<Longrightarrow> ser (getattr c n) = Inr (sv n)) \<Longrightarrow>
   settings ser c ns = Inr (map (\<lambda>n. n @ ''='' @ sv n) ns)"
  by (induction ns) simp_all

lemma ex_serializer_total: "ex_serializer v = Inr (projr (ex_serializer v))"
  by (cases v) simp_all

text \<open>
  Claim C2. With a cache directory configured, a serializer that returns \<open>sv n\<close> for the
  field \<open>n\<close> and a digest of 32 hexadecimal digits: the key is the first 16 digits of the
  digest of the pairs \<open>n=sv n\<close>, taken in the lexicographic order of the 23 declared names
  and joined by underscores; it has exactly 16 hexadecimal digits; and the cache file is
  \<open>Waveguide_<key>.npz\<close> in the cache directory.
\<close>

theorem filepath_key_structure:
  assumes "cache_dir (cfg self) = Some d"
    and "\<forall>n \<in> set fields_keys. custom_serializer E (getattr (cfg self) n) = Inr (sv n)"
    and "\<forall>s. length (md5_hexdigest E s) = 32 \<and> set (md5_hexdigest E s) \<subseteq> set hexdigits"
  shows "\<exists>h. cache_key E (cfg self) = Inr h
           \<and> h = take 16 (md5_hexdigest E (join ''_'' (map (\<lambda>n. n @ ''='' @ sv n) sorted_keys)))
           \<and> length h = 16 \<and> set h \<subseteq> set hexdigits
           \<and> fst (filepath E self w) = Inr (Some (Path d (''Waveguide_'' @ h @ ''.npz'')))
           \<and> sorted sorted_keys \<and> distinct sorted_keys
           \<and> set sorted_keys = set fields_keys"
proof -
  let ?s = "join ''_'' (map (\<lambda>n. n @ ''='' @ sv n) sorted_keys)"
  let ?h = "take 16 (md5_hexdigest E ?s)"
  have "set (sort fields_keys) = set fields_keys"
    by simp
  then have perm: "set sorted_keys = set fields_keys"
    by (simp add: sort_fields_keys)
  have "sorted (sort fields_keys)"
    by simp
  then have srt: "sorted sorted_keys"
    by (simp add: sort_fields_keys)
  have "distinct (sort fields_keys)"
    using distinct_fields_keys by simp
  then have dst: "distinct sorted_keys"
    by (simp add: sort_fields_keys)
  have "settings (custom_serializer E) (cfg self) sorted_keys
      = Inr (map (\<lambda>n. n @ ''='' @ sv n) sorted_keys)"
    by (rule settings_total) (use assms(2) perm in simp)
  then have key: "cache_key E (cfg self) = Inr ?h"
    by (simp add: cache_key_def sort_fields_keys)
  have len: "length ?h = 16"
    using assms(3) by simp
  have "set ?h \<subseteq> set (md5_hexdigest E ?s)"
    by (rule set_take_subset)
  then have hex: "set ?h \<subseteq> set hexdigits"
    using assms(3) by blast
  have fp: "fst (filepath E self w) = Inr (Some (Path d (''Waveguide_'' @ ?h @ ''.npz'')))"
    using assms(1) key by (simp add: filepath_def Let_def class_name_def)
  show ?thesis
    using key len hex fp srt dst perm by blast
qed

theorem filepath_key_structure_witness:
  "fst (filepath ex_env (ex_self (WNumber (31 / 20))) ex_world)
     = Inr (Some (Path ''modes'' ''Waveguide_0123456789abcdef.npz''))"
proof -
  let ?self = "ex_self (WNumber (31 / 20))"
  have dir: "cache_dir (cfg ?self) = Some ''modes''"
    by (simp add: cache_dir_def ex_self_def ex_config_def)
  have ser: "\<forall>n \<in> set fields_keys. custom_serializer ex_env (getattr (cfg ?self) n)
               = Inr (projr (ex_serializer (getattr (cfg ?self) n)))"
    using ex_serializer_total by (simp add: ex_env_def)
  have md5: "\<forall>s. length (md5_hexdigest ex_env s) = 32
               \<and> set (md5_hexdigest ex_env s) \<subseteq> set hexdigits"
    by (simp add: ex_env_def hexdigits_def)
  from filepath_key_structure [OF dir ser md5, of ex_world]
  obtain h where h: "h = take 16 (md5_hexdigest ex_env
        (join ''_'' (map (\<lambda>n. n @ ''='' @ projr (ex_serializer (getattr (cfg ?self) n)))
           sorted_keys)))"
    and fp: "fst (filepath ex_env ?self ex_world)
        = Inr (Some (Path ''modes'' (''Waveguide_'' @ h @ ''.npz'')))"
    by blast
  have "h = ''0123456789abcdef''"
    unfolding h by (simp add: ex_env_def)
  with fp show ?thesis by simp
qed

subsection \<open>The cache policy of \<open>_data\<close>\<close>

lemma filepath_world:
  "filepath E self w = (r, w1) \<Longrightarrow>
   files w1 = files w \<and>
   (case cache_dir (cfg self) of None \<Rightarrow> w1 = w \<and> r = Inr None
    | Some d \<Rightarrow> w1 = mkdir d w \<and> (\<forall>p. r = Inr (Some p) \<longrightarrow> parent p = d) \<and> r \<noteq> Inr None)"
  by (auto simp: filepath_def Let_def mkdir_def split: option.splits sum.splits)

lemma waveguide_world:
  "waveguide E self w = (r, self1, w1) \<Longrightarrow>
   files w1 = files w \<and> dirs w1 = dirs w \<and> cfg self1 = cfg self \<and> ident self1 = ident self
   \<and> private_cached_data self1 = private_cached_data self
   \<and> (\<forall>wg. r = Inr wg \<longrightarrow> private_waveguide self1 = Some wg)"
  by (auto simp: waveguide_def split: option.splits sum.splits)

lemma compute_data_result:
  assumes "compute_data E fp self w = (Inr d, self', w')"
  shows "(\<exists>wg sd. private_waveguide self' = Some wg \<and> mode_solver_data E wg = Inr sd
            \<and> collect E (cfg self) sd = Inr d)
       \<and> RunModeSolver (ident self) \<in> set (calls w')
       \<and> private_cached_data self' = Some d
       \<and> (case fp of None \<Rightarrow> files w' = files w | Some p \<Rightarrow> files w' = (files w)(p \<mapsto> d))"
proof -
  obtain r self1 w2 where wg: "waveguide E self w = (r, self1, w2)"
    by (cases "waveguide E self w") auto
  note ww = waveguide_world [OF wg]
  from assms wg ww show ?thesis
    by (auto simp: compute_data_def Let_def store_def log_call_def
             split: sum.splits option.splits)
qed

lemma compute_data_files:
  assumes "compute_data E None self w = (r, self', w')"
  shows "files w' = files w"
proof -
  obtain r1 self1 w2 where wg: "waveguide E self w = (r1, self1, w2)"
    by (cases "waveguide E self w") auto
  note ww = waveguide_world [OF wg]
  from assms wg ww show ?thesis
    by (auto simp: compute_data_def Let_def store_def log_call_def
             split: sum.splits option.splits)
qed

lemma map_of_keys:
  "map_of (map (\<lambda>k. (k, f k)) ks) k = (if k \<in> set ks then Some (f k) else None)"
  by (induction ks) auto

lemma fractions_loop_nth:
  "fractions_loop E sd ns = Inr fr \<Longrightarrow>
   length fr = length ns \<and>
   (\<forall>k < length ns. \<exists>ex ey. field_sel sd ''Ex'' (ns ! k) = Some ex
        \<and> field_sel sd ''Ey'' (ns ! k) = Some ey \<and> fr ! k = mode_fractions (np_sum_abs2 E ex) (np_sum_abs2 E ey))"
proof (induction ns arbitrary: fr)
  case Nil
  then show ?case by simp
next
  case (Cons i ns)
  from Cons.prems obtain ex ey fr' where
    h: "field_sel sd ''Ex'' i = Some ex" "field_sel sd ''Ey'' i = Some ey"
       "fractions_loop E sd ns = Inr fr'" "fr = mode_fractions (np_sum_abs2 E ex) (np_sum_abs2 E ey) # fr'"
    by (auto split: option.splits sum.splits)
  from Cons.IH [OF h(3)] h show ?case
    by (auto simp: nth_Cons split: nat.splits)
qed

lemma partial_dict_dom:
  "dom (partial_dict sd) =
     {''Ex'', ''Ey'', ''Ez'', ''Hx'', ''Hy'', ''Hz'', ''x'', ''y'', ''n_eff'', ''mode_area''}"
proof (rule set_eqI)
  fix k
  have "(partial_dict sd k \<noteq> None) =
     (k \<in> set field_names \<or> k \<in> {''x'', ''y'', ''n_eff'', ''mode_area''})"
    by (auto simp: partial_dict_def map_of_keys)
  then show "(k \<in> dom (partial_dict sd)) =
     (k \<in> {''Ex'', ''Ey'', ''Ez'', ''Hx'', ''Hy'', ''Hz'', ''x'', ''y'', ''n_eff'', ''mode_area''})"
    unfolding dom_def field_names_def by simp
qed

lemma partial_dict_fields:
  "F \<in> {''Ex'', ''Ey'', ''Ez'', ''Hx'', ''Hy'', ''Hz''} \<Longrightarrow>
   partial_dict sd F = Some (field_values sd F)"
  by (auto simp: partial_dict_def field_names_def)

lemma partial_dict_rest:
  "partial_dict sd ''x'' = Some (coords_x sd)"
  "partial_dict sd ''y'' = Some (coords_y sd)"
  "partial_dict sd ''n_eff'' = Some (n_complex sd)"
  "partial_dict sd ''mode_area'' = Some (wg_mode_area sd)"
  "partial_dict sd ''n_group'' = None"
  "partial_dict sd ''fraction_te'' = None"
  "partial_dict sd ''fraction_tm'' = None"
  by (simp_all add: partial_dict_def field_names_def)

lemma collect_mapping:
  assumes "collect E c sd = Inr d"
  shows "dom d = {''Ex'', ''Ey'', ''Ez'', ''Hx'', ''Hy'', ''Hz'', ''x'', ''y'', ''n_eff'',
                  ''mode_area'', ''fraction_te'', ''fraction_tm''}
                 \<union> (case wg_n_group sd of None \<Rightarrow> {} | Some g \<Rightarrow> {''n_group''})"
    and "\<forall>F \<in> {''Ex'', ''Ey'', ''Ez'', ''Hx'', ''Hy'', ''Hz''}. d F = Some (field_values sd F)"
    and "d ''x'' = Some (coords_x sd)" and "d ''y'' = Some (coords_y sd)"
    and "d ''n_eff'' = Some (n_complex sd)"
    and "d ''mode_area'' = Some (wg_mode_area sd)"
    and "d ''n_group'' = wg_n_group sd"
    and "\<exists>te tm. length te = nat (num_modes c) \<and> length tm = nat (num_modes c)
           \<and> d ''fraction_te'' = Some (RealArr (NdArray [nat (num_modes c)] te))
           \<and> d ''fraction_tm'' = Some (RealArr (NdArray [nat (num_modes c)] tm))
           \<and> (\<forall>i < nat (num_modes c).
                 \<exists>ex ey. field_sel sd ''Ex'' i = Some ex \<and> field_sel sd ''Ey'' i = Some ey
                   \<and> (te ! i, tm ! i) = mode_fractions (np_sum_abs2 E ex) (np_sum_abs2 E ey))"
proof -
  from assms obtain fr where
    fr: "fractions_loop E sd [0 ..< nat (num_modes c)] = Inr fr"
    and d: "d = (let d0 = (partial_dict sd)
                       (''fraction_te'' \<mapsto> RealArr (NdArray [nat (num_modes c)] (map fst fr)),
                        ''fraction_tm'' \<mapsto> RealArr (NdArray [nat (num_modes c)] (map snd fr)))
                 in case wg_n_group sd of None \<Rightarrow> d0 | Some g \<Rightarrow> d0(''n_group'' \<mapsto> g))"
    by (auto simp: collect_def Let_def split: if_splits sum.splits)
  show "dom d = {''Ex'', ''Ey'', ''Ez'', ''Hx'', ''Hy'', ''Hz'', ''x'', ''y'', ''n_eff'',
                  ''mode_area'', ''fraction_te'', ''fraction_tm''}
                 \<union> (case wg_n_group sd of None \<Rightarrow> {} | Some g \<Rightarrow> {''n_group''})"
    unfolding d Let_def by (cases "wg_n_group sd") (auto simp: partial_dict_dom)
  show "\<forall>F \<in> {''Ex'', ''Ey'', ''Ez'', ''Hx'', ''Hy'', ''Hz''}. d F = Some (field_values sd F)"
    unfolding d Let_def using partial_dict_fields [of _ sd]
    by (cases "wg_n_group sd") auto
  show "d ''x'' = Some (coords_x sd)" "d ''y'' = Some (coords_y sd)"
    "d ''n_eff'' = Some (n_complex sd)" "d ''mode_area'' = Some (wg_mode_area sd)"
    "d ''n_group'' = wg_n_group sd"
    unfolding d Let_def by (cases "wg_n_group sd"; simp add: partial_dict_rest)+
  have te: "d ''fraction_te'' = Some (RealArr (NdArray [nat (num_modes c)] (map fst fr)))"
    and tm: "d ''fraction_tm'' = Some (RealArr (NdArray [nat (num_modes c)] (map snd fr)))"
    unfolding d Let_def by (cases "wg_n_group sd"; simp)+
  note nth = fractions_loop_nth [OF fr]
  have "\<exists>ex ey. field_sel sd ''Ex'' i = Some ex \<and> field_sel sd ''Ey'' i = Some ey
          \<and> (map fst fr ! i, map snd fr ! i) = mode_fractions (np_sum_abs2 E ex) (np_sum_abs2 E ey)"
    if "i < nat (num_modes c)" for i
  proof -
    from nth that obtain ex ey where
      "field_sel sd ''Ex'' i = Some ex" "field_sel sd ''Ey'' i = Some ey"
      "fr ! i = mode_fractions (np_sum_abs2 E ex) (np_sum_abs2 E ey)"
      by fastforce
    moreover have "i < length fr"
      using nth that by simp
    ultimately show ?thesis
      by (metis nth_map prod.collapse)
  qed
  with te tm nth
  show "\<exists>te tm. length te = nat (num_modes c) \<and> length tm = nat (num_modes c)
           \<and> d ''fraction_te'' = Some (RealArr (NdArray [nat (num_modes c)] te))
           \<and> d ''fraction_tm'' = Some (RealArr (NdArray [nat (num_modes c)] tm))
           \<and> (\<forall>i < nat (num_modes c).
                 \<exists>ex ey. field_sel sd ''Ex'' i = Some ex \<and> field_sel sd ''Ey'' i = Some ey
                   \<and> (te ! i, tm ! i) = mode_fractions (np_sum_abs2 E ex) (np_sum_abs2 E ey))"
    by (intro exI [of _ "map fst fr"] exI [of _ "map snd fr"]) simp
qed

text \<open>
  Claim C3. The first access to \<open>_data\<close> of an instance, when \<open>filepath\<close> returns
  \<open>fp\<close>: without a cache directory (\<open>fp\<close> is \<open>None\<close>) no file is written; with a cache
  file at \<open>fp\<close> and \<open>overwrite\<close> false, the file is loaded and returned, and the only calls
  made are \<open>mkdir\<close>, the log line and \<open>np.load\<close> (the simulation object is not built and
  the mode solver not run); in every other case, also when the file exists and
  \<open>overwrite\<close> is true, the mode solver was run on the simulation object of the instance
  and a result that is returned is the mapping of the solver's arrays under their names:
  its keys are the six field components, \<open>x\<close>, \<open>y\<close>, \<open>n_eff\<close>, \<open>mode_area\<close>, \<open>fraction_te\<close>,
  \<open>fraction_tm\<close>, and \<open>n_group\<close> when the solver has a group index; each key but the
  fractions holds the solver's array of that name, and the fractions are arrays of
  \<open>num_modes\<close> floats, entry \<open>i\<close> being computed from the fields \<open>Ex\<close> and \<open>Ey\<close> of mode \<open>i\<close>.
  With a cache directory the mapping is in the cache file when \<open>_data\<close> returns.
\<close>

theorem data_cache_policy:
  assumes "private_cached_data self = None"
    and "filepath E self w = (Inr fp, w1)"
  shows "(fp = None) = (cache_dir (cfg self) = None)
     \<and> (fp = None \<longrightarrow> files (snd (snd (private_data E self w))) = files w)
     \<and> (\<forall>p d. fp = Some p \<and> files w p = Some d \<and> \<not> overwrite (cfg self) \<longrightarrow>
           private_data E self w =
             (Inr d, self\<lparr>private_cached_data := Some d\<rparr>,
              log_call [LogInfo (''load data from '' @ path_str p @ ''.''), NpLoad p]
                (mkdir (parent p) w)))
     \<and> (\<not> (\<exists>p d. fp = Some p \<and> files w p = Some d \<and> \<not> overwrite (cfg self)) \<longrightarrow>
         (\<forall>d self' w'. private_data E self w = (Inr d, self', w') \<longrightarrow>
            (\<exists>wg sd. private_waveguide self' = Some wg \<and> mode_solver_data E wg = Inr sd
                 \<and> collect E (cfg self) sd = Inr d
                 \<and> dom d = {''Ex'', ''Ey'', ''Ez'', ''Hx'', ''Hy'', ''Hz'', ''x'', ''y'', ''n_eff'',
                            ''mode_area'', ''fraction_te'', ''fraction_tm''}
                           \<union> (case wg_n_group sd of None \<Rightarrow> {} | Some g \<Rightarrow> {''n_group''})
                 \<and> (\<forall>F \<in> {''Ex'', ''Ey'', ''Ez'', ''Hx'', ''Hy'', ''Hz''}.
                       d F = Some (field_values sd F))
                 \<and> d ''x'' = Some (coords_x sd) \<and> d ''y'' = Some (coords_y sd)
                 \<and> d ''n_eff'' = Some (n_complex sd)
                 \<and> d ''mode_area'' = Some (wg_mode_area sd)
                 \<and> d ''n_group'' = wg_n_group sd
                 \<and> (\<exists>te tm. length te = nat (num_modes (cfg self))
                       \<and> length tm = nat (num_modes (cfg self))
                       \<and> d ''fraction_te''
                           = Some (RealArr (NdArray [nat (num_modes (cfg self))] te))
                       \<and> d ''fraction_tm''
                           = Some (RealArr (NdArray [nat (num_modes (cfg self))] tm))
                       \<and> (\<forall>i < nat (num_modes (cfg self)).
                             \<exists>ex ey. field_sel sd ''Ex'' i = Some ex
                               \<and> field_sel sd ''Ey'' i = Some ey
                               \<and> (te ! i, tm ! i) = mode_fractions (np_sum_abs2 E ex) (np_sum_abs2 E ey))))
          \<and> RunModeSolver (ident self) \<in> set (calls w')
          \<and> private_cached_data self' = Some d
          \<and> (case fp of None \<Rightarrow> files w' = files w
              | Some p \<Rightarrow> files w' = (files w)(p \<mapsto> d))))"
proof (intro conjI)
  note fw = filepath_world [OF assms(2)]
  show "(fp = None) = (cache_dir (cfg self) = None)"
    using fw by (auto split: option.splits)
  show "fp = None \<longrightarrow> files (snd (snd (private_data E self w))) = files w"
  proof
    assume that: "fp = None"
    have "cached_file (cfg self) fp w1 = None"
      using that by (simp add: cached_file_def)
    then have "private_data E self w = compute_data E None self w1"
      using assms that by (simp add: private_data_def)
    then show "files (snd (snd (private_data E self w))) = files w"
      using compute_data_files [of E self w1] fw
      by (cases "compute_data E None self w1") auto
  qed
  show "\<forall>p d. fp = Some p \<and> files w p = Some d \<and> \<not> overwrite (cfg self) \<longrightarrow>
           private_data E self w =
             (Inr d, self\<lparr>private_cached_data := Some d\<rparr>,
              log_call [LogInfo (''load data from '' @ path_str p @ ''.''), NpLoad p]
                (mkdir (parent p) w))"
  proof (intro allI impI)
    fix p d
    assume that: "fp = Some p \<and> files w p = Some d \<and> \<not> overwrite (cfg self)"
    have "cached_file (cfg self) fp w1 = Some (p, d)"
      using that fw by (simp add: cached_file_def)
    moreover have "w1 = mkdir (parent p) w"
      using that fw by (auto split: option.splits)
    ultimately show "private_data E self w =
             (Inr d, self\<lparr>private_cached_data := Some d\<rparr>,
              log_call [LogInfo (''load data from '' @ path_str p @ ''.''), NpLoad p]
                (mkdir (parent p) w))"
      using assms by (simp add: private_data_def)
  qed
  show "\<not> (\<exists>p d. fp = Some p \<and> files w p = Some d \<and> \<not> overwrite (cfg self)) \<longrightarrow>
         (\<forall>d self' w'. private_data E self w = (Inr d, self', w') \<longrightarrow>
            (\<exists>wg sd. private_waveguide self' = Some wg \<and> mode_solver_data E wg = Inr sd
                 \<and> collect E (cfg self) sd = Inr d
                 \<and> dom d = {''Ex'', ''Ey'', ''Ez'', ''Hx'', ''Hy'', ''Hz'', ''x'', ''y'', ''n_eff'',
                            ''mode_area'', ''fraction_te'', ''fraction_tm''}
                           \<union> (case wg_n_group sd of None \<Rightarrow> {} | Some g \<Rightarrow> {''n_group''})
                 \<and> (\<forall>F \<in> {''Ex'', ''Ey'', ''Ez'', ''Hx'', ''Hy'', ''Hz''}.
                       d F = Some (field_values sd F))
                 \<and> d ''x'' = Some (coords_x sd) \<and> d ''y'' = Some (coords_y sd)
                 \<and> d ''n_eff'' = Some (n_complex sd)
                 \<and> d ''mode_area'' = Some (wg_mode_area sd)
                 \<and> d ''n_group'' = wg_n_group sd
                 \<and> (\<exists>te tm. length te = nat (num_modes (cfg self))
                       \<and> length tm = nat (num_modes (cfg self))
                       \<and> d ''fraction_te''
                           = Some (RealArr (NdArray [nat (num_modes (cfg self))] te))
                       \<and> d ''fraction_tm''
                           = Some (RealArr (NdArray [nat (num_modes (cfg self))] tm))
                       \<and> (\<forall>i < nat (num_modes (cfg self)).
                             \<exists>ex ey. field_sel sd ''Ex'' i = Some ex
                               \<and> field_sel sd ''Ey'' i = Some ey
                               \<and> (te ! i, tm ! i) = mode_fractions (np_sum_abs2 E ex) (np_sum_abs2 E ey))))
          \<and> RunModeSolver (ident self) \<in> set (calls w')
          \<and> private_cached_data self' = Some d
          \<and> (case fp of None \<Rightarrow> files w' = files w
              | Some p \<Rightarrow> files w' = (files w)(p \<mapsto> d)))"
  proof (intro impI allI)
    fix d self' w'
    assume no: "\<not> (\<exists>p d. fp = Some p \<and> files w p = Some d \<and> \<not> overwrite (cfg self))"
      and res: "private_data E self w = (Inr d, self', w')"
    have "cached_file (cfg self) fp w1 = None"
      using no fw by (auto simp: cached_file_def split: option.splits)
    then have "compute_data E fp self w1 = (Inr d, self', w')"
      using assms res by (simp add: private_data_def)
    from compute_data_result [OF this] obtain wg sd where
      r: "private_waveguide self' = Some wg" "mode_solver_data E wg = Inr sd"
        "collect E (cfg self) sd = Inr d"
      and rest: "RunModeSolver (ident self) \<in> set (calls w')"
        "private_cached_data self' = Some d"
        "case fp of None \<Rightarrow> files w' = files w1 | Some p \<Rightarrow> files w' = (files w1)(p \<mapsto> d)"
      by blast
    note m = collect_mapping [OF r(3)]
    have "files w1 = files w"
      using fw by simp
    with rest(3) have fl: "case fp of None \<Rightarrow> files w' = files w
              | Some p \<Rightarrow> files w' = (files w)(p \<mapsto> d)"
      by (simp split: option.splits)
    show "(\<exists>wg sd. private_waveguide self' = Some wg \<and> mode_solver_data E wg = Inr sd
                 \<and> collect E (cfg self) sd = Inr d
                 \<and> dom d = {''Ex'', ''Ey'', ''Ez'', ''Hx'', ''Hy'', ''Hz'', ''x'', ''y'', ''n_eff'',
                            ''mode_area'', ''fraction_te'', ''fraction_tm''}
                           \<union> (case wg_n_group sd of None \<Rightarrow> {} | Some g \<Rightarrow> {''n_group''})
                 \<and> (\<forall>F \<in> {''Ex'', ''Ey'', ''Ez'', ''Hx'', ''Hy'', ''Hz''}.
                       d F = Some (field_values sd F))
                 \<and> d ''x'' = Some (coords_x sd) \<and> d ''y'' = Some (coords_y sd)
                 \<and> d ''n_eff'' = Some (n_complex sd)
                 \<and> d ''mode_area'' = Some (wg_mode_area sd)
                 \<and> d ''n_group'' = wg_n_group sd
                 \<and> (\<exists>te tm. length te = nat (num_modes (cfg self))
                       \<and> length tm = nat (num_modes (cfg self))
                       \<and> d ''fraction_te''
                           = Some (RealArr (NdArray [nat (num_modes (cfg self))] te))
                       \<and> d ''fraction_tm''
                           = Some (RealArr (NdArray [nat (num_modes (cfg self))] tm))
                       \<and> (\<forall>i < nat (num_modes (cfg self)).
                             \<exists>ex ey. field_sel sd ''Ex'' i = Some ex
                               \<and> field_sel sd ''Ey'' i = Some ey
                               \<and> (te ! i, tm ! i) = mode_fractions (np_sum_abs2 E ex) (np_sum_abs2 E ey))))
          \<and> RunModeSolver (ident self) \<in> set (calls w')
          \<and> private_cached_data self' = Some d
          \<and> (case fp of None \<Rightarrow> files w' = files w
              | Some p \<Rightarrow> files w' = (files w)(p \<mapsto> d))"
    proof (intro conjI)
      show "\<exists>wg sd. private_waveguide self' = Some wg \<and> mode_solver_data E wg = Inr sd
                 \<and> collect E (cfg self) sd = Inr d
                 \<and> dom d = {''Ex'', ''Ey'', ''Ez'', ''Hx'', ''Hy'', ''Hz'', ''x'', ''y'', ''n_eff'',
                            ''mode_area'', ''fraction_te'', ''fraction_tm''}
                           \<union> (case wg_n_group sd of None \<Rightarrow> {} | Some g \<Rightarrow> {''n_group''})
                 \<and> (\<forall>F \<in> {''Ex'', ''Ey'', ''Ez'', ''Hx'', ''Hy'', ''Hz''}.
                       d F = Some (field_values sd F))
                 \<and> d ''x'' = Some (coords_x sd) \<and> d ''y'' = Some (coords_y sd)
                 \<and> d ''n_eff'' = Some (n_complex sd)
                 \<and> d ''mode_area'' = Some (wg_mode_area sd)
                 \<and> d ''n_group'' = wg_n_group sd
                 \<and> (\<exists>te tm. length te = nat (num_modes (cfg self))
                       \<and> length tm = nat (num_modes (cfg self))
                       \<and> d ''fraction_te''
                           = Some (RealArr (NdArray [nat (num_modes (cfg self))] te))
                       \<and> d ''fraction_tm''
                           = Some (RealArr (NdArray [nat (num_modes (cfg self))] tm))
                       \<and> (\<forall>i < nat (num_modes (cfg self)).
                             \<exists>ex ey. field_sel sd ''Ex'' i = Some ex
                               \<and> field_sel sd ''Ey'' i = Some ey
                               \<and> (te ! i, tm ! i) = mode_fractions (np_sum_abs2 E ex) (np_sum_abs2 E ey)))"
        by (rule exI, rule exI, intro conjI) (rule r m)+
    qed (rule rest fl)+
  qed
qed


lemma ex_filepath:
  "filepath ex_env (ex_self v) w = (Inr (Some ex_path), mkdir ''modes'' w)"
proof -
  have "settings ex_serializer (ex_config v) sorted_keys
      = Inr (map (\<lambda>n. n @ ''='' @ projr (ex_serializer (getattr (ex_config v) n))) sorted_keys)"
    by (rule settings_total) (rule ex_serializer_total)
  then have "cache_key ex_env (ex_config v) = Inr ''0123456789abcdef''"
    by (simp add: cache_key_def sort_fields_keys ex_env_def)
  moreover have "cache_dir (ex_config v) = Some ''modes''"
    by (simp add: cache_dir_def ex_config_def)
  ultimately show ?thesis
    by (simp add: filepath_def ex_self_def ex_path_def class_name_def)
qed

lemma ex_build_waveguide: "build_waveguide ex_env c = Inr 7"
  by (simp add: build_waveguide_def bind_def resolve_medium_def ex_env_def Let_def
           split: material.splits option.splits)

lemma fractions_loop_total:
  "(\<And>i. i \<in> set ns \<Longrightarrow> field_sel sd ''Ex'' i \<noteq> None \<and> field_sel sd ''Ey'' i \<noteq> None) \<Longrightarrow>
   \<exists>fr. fractions_loop E sd ns = Inr fr"
proof (induction ns)
  case Nil
  then show ?case by simp
next
  case (Cons i ns)
  then obtain fr where "fractions_loop E sd ns = Inr fr"
    by auto
  moreover obtain ex ey where "field_sel sd ''Ex'' i = Some ex" "field_sel sd ''Ey'' i = Some ey"
    using Cons.prems [of i] by auto
  ultimately show ?case
    by simp
qed

lemma ex_collect: "\<exists>d. collect ex_env (ex_config v) ex_solver_data = Inr d"
proof -
  have "\<exists>fr. fractions_loop ex_env ex_solver_data [0 ..< nat 2] = Inr fr"
    by (rule fractions_loop_total) (simp add: ex_solver_data_def)
  then show ?thesis
    by (auto simp: collect_def ex_config_def Let_def)
qed

lemma ex_compute:
  "\<exists>d. fst (compute_data ex_env fp (ex_self v) w) = Inr d"
proof -
  have ms: "mode_solver_data ex_env wg = Inr ex_solver_data" for wg :: nat
    by (simp add: ex_env_def)
  obtain d where "collect ex_env (ex_config v) ex_solver_data = Inr d"
    using ex_collect by blast
  then show ?thesis
    by (simp add: compute_data_def waveguide_def ex_build_waveguide ex_self_def Let_def ms)
qed

theorem data_cache_policy_witness:
  "files (snd (snd (private_data ex_env ex_nocache ex_world))) = files ex_world
   \<and> fst (private_data ex_env (ex_self (WNumber (31 / 20))) ex_world_cached) = Inr ex_npz
   \<and> files (snd (snd (private_data ex_env (ex_self (WNumber (31 / 20))) ex_world))) ex_path
       = Some (projr (fst (private_data ex_env (ex_self (WNumber (31 / 20))) ex_world)))
   \<and> RunModeSolver 0
       \<in> set (calls (snd (snd (private_data ex_env (ex_self (WNumber (31 / 20))) ex_world))))
   \<and> projr (fst (private_data ex_env (ex_self (WNumber (31 / 20))) ex_world)) ''n_eff''
       = Some (ComplexArr (NdArray [2] [Complex 2 (1/10), Complex (3/2) (1/5)]))
   \<and> projr (fst (private_data ex_env (ex_self (WNumber (31 / 20))) ex_world)) ''n_group''
       = None
   \<and> projr (fst (private_data ex_env (ex_self (WNumber (31 / 20))) ex_world)) ''Hz''
       = Some (ComplexArr (NdArray [2, 2] [1, 0, 0, 1]))"
proof -
  let ?s = "ex_self (WNumber (31 / 20))"
  have fresh: "private_cached_data ?s = None" "private_cached_data ex_nocache = None"
    by (simp_all add: ex_self_def ex_nocache_def)
  have fp0: "filepath ex_env ex_nocache ex_world = (Inr None, ex_world)"
    by (simp add: filepath_def cache_dir_def ex_nocache_def)
  note pol1 = data_cache_policy [OF fresh(2) fp0]
  have one: "files (snd (snd (private_data ex_env ex_nocache ex_world))) = files ex_world"
    using pol1 [THEN conjunct2, THEN conjunct1] by simp
  have ow: "\<not> overwrite (cfg ?s)"
    by (simp add: ex_self_def ex_config_def)
  have "files ex_world_cached ex_path = Some ex_npz"
    by (simp add: ex_world_cached_def)
  note pol2 = data_cache_policy [OF fresh(1) ex_filepath [of "WNumber (31 / 20)" ex_world_cached]]
  note load = pol2 [THEN conjunct2, THEN conjunct2, THEN conjunct1, rule_format,
      of ex_path ex_npz]
  with ow \<open>files ex_world_cached ex_path = Some ex_npz\<close>
  have two: "fst (private_data ex_env ?s ex_world_cached) = Inr ex_npz"
    by simp
  have none: "\<not> (\<exists>p d. Some ex_path = Some p \<and> files ex_world p = Some d \<and> \<not> overwrite (cfg ?s))"
    by (simp add: ex_world_def)
  have "private_data ex_env ?s ex_world = compute_data ex_env (Some ex_path) ?s (mkdir ''modes'' ex_world)"
    by (simp add: private_data_def ex_filepath fresh cached_file_def mkdir_def ex_world_def)
  with ex_compute [of "Some ex_path" "WNumber (31 / 20)" "mkdir ''modes'' ex_world"]
  obtain d where d: "fst (private_data ex_env ?s ex_world) = Inr d"
    by auto
  obtain self' w' where res: "private_data ex_env ?s ex_world = (Inr d, self', w')"
    using d by (cases "private_data ex_env ?s ex_world") auto
  note pol3 = data_cache_policy [OF fresh(1) ex_filepath [of "WNumber (31 / 20)" ex_world]]
  note comp = pol3 [THEN conjunct2, THEN conjunct2, THEN conjunct2, THEN mp, OF none,
      THEN spec, THEN spec, THEN spec, THEN mp, OF res]
  note run = comp [THEN conjunct2, THEN conjunct1]
  note stored = comp [THEN conjunct2, THEN conjunct2, THEN conjunct2]
  from comp [THEN conjunct1] obtain wg where "\<exists>sd. private_waveguide self' = Some wg
      \<and> mode_solver_data ex_env wg = Inr sd \<and> collect ex_env (cfg ?s) sd = Inr d
      \<and> dom d = {''Ex'', ''Ey'', ''Ez'', ''Hx'', ''Hy'', ''Hz'', ''x'', ''y'', ''n_eff'',
                            ''mode_area'', ''fraction_te'', ''fraction_tm''}
                           \<union> (case wg_n_group sd of None \<Rightarrow> {} | Some g \<Rightarrow> {''n_group''})
                 \<and> (\<forall>F \<in> {''Ex'', ''Ey'', ''Ez'', ''Hx'', ''Hy'', ''Hz''}.
                       d F = Some (field_values sd F))
                 \<and> d ''x'' = Some (coords_x sd) \<and> d ''y'' = Some (coords_y sd)
                 \<and> d ''n_eff'' = Some (n_complex sd)
                 \<and> d ''mode_area'' = Some (wg_mode_area sd)
                 \<and> d ''n_group'' = wg_n_group sd
                 \<and> (\<exists>te tm. length te = nat (num_modes (cfg ?s))
                       \<and> length tm = nat (num_modes (cfg ?s))
                       \<and> d ''fraction_te''
                           = Some (RealArr (NdArray [nat (num_modes (cfg ?s))] te))
                       \<and> d ''fraction_tm''
                           = Some (RealArr (NdArray [nat (num_modes (cfg ?s))] tm))
                       \<and> (\<forall>i < nat (num_modes (cfg ?s)).
                             \<exists>ex ey. field_sel sd ''Ex'' i = Some ex
                               \<and> field_sel sd ''Ey'' i = Some ey
                               \<and> (te ! i, tm ! i) = mode_fractions (np_sum_abs2 ex_env ex) (np_sum_abs2 ex_env ey)))" ..
  then obtain sd where m: "private_waveguide self' = Some wg
      \<and> mode_solver_data ex_env wg = Inr sd \<and> collect ex_env (cfg ?s) sd = Inr d
      \<and> dom d = {''Ex'', ''Ey'', ''Ez'', ''Hx'', ''Hy'', ''Hz'', ''x'', ''y'', ''n_eff'',
                            ''mode_area'', ''fraction_te'', ''fraction_tm''}
                           \<union> (case wg_n_group sd of None \<Rightarrow> {} | Some g \<Rightarrow> {''n_group''})
                 \<and> (\<forall>F \<in> {''Ex'', ''Ey'', ''Ez'', ''Hx'', ''Hy'', ''Hz''}.
                       d F = Some (field_values sd F))
                 \<and> d ''x'' = Some (coords_x sd) \<and> d ''y'' = Some (coords_y sd)
                 \<and> d ''n_eff'' = Some (n_complex sd)
                 \<and> d ''mode_area'' = Some (wg_mode_area sd)
                 \<and> d ''n_group'' = wg_n_group sd
                 \<and> (\<exists>te tm. length te = nat (num_modes (cfg ?s))
                       \<and> length tm = nat (num_modes (cfg ?s))
                       \<and> d ''fraction_te''
                           = Some (RealArr (NdArray [nat (num_modes (cfg ?s))] te))
                       \<and> d ''fraction_tm''
                           = Some (RealArr (NdArray [nat (num_modes (cfg ?s))] tm))
                       \<and> (\<forall>i < nat (num_modes (cfg ?s)).
                             \<exists>ex ey. field_sel sd ''Ex'' i = Some ex
                               \<and> field_sel sd ''Ey'' i = Some ey
                               \<and> (te ! i, tm ! i) = mode_fractions (np_sum_abs2 ex_env ex) (np_sum_abs2 ex_env ey)))" ..
  note m2 = m [THEN conjunct2]
  note m4 = m2 [THEN conjunct2, THEN conjunct2]
  note fields = m4 [THEN conjunct2, THEN conjunct1]
  note m6 = m4 [THEN conjunct2, THEN conjunct2]
  note neff = m6 [THEN conjunct2, THEN conjunct2, THEN conjunct1]
  note ngroup = m6 [THEN conjunct2, THEN conjunct2, THEN conjunct2, THEN conjunct2,
      THEN conjunct1]
  from m2 [THEN conjunct1] have sd: "sd = ex_solver_data"
    by (simp add: ex_env_def)
  have three: "files w' ex_path = Some d"
    using stored by simp
  have four: "d ''n_eff'' = Some (ComplexArr (NdArray [2] [Complex 2 (1/10), Complex (3/2) (1/5)]))"
    using neff by (simp add: sd ex_solver_data_def)
  have five: "d ''n_group'' = None"
    using ngroup by (simp add: sd ex_solver_data_def)
  have "d ''Hz'' = Some (field_values sd ''Hz'')"
    using fields by simp
  then have six: "d ''Hz'' = Some (ComplexArr (NdArray [2, 2] [1, 0, 0, 1]))"
    by (simp add: sd ex_solver_data_def)
  have "ident ?s = 0"
    by (simp add: ex_self_def)
  with one two three four five six run res show ?thesis
    by simp
qed

subsection \<open>The round trip through the cache file\<close>

lemma ex_filepath_cfg:
  assumes "cfg s = ex_config v"
  shows "filepath ex_env s w = (Inr (Some ex_path), mkdir ''modes'' w)"
proof -
  have c: "cfg s = cfg (ex_self v)"
    using assms by (simp add: ex_self_def)
  have "filepath ex_env s w = filepath ex_env (ex_self v) w"
    unfolding filepath_def c by (rule refl)
  then show ?thesis
    by (simp add: ex_filepath)
qed

lemma private_data_persisted:
  assumes "private_cached_data a = None"
    and "filepath E a w = (Inr (Some p), w1)"
    and "private_data E a w = (Inr d, a', w')"
  shows "files w' p = Some d"
proof (cases "cached_file (cfg a) (Some p) w1")
  case None
  then have "compute_data E (Some p) a w1 = (Inr d, a', w')"
    using assms by (simp add: private_data_def)
  from compute_data_result [OF this] show ?thesis
    by simp
next
  case (Some pd)
  then obtain d0 where pd: "pd = (p, d0)" "files w1 p = Some d0"
    by (auto simp: cached_file_def split: option.splits if_splits)
  with Some assms have "d = d0" "files w' = files w1"
    by (auto simp: private_data_def log_call_def)
  with pd show ?thesis
    by simp
qed

lemma private_data_load:
  assumes "private_cached_data b = None"
    and "filepath E b w = (Inr (Some p), w1)"
    and "files w p = Some d"
    and "\<not> overwrite (cfg b)"
  shows "private_data E b w =
           (Inr d, b\<lparr>private_cached_data := Some d\<rparr>,
            log_call [LogInfo (''load data from '' @ path_str p @ ''.''), NpLoad p]
              (mkdir (parent p) w))"
proof -
  note fw = filepath_world [OF assms(2)]
  have "cached_file (cfg b) (Some p) w1 = Some (p, d)"
    using assms fw by (simp add: cached_file_def)
  moreover have "w1 = mkdir (parent p) w"
    using fw by (auto split: option.splits)
  ultimately show ?thesis
    using assms by (simp add: private_data_def)
qed

text \<open>
  Claim C4. A mapping that a first access to \<open>_data\<close> returns with the cache file \<open>p\<close> is
  in that file afterwards; a fresh instance with the same cache file and \<open>overwrite\<close>
  false then returns the same mapping, array for array, and makes no call but \<open>mkdir\<close>,
  the log line and \<open>np.load\<close>: nothing is computed again. The archive is modelled by its
  content, so the arrays are equal, not only close.
\<close>

theorem cache_round_trip:
  assumes "private_cached_data a = None"
    and "filepath E a w = (Inr (Some p), w1)"
    and "private_data E a w = (Inr d, a', w')"
    and "private_cached_data b = None"
    and "fst (filepath E b w') = Inr (Some p)"
    and "\<not> overwrite (cfg b)"
  shows "files w' p = Some d
       \<and> fst (private_data E b w') = Inr d
       \<and> calls (snd (snd (private_data E b w')))
           = calls w' @ [MkDir (parent p),
                         LogInfo (''load data from '' @ path_str p @ ''.''), NpLoad p]
       \<and> (\<forall>k arr. d k = Some arr \<longrightarrow>
             bind (fst (private_data E b w')) (\<lambda>m. getitem m k) = Inr arr)"
proof -
  have stored: "files w' p = Some d"
    using assms(1-3) by (rule private_data_persisted)
  obtain w2 where "filepath E b w' = (Inr (Some p), w2)"
    using assms(5) by (cases "filepath E b w'") auto
  from private_data_load [OF assms(4) this stored assms(6)]
  have load: "private_data E b w' =
           (Inr d, b\<lparr>private_cached_data := Some d\<rparr>,
            log_call [LogInfo (''load data from '' @ path_str p @ ''.''), NpLoad p]
              (mkdir (parent p) w'))" .
  have "calls (snd (snd (private_data E b w')))
           = calls w' @ [MkDir (parent p),
                         LogInfo (''load data from '' @ path_str p @ ''.''), NpLoad p]"
    by (simp add: load log_call_def mkdir_def)
  moreover have "bind (fst (private_data E b w')) (\<lambda>m. getitem m k) = Inr arr"
    if "d k = Some arr" for k arr
    using that by (simp add: load bind_def getitem_def)
  ultimately show ?thesis
    using stored load by simp
qed

theorem cache_round_trip_witness:
  "\<not> isl (fst (private_data ex_env (ex_self (WNumber (31 / 20))) ex_world))
   \<and> fst (private_data ex_env ex_other
            (snd (snd (private_data ex_env (ex_self (WNumber (31 / 20))) ex_world))))
     = fst (private_data ex_env (ex_self (WNumber (31 / 20))) ex_world)"
proof -
  let ?a = "ex_self (WNumber (31 / 20))"
  have fresh: "private_cached_data ?a = None" "private_cached_data ex_other = None"
    by (simp_all add: ex_self_def ex_other_def)
  have "private_data ex_env ?a ex_world
      = compute_data ex_env (Some ex_path) ?a (mkdir ''modes'' ex_world)"
    by (simp add: private_data_def ex_filepath fresh cached_file_def mkdir_def ex_world_def)
  with ex_compute [of "Some ex_path" "WNumber (31 / 20)" "mkdir ''modes'' ex_world"]
  obtain d where d: "fst (private_data ex_env ?a ex_world) = Inr d"
    by auto
  obtain a' w' where res: "private_data ex_env ?a ex_world = (Inr d, a', w')"
    using d by (cases "private_data ex_env ?a ex_world") auto
  have "cfg ex_other = ex_config (WList [31 / 20])"
    by (simp add: ex_other_def)
  then have fpb: "fst (filepath ex_env ex_other w') = Inr (Some ex_path)"
    by (simp add: ex_filepath_cfg)
  have ow: "\<not> overwrite (cfg ex_other)"
    by (simp add: ex_other_def ex_config_def)
  from cache_round_trip [OF fresh(1) ex_filepath res fresh(2) fpb ow]
  have "fst (private_data ex_env ex_other w') = Inr d"
    by blast
  with res show ?thesis
    by simp
qed

subsection \<open>Rounding to binary64\<close>

lemma rhe_error: "\<bar>of_int (round_half_even y) - y\<bar> \<le> 1 / 2"
  unfolding round_half_even_def Let_def by (auto; linarith)

lemma rhe_of_int [simp]: "round_half_even (of_int n) = n"
  by (simp add: round_half_even_def)

lemma rhe_mono: "y \<le> z \<Longrightarrow> round_half_even y \<le> round_half_even z"
proof -
  assume yz: "y \<le> z"
  have fl: "\<lfloor>y\<rfloor> \<le> \<lfloor>z\<rfloor>"
    using yz by (rule floor_mono)
  show ?thesis
  proof (cases "\<lfloor>y\<rfloor> = \<lfloor>z\<rfloor>")
    case True
    then show ?thesis
      using yz unfolding round_half_even_def Let_def by auto
  next
    case False
    then have "\<lfloor>y\<rfloor> + 1 \<le> \<lfloor>z\<rfloor>"
      using fl by linarith
    moreover have "round_half_even y \<le> \<lfloor>y\<rfloor> + 1"
      unfolding round_half_even_def Let_def by auto
    moreover have "\<lfloor>z\<rfloor> \<le> round_half_even z"
      unfolding round_half_even_def Let_def by auto
    ultimately show ?thesis
      by linarith
  qed
qed

lemma ulp_pos [simp]: "0 < ulp x"
  by (simp add: ulp_def)

lemma ulp_neq0 [simp]: "ulp x \<noteq> 0"
  by (simp add: ulp_def)

lemma ulp_nonneg [simp]: "0 \<le> ulp x"
  by (simp add: ulp_def)

lemma round64_0 [simp]: "round64 0 = 0"
  by (simp add: round64_def round_half_even_def)

lemma round64_error: "\<bar>round64 x - x\<bar> \<le> ulp x / 2"
proof -
  have "\<bar>of_int (round_half_even (x / ulp x)) - x / ulp x\<bar> \<le> 1 / 2"
    by (rule rhe_error)
  then have "\<bar>of_int (round_half_even (x / ulp x)) - x / ulp x\<bar> * ulp x \<le> 1 / 2 * ulp x"
    by (intro mult_right_mono) simp_all
  moreover have "(of_int (round_half_even (x / ulp x)) - x / ulp x) * ulp x = round64 x - x"
    using ulp_pos [of x] by (simp add: round64_def left_diff_distrib)
  then have "\<bar>of_int (round_half_even (x / ulp x)) - x / ulp x\<bar> * ulp x
      = \<bar>round64 x - x\<bar>"
    using abs_mult [of "of_int (round_half_even (x / ulp x)) - x / ulp x" "ulp x"] by simp
  ultimately show ?thesis
    by simp
qed

lemma round64_nonneg: "0 \<le> x \<Longrightarrow> 0 \<le> round64 x"
proof -
  assume "0 \<le> x"
  then have "0 \<le> x / ulp x"
    by simp
  then have "round_half_even 0 \<le> round_half_even (x / ulp x)"
    by (rule rhe_mono)
  then have "0 \<le> round_half_even (x / ulp x)"
    using rhe_of_int [of 0] by simp
  then show ?thesis
    by (simp add: round64_def)
qed

text \<open>exponent facts for positive x\<close>

lemma exponent_upper: "0 < x \<Longrightarrow> x < 2 powr (of_int (float_exponent x + 1))"
proof -
  assume x: "0 < x"
  define k where "k = \<lfloor>log 2 x\<rfloor>"
  have "x < 2 powr (of_int (k + 1))"
    using floor_log_eq_powr_iff [of x 2 k] x by (simp add: k_def)
  also have "\<dots> \<le> 2 powr (of_int (float_exponent x + 1))"
    using x by (simp add: float_exponent_def k_def)
  finally show ?thesis .
qed

lemma exponent_lower:
  "0 < x \<Longrightarrow> - 1022 \<le> \<lfloor>log 2 x\<rfloor> \<Longrightarrow> 2 powr (of_int (float_exponent x)) \<le> x"
proof -
  assume x: "0 < x" and "- 1022 \<le> \<lfloor>log 2 x\<rfloor>"
  then have "float_exponent x = \<lfloor>log 2 x\<rfloor>"
    by (simp add: float_exponent_def)
  then show ?thesis
    using floor_log_eq_powr_iff [of x 2 "\<lfloor>log 2 x\<rfloor>"] x by simp
qed

lemma exponent_eq:
  assumes "0 < x" "2 powr (of_int e) \<le> x" "x < 2 powr (of_int (e + 1))" "- 1022 \<le> e"
  shows "float_exponent x = e"
proof -
  have "\<lfloor>log 2 x\<rfloor> = e"
    using floor_log_eq_powr_iff [of x 2 e] assms by simp
  then show ?thesis
    using assms by (simp add: float_exponent_def)
qed

lemma exponent_subnormal:
  assumes "0 < x" "x < 2 powr (- 1022)"
  shows "float_exponent x = - 1022"
proof -
  have "\<lfloor>log 2 x\<rfloor> < - 1022"
  proof (rule ccontr)
    assume "\<not> \<lfloor>log 2 x\<rfloor> < - 1022"
    then have le: "(- 1022 :: int) \<le> \<lfloor>log 2 x\<rfloor>" by linarith
    have "real_of_int (- 1022) \<le> real_of_int \<lfloor>log 2 x\<rfloor>"
      using le by (rule iffD2 [OF of_int_le_iff])
    then have "(2 :: real) powr (of_int (- 1022)) \<le> 2 powr (of_int \<lfloor>log 2 x\<rfloor>)"
      by (rule iffD2 [OF powr_le_cancel_iff, rotated]) simp
    also have "\<dots> \<le> x"
      using floor_log_eq_powr_iff [of x 2 "\<lfloor>log 2 x\<rfloor>"] assms by simp
    finally show False
      using assms by simp
  qed
  then show ?thesis
    using assms by (simp add: float_exponent_def)
qed

lemma pow2_pos [simp]: "0 < pow2 e"
  by (simp add: pow2_def)

lemma pow2_nonneg [simp]: "0 \<le> pow2 e"
  by (simp add: pow2_def)

lemma pow2_neq0 [simp]: "pow2 e \<noteq> 0"
  by (simp add: pow2_def)

lemma pow2_add: "pow2 (a + b) = pow2 a * pow2 b"
  by (simp add: pow2_def powr_add)

lemma pow2_le [simp]: "pow2 a \<le> pow2 b \<longleftrightarrow> a \<le> b"
  by (simp add: pow2_def)

lemma pow2_less [simp]: "pow2 a < pow2 b \<longleftrightarrow> a < b"
  by (simp add: pow2_def)

lemma pow2_nat: "pow2 (int n) = 2 ^ n"
  by (simp add: pow2_def powr_realpow)

lemma pow2_0 [simp]: "pow2 0 = 1"
  by (simp add: pow2_def)

lemma ulp_pow2: "ulp x = pow2 (float_exponent x - 52)"
  by (simp add: ulp_def pow2_def)

lemma pow2_split: "pow2 (e + 1) = 2 ^ 53 * pow2 (e - 52)"
proof -
  have "e + 1 = 53 + (e - 52)"
    by simp
  then have "pow2 (e + 1) = pow2 (53 + (e - 52))"
    by (rule arg_cong)
  also have "\<dots> = pow2 53 * pow2 (e - 52)"
    by (rule pow2_add)
  also have "pow2 53 = 2 ^ 53"
    using pow2_nat [of 53] by simp
  finally show ?thesis .
qed

lemma pow2_split': "pow2 e = 2 ^ 52 * pow2 (e - 52)"
proof -
  have "e = 52 + (e - 52)"
    by simp
  then have "pow2 e = pow2 (52 + (e - 52))"
    by (rule arg_cong)
  also have "\<dots> = pow2 52 * pow2 (e - 52)"
    by (rule pow2_add)
  also have "pow2 52 = 2 ^ 52"
    using pow2_nat [of 52] by simp
  finally show ?thesis .
qed

lemma exponent_upper': "0 < x \<Longrightarrow> x < pow2 (float_exponent x + 1)"
  using exponent_upper by (simp add: pow2_def)

lemma exponent_min: "- 1022 \<le> float_exponent x"
  by (simp add: float_exponent_def)

lemma exponent_cases:
  assumes "0 < x"
  shows "pow2 (float_exponent x) \<le> x \<or> float_exponent x = - 1022"
proof (cases "- 1022 \<le> \<lfloor>log 2 x\<rfloor>")
  case True
  with exponent_lower [OF assms] show ?thesis
    by (simp add: pow2_def)
next
  case False
  then show ?thesis
    using assms by (simp add: float_exponent_def)
qed

lemma exponent_eq':
  assumes "0 < x" "pow2 e \<le> x" "x < pow2 (e + 1)" "- 1022 \<le> e"
  shows "float_exponent x = e"
  using exponent_eq [of x e] assms by (simp add: pow2_def)

lemma exponent_subnormal':
  assumes "0 < x" "x < pow2 (- 1022)"
  shows "float_exponent x = - 1022"
  using exponent_subnormal [of x] assms by (simp add: pow2_def)

lemma exponent_mono:
  assumes "0 < x" "x \<le> y"
  shows "float_exponent x \<le> float_exponent y"
proof -
  have "log 2 x \<le> log 2 y"
    using assms by simp
  then have "\<lfloor>log 2 x\<rfloor> \<le> \<lfloor>log 2 y\<rfloor>"
    by (rule floor_mono)
  then show ?thesis
    using assms by (simp add: float_exponent_def)
qed

lemma scaled_upper: "0 < x \<Longrightarrow> x / ulp x < 2 ^ 53"
proof -
  assume x: "0 < x"
  have "x < 2 ^ 53 * ulp x"
    using exponent_upper' [OF x] pow2_split [of "float_exponent x"] by (simp add: ulp_pow2)
  then show ?thesis
    by (simp add: pos_divide_less_eq)
qed

lemma scaled_lower: "pow2 (float_exponent x) \<le> x \<Longrightarrow> 2 ^ 52 \<le> x / ulp x"
proof -
  assume "pow2 (float_exponent x) \<le> x"
  then have "2 ^ 52 * ulp x \<le> x"
    using pow2_split' [of "float_exponent x"] by (simp add: ulp_pow2)
  then show ?thesis
    by (simp add: pos_le_divide_eq)
qed

lemma mantissa_upper: "0 < x \<Longrightarrow> round_half_even (x / ulp x) \<le> 2 ^ 53"
proof -
  assume "0 < x"
  then have "x / ulp x \<le> of_int (2 ^ 53)"
    using scaled_upper [of x] by simp
  then have "round_half_even (x / ulp x) \<le> round_half_even (of_int (2 ^ 53))"
    by (rule rhe_mono)
  then show ?thesis
    by (simp only: rhe_of_int)
qed

lemma mantissa_lower:
  "pow2 (float_exponent x) \<le> x \<Longrightarrow> 2 ^ 52 \<le> round_half_even (x / ulp x)"
proof -
  assume "pow2 (float_exponent x) \<le> x"
  then have "of_int (2 ^ 52) \<le> x / ulp x"
    using scaled_lower [of x] by simp
  then have "round_half_even (of_int (2 ^ 52)) \<le> round_half_even (x / ulp x)"
    by (rule rhe_mono)
  then show ?thesis
    by (simp only: rhe_of_int)
qed

lemma round64_upper: "0 < x \<Longrightarrow> round64 x \<le> pow2 (float_exponent x + 1)"
proof -
  assume x: "0 < x"
  have "real_of_int (round_half_even (x / ulp x)) \<le> 2 ^ 53"
    using mantissa_upper [OF x] by (metis of_int_le_iff of_int_numeral of_int_power)
  then have "round64 x \<le> 2 ^ 53 * ulp x"
    unfolding round64_def by (intro mult_right_mono) simp_all
  then show ?thesis
    using pow2_split [of "float_exponent x"] by (simp add: ulp_pow2)
qed

lemma round64_lower:
  "pow2 (float_exponent x) \<le> x \<Longrightarrow> pow2 (float_exponent x) \<le> round64 x"
proof -
  assume n: "pow2 (float_exponent x) \<le> x"
  have "2 ^ 52 \<le> real_of_int (round_half_even (x / ulp x))"
    using mantissa_lower [OF n] by (metis of_int_le_iff of_int_numeral of_int_power)
  then have "2 ^ 52 * ulp x \<le> round64 x"
    unfolding round64_def by (intro mult_right_mono) simp_all
  then show ?thesis
    using pow2_split' [of "float_exponent x"] by (simp add: ulp_pow2)
qed

lemma round64_mono:
  assumes "0 \<le> x" "x \<le> y"
  shows "round64 x \<le> round64 y"
proof (cases "x = 0")
  case True
  then show ?thesis
    using assms round64_nonneg [of y] by simp
next
  case False
  then have x: "0 < x" and y: "0 < y"
    using assms by simp_all
  have le: "float_exponent x \<le> float_exponent y"
    using x assms(2) by (rule exponent_mono)
  show ?thesis
  proof (cases "float_exponent x = float_exponent y")
    case True
    then have u: "ulp x = ulp y"
      by (simp add: ulp_pow2)
    have "x / ulp y \<le> y / ulp y"
      using assms(2) by (simp add: divide_right_mono)
    then have "round_half_even (x / ulp y) \<le> round_half_even (y / ulp y)"
      by (rule rhe_mono)
    then show ?thesis
      unfolding round64_def u by (intro mult_right_mono) simp_all
  next
    case False
    then have lt: "float_exponent x + 1 \<le> float_exponent y"
      using le by simp
    then have "float_exponent y \<noteq> - 1022"
      using exponent_min [of x] by linarith
    then have "pow2 (float_exponent y) \<le> y"
      using exponent_cases [OF y] by simp
    then have "pow2 (float_exponent y) \<le> round64 y"
      by (rule round64_lower)
    moreover have "round64 x \<le> pow2 (float_exponent x + 1)"
      using x by (rule round64_upper)
    moreover have "pow2 (float_exponent x + 1) \<le> pow2 (float_exponent y)"
      using lt by simp
    ultimately show ?thesis
      by linarith
  qed
qed

lemma round64_of_multiple:
  assumes "float_exponent r = e" "r = of_int n * pow2 (e - 52)"
  shows "round64 r = r"
proof -
  have "ulp r = pow2 (e - 52)"
    using assms(1) by (simp add: ulp_pow2)
  moreover have "r / pow2 (e - 52) = of_int n"
    using assms(2) by simp
  ultimately show ?thesis
    using assms(2) by (simp add: round64_def)
qed

lemma round64_idem:
  assumes "0 \<le> x"
  shows "round64 (round64 x) = round64 x"
proof (cases "x = 0 \<or> round64 x = 0")
  case True
  then show ?thesis by auto
next
  case False
  then have x: "0 < x" and r0: "round64 x \<noteq> 0"
    using assms by auto
  define e where "e = float_exponent x"
  define r where "r = round64 x"
  have r: "0 < r"
    using r0 round64_nonneg [OF assms] by (simp add: r_def)
  have rn: "r = of_int (round_half_even (x / ulp x)) * pow2 (e - 52)"
    by (simp add: r_def round64_def ulp_pow2 e_def)
  have up: "r \<le> pow2 (e + 1)"
    using round64_upper [OF x] by (simp add: r_def e_def)
  have emin: "- 1022 \<le> e"
    by (simp add: e_def exponent_min)
  show ?thesis
  proof (cases "r < pow2 (e + 1)")
    case True
    have "float_exponent r = e"
    proof (cases "pow2 e \<le> r")
      case True
      with r \<open>r < pow2 (e + 1)\<close> emin show ?thesis
        by (intro exponent_eq') simp_all
    next
      case False
      have "\<not> pow2 e \<le> x"
        using False round64_lower [of x] by (auto simp: r_def e_def)
      then have "e = - 1022"
        using exponent_cases [OF x] by (simp add: e_def)
      with False r show ?thesis
        using exponent_subnormal' [of r] by simp
    qed
    from round64_of_multiple [OF this rn] show ?thesis
      by (simp add: r_def)
  next
    case False
    then have eq: "r = pow2 (e + 1)"
      using up by simp
    have "float_exponent r = e + 1"
      using r emin by (intro exponent_eq') (simp_all add: eq)
    moreover have "r = of_int (2 ^ 52) * pow2 (e + 1 - 52)"
      using pow2_split' [of "e + 1"] by (simp add: eq)
    ultimately have "round64 r = r"
      by (rule round64_of_multiple)
    then show ?thesis
      by (simp add: r_def)
  qed
qed

lemma round64_eval:
  assumes "0 < x" "pow2 e \<le> x" "x < pow2 (e + 1)" "- 1022 \<le> e"
  shows "round64 x = of_int (round_half_even (x / pow2 (e - 52))) * pow2 (e - 52)"
  using exponent_eq' [OF assms] by (simp add: round64_def ulp_pow2)

lemma pow2_neg: "pow2 (- int n) = 1 / 2 ^ n"
  by (simp add: pow2_def powr_minus powr_realpow divide_inverse)

lemma pow2_numeral [simp]: "pow2 (numeral k) = 2 ^ numeral k"
  using pow2_nat [of "numeral k"] by simp

lemma pow2_neg_numeral [simp]: "pow2 (- numeral k) = 1 / 2 ^ numeral k"
  using pow2_neg [of "numeral k"] by simp

lemma pow2_1 [simp]: "pow2 1 = 2"
  using pow2_nat [of 1] by simp

lemma pow2_m1 [simp]: "pow2 (- 1) = 1 / 2"
  using pow2_neg [of 1] by simp

lemma repr_ge_ulp:
  assumes "0 < x" "round64 x = x"
  shows "ulp x \<le> x"
proof -
  define n where "n = round_half_even (x / ulp x)"
  have x: "x = of_int n * ulp x"
    using assms(2) by (simp add: round64_def n_def)
  have "0 < of_int n * ulp x"
    using assms(1) x by simp
  then have "0 < (of_int n :: real)"
    by (rule zero_less_mult_pos2) simp
  then have "1 \<le> (of_int n :: real)"
    by simp
  then have "1 * ulp x \<le> of_int n * ulp x"
    by (intro mult_right_mono) simp_all
  with x show ?thesis
    by simp
qed

lemma ulp_le_self:
  assumes "0 < m" "round64 m = m" "m \<le> y"
  shows "ulp y \<le> y"
proof -
  have y: "0 < y"
    using assms by simp
  from exponent_cases [OF y] show ?thesis
  proof
    assume le: "pow2 (float_exponent y) \<le> y"
    have "pow2 (float_exponent y - 52) \<le> pow2 (float_exponent y)"
      by simp
    also note le
    finally show ?thesis
      by (simp add: ulp_pow2)
  next
    assume e: "float_exponent y = - 1022"
    have "float_exponent m \<le> - 1022"
      using exponent_mono [OF assms(1,3)] e by simp
    with exponent_min [of m] have "float_exponent m = - 1022"
      by simp
    then have "ulp m = ulp y"
      using e by (simp add: ulp_pow2)
    with repr_ge_ulp [OF assms(1,2)] assms(3) show ?thesis
      by simp
  qed
qed

lemma ulp_bound:
  assumes "0 < x" "x < pow2 k" "- 1021 \<le> k"
  shows "ulp x \<le> pow2 (k - 53)"
proof -
  have "float_exponent x \<le> k - 1"
  proof (rule ccontr)
    assume "\<not> float_exponent x \<le> k - 1"
    then have ge: "k \<le> float_exponent x"
      by simp
    with assms(3) have "float_exponent x \<noteq> - 1022"
      by simp
    with exponent_cases [OF assms(1)] have "pow2 (float_exponent x) \<le> x"
      by simp
    moreover have "pow2 k \<le> pow2 (float_exponent x)"
      using ge by simp
    ultimately show False
      using assms(2) by simp
  qed
  then show ?thesis
    by (simp add: ulp_pow2)
qed

lemma round64_error_bound:
  assumes "0 \<le> x" "x < pow2 k" "- 1021 \<le> k"
  shows "\<bar>round64 x - x\<bar> \<le> pow2 (k - 54)"
proof (cases "x = 0")
  case True
  then show ?thesis
    using pow2_pos [of "k - 54"] by simp
next
  case False
  with assms have "ulp x \<le> pow2 (k - 53)"
    by (intro ulp_bound) simp_all
  moreover have "pow2 (k - 53) = 2 * pow2 (k - 54)"
    using pow2_add [of 1 "k - 54"] by simp
  ultimately show ?thesis
    using round64_error [of x] by simp
qed

lemma round64_1 [simp]: "round64 1 = 1"
  using round64_eval [of 1 0] by (simp add: round_half_even_def)

lemma round64_quarter: "round64 (1 / 4) = 1 / 4"
  using round64_eval [of "1 / 4" "- 2"] by (simp add: round_half_even_def)

lemma round64_25: "round64 25 = 25"
  using round64_eval [of 25 4] by (simp add: round_half_even_def)

lemma round64_100: "round64 100 = 100"
  using round64_eval [of 100 6] by (simp add: round_half_even_def)

lemma round64_200: "round64 200 = 200"
  using round64_eval [of 200 7] by (simp add: round_half_even_def)

lemma fl64_small: "0 \<le> x \<Longrightarrow> x \<le> 200 \<Longrightarrow> fl64 x = Fl (round64 x)"
proof -
  assume x: "0 \<le> x" "x \<le> 200"
  have "round64 x \<le> round64 200"
    using x by (rule round64_mono)
  moreover have "0 \<le> round64 x"
    using x(1) by (rule round64_nonneg)
  moreover have "(200 :: real) < 2 ^ 1024"
    by simp
  ultimately show ?thesis
    by (simp add: fl64_def round64_200)
qed

lemma quotient_side:
  assumes "0 \<le> p" "p \<le> q" "0 < q"
  shows "0 \<le> round64 (p / q)" "round64 (p / q) \<le> 1"
    "\<bar>round64 (p / q) - p / q\<bar> \<le> pow2 (- 53)"
proof -
  have r: "0 \<le> p / q" "p / q \<le> 1"
    using assms by simp_all
  show "0 \<le> round64 (p / q)"
    using r(1) by (rule round64_nonneg)
  show "round64 (p / q) \<le> 1"
    using round64_mono [OF r] by simp
  have "p / q < pow2 1"
    using r(2) by simp
  from round64_error_bound [OF r(1) this] show "\<bar>round64 (p / q) - p / q\<bar> \<le> pow2 (- 53)"
    by simp
qed

lemma percent_side:
  assumes "0 \<le> a" "a \<le> s" "0 < s"
  shows "0 \<le> round64 (round64 (a / s) * 100)" "round64 (round64 (a / s) * 100) \<le> 100"
    "0 \<le> round64 (a / s)" "round64 (a / s) \<le> 1"
    "s \<le> 3 * a \<Longrightarrow> 25 \<le> round64 (round64 (a / s) * 100)"
proof -
  have r: "0 \<le> a / s" "a / s \<le> 1"
    using assms by simp_all
  show n0: "0 \<le> round64 (a / s)"
    using r(1) by (rule round64_nonneg)
  show n1: "round64 (a / s) \<le> 1"
    using round64_mono [OF r] by simp
  have m: "0 \<le> round64 (a / s) * 100" "round64 (a / s) * 100 \<le> 100"
    using n0 n1 by simp_all
  show "0 \<le> round64 (round64 (a / s) * 100)"
    using m(1) by (rule round64_nonneg)
  show "round64 (round64 (a / s) * 100) \<le> 100"
    using round64_mono [OF m] by (simp add: round64_100)
  show "25 \<le> round64 (round64 (a / s) * 100)" if "s \<le> 3 * a"
  proof -
    have "1 / 4 \<le> a / s"
      using that assms(3) by (simp add: field_simps)
    then have "round64 (1 / 4) \<le> round64 (a / s)"
      by (intro round64_mono) simp_all
    then have "25 \<le> round64 (a / s) * 100"
      by (simp add: round64_quarter)
    then have "round64 25 \<le> round64 (round64 (a / s) * 100)"
      by (intro round64_mono) simp_all
    then show ?thesis
      by (simp add: round64_25)
  qed
qed

lemma half_up:
  fixes r y u :: real
  assumes "r - y \<le> u / 2" "u \<le> y"
  shows "r \<le> y + y / 2"
  using assms by linarith

lemma sum_bounds:
  assumes "0 \<le> a" "0 \<le> b" "round64 a = a" "round64 b = b" "a + b \<noteq> 0"
  shows "a \<le> round64 (a + b)" "b \<le> round64 (a + b)" "0 < round64 (a + b)"
    "round64 (a + b) \<le> 3 * max a b"
proof -
  have "round64 a \<le> round64 (a + b)" "round64 b \<le> round64 (a + b)"
    using assms(1,2) by (auto intro: round64_mono)
  then show le: "a \<le> round64 (a + b)" "b \<le> round64 (a + b)"
    using assms(3,4) by simp_all
  have m: "0 < max a b"
    using assms(1,2,5) by (auto simp: max_def)
  with le show "0 < round64 (a + b)"
    by (auto simp: max_def split: if_splits)
  have rm: "round64 (max a b) = max a b"
    using assms(3,4) by (simp add: max_def)
  have "max a b \<le> a + b"
    using assms(1,2) by simp
  from ulp_le_self [OF m rm this] have "ulp (a + b) \<le> a + b" .
  moreover have "round64 (a + b) - (a + b) \<le> ulp (a + b) / 2"
    using round64_error [of "a + b"] by (rule abs_le_D1)
  ultimately have "round64 (a + b) \<le> (a + b) + (a + b) / 2"
    by (intro half_up)
  also have "\<dots> \<le> 3 * max a b"
    by (cases "a \<le> b") (simp_all add: max_def field_simps)
  finally show "round64 (a + b) \<le> 3 * max a b" .
qed

lemma mode_fractions_tolerance:
  assumes "0 \<le> a" "0 \<le> b" "round64 a = a" "round64 b = b" "a + b \<noteq> 0"
    and "round64 (a + b) < 2 ^ 1024"
  shows "\<exists>te tm. mode_fractions (Fl a) (Fl b) = (Fl te, Fl tm)
           \<and> 0 \<le> te \<and> te \<le> 1 \<and> 0 \<le> tm \<and> tm \<le> 1
           \<and> \<bar>te + tm - 1\<bar> \<le> 1 / 2 ^ 49
           \<and> round64 te = te \<and> round64 tm = tm"
proof -
  define s where "s = round64 (a + b)"
  define p0 where "p0 = round64 (round64 (a / s) * 100)"
  define p1 where "p1 = round64 (round64 (b / s) * 100)"
  define q where "q = round64 (p0 + p1)"
  define te where "te = round64 (p0 / q)"
  define tm where "tm = round64 (p1 / q)"
  note sb = sum_bounds [OF assms(1-5), folded s_def]
  note pa = percent_side [OF assms(1) sb(1) sb(3), folded p0_def]
  note pb = percent_side [OF assms(2) sb(2) sb(3), folded p1_def]
  have big: "25 \<le> p0 \<or> 25 \<le> p1"
    using sb(4) pa(5) pb(5) by (auto simp: max_def split: if_splits)
  have sum: "0 \<le> p0 + p1" "p0 + p1 \<le> 200" "25 \<le> p0 + p1"
    using pa(1,2) pb(1,2) big by auto
  have "round64 25 \<le> round64 (p0 + p1)"
    using sum(3) by (intro round64_mono) simp_all
  then have q25: "25 \<le> q"
    by (simp add: q_def round64_25)
  have rp: "round64 p0 = p0" "round64 p1 = p1"
    unfolding p0_def p1_def using pa(3) pb(3) by (simp_all add: round64_idem)
  have "round64 p0 \<le> round64 (p0 + p1)" "round64 p1 \<le> round64 (p0 + p1)"
    using pa(1) pb(1) by (auto intro: round64_mono)
  then have pq: "p0 \<le> q" "p1 \<le> q"
    using rp by (simp_all add: q_def)
  have q0: "0 < q"
    using q25 by simp
  note ta = quotient_side [OF pa(1) pq(1) q0, folded te_def]
  note tb = quotient_side [OF pb(1) pq(2) q0, folded tm_def]
  have "p0 + p1 < pow2 8"
    using sum(2) by simp
  from round64_error_bound [OF sum(1) this] have eq: "\<bar>q - (p0 + p1)\<bar> \<le> pow2 (- 46)"
    by (simp add: q_def)
  have "\<bar>(p0 + p1 - q) / q\<bar> = \<bar>q - (p0 + p1)\<bar> / q"
    using q0 by (simp add: abs_minus_commute)
  also have "\<dots> \<le> pow2 (- 46) / q"
    using eq q0 by (intro divide_right_mono) simp_all
  also have "\<dots> \<le> pow2 (- 46) / 16"
    using q25 by (intro divide_left_mono) simp_all
  finally have e3: "\<bar>(p0 + p1 - q) / q\<bar> \<le> pow2 (- 46) / 16" .
  have "te + tm - 1 = (te - p0 / q) + (tm - p1 / q) + (p0 + p1 - q) / q"
    using q0 by (simp add: field_simps)
  then have "\<bar>te + tm - 1\<bar> \<le> \<bar>te - p0 / q\<bar> + \<bar>tm - p1 / q\<bar> + \<bar>(p0 + p1 - q) / q\<bar>"
    by linarith
  also have "\<dots> \<le> pow2 (- 53) + pow2 (- 53) + pow2 (- 46) / 16"
    using ta(3) tb(3) e3 by linarith
  also have "\<dots> \<le> 1 / 2 ^ 49"
    by simp
  finally have tol: "\<bar>te + tm - 1\<bar> \<le> 1 / 2 ^ 49" .
  have f1: "fl64 (a + b) = Fl s"
    using assms(6) sb(3) by (simp add: fl64_def s_def)
  have s0: "s \<noteq> 0"
    using sb(3) by simp
  have r: "0 \<le> a / s" "a / s \<le> 1" "0 \<le> b / s" "b / s \<le> 1"
    using assms(1,2) sb(1,2,3) by simp_all
  have f2: "fl64 (a / s) = Fl (round64 (a / s))" "fl64 (b / s) = Fl (round64 (b / s))"
    using r by (simp_all add: fl64_small)
  have f3: "fl64 (round64 (a / s) * 100) = Fl p0" "fl64 (round64 (b / s) * 100) = Fl p1"
    using pa(3,4) pb(3,4) by (simp_all add: fl64_small p0_def p1_def)
  have f4: "fl64 (p0 + p1) = Fl q"
    using sum(1,2) by (simp add: fl64_small q_def)
  have r2: "0 \<le> p0 / q" "p0 / q \<le> 1" "0 \<le> p1 / q" "p1 / q \<le> 1"
    using pa(1) pb(1) pq q0 by simp_all
  have f5: "fl64 (p0 / q) = Fl te" "fl64 (p1 / q) = Fl tm"
    using r2 by (simp_all add: fl64_small te_def tm_def)
  have "mode_fractions (Fl a) (Fl b) = (Fl te, Fl tm)"
    using s0 q0 by (simp add: mode_fractions_def np_sum_def f1 f2 f3 f4 f5)
  moreover have "round64 te = te" "round64 tm = tm"
    unfolding te_def tm_def using r2 by (simp_all add: round64_idem)
  ultimately show ?thesis
    using ta(1,2) tb(1,2) tol by blast
qed

lemma fl64_0 [simp]: "fl64 0 = Fl 0"
  by (simp add: fl64_def)

lemma mode_fractions_zero: "mode_fractions (Fl 0) (Fl 0) = (NonFinite, NonFinite)"
  by (simp add: mode_fractions_def np_sum_def)

lemma mode_fractions_overflow:
  assumes "2 ^ 1024 \<le> \<bar>round64 (a + b)\<bar>"
  shows "mode_fractions (Fl a) (Fl b) = (NonFinite, NonFinite)"
  using assms by (simp add: mode_fractions_def np_sum_def fl64_def)

lemma mode_fractions_nonfinite:
  "mode_fractions NonFinite b = (NonFinite, NonFinite)"
  "mode_fractions a NonFinite = (NonFinite, NonFinite)"
  by (cases b; simp add: mode_fractions_def np_sum_def)
     (cases a; simp add: mode_fractions_def np_sum_def)

lemma fl64_eval:
  assumes "0 < x" "pow2 e \<le> x" "x < pow2 (e + 1)" "- 1022 \<le> e" "e \<le> 1022"
  shows "fl64 x = Fl (of_int (round_half_even (x / pow2 (e - 52))) * pow2 (e - 52))"
proof -
  have "round64 x \<le> pow2 (e + 1)"
    using round64_upper [OF assms(1)] exponent_eq' [OF assms(1-4)] by simp
  also have "\<dots> \<le> pow2 1023"
    using assms(5) by (intro iffD2 [OF pow2_le]) simp
  also have "\<dots> < 2 ^ 1024"
    by simp
  finally have "round64 x < 2 ^ 1024" .
  moreover have "0 \<le> round64 x"
    using assms(1) by (intro round64_nonneg) simp
  ultimately show ?thesis
    using round64_eval [OF assms(1-4)] by (simp add: fl64_def)
qed

lemma round_ex_total: "fadd64 (Fl 1) (Fl 14) = Fl 15"
  using fl64_eval [of 15 3] by (simp add: round_half_even_def)

lemma round_ex_n0: "fdiv64 (Fl 1) (Fl 15) = Fl (4803839602528529 / 72057594037927936)"
  using fl64_eval [of "1 / 15" "- 4"] by (simp add: round_half_even_def)

lemma round_ex_n1: "fdiv64 (Fl 14) (Fl 15) = Fl (4203359652212463 / 4503599627370496)"
  using fl64_eval [of "14 / 15" "- 1"] by (simp add: round_half_even_def)

lemma round_ex_p0: "fmul64 (Fl (4803839602528529 / 72057594037927936)) (Fl 100)
    = Fl (7505999378950827 / 1125899906842624)"
  using fl64_eval [of "4803839602528529 / 72057594037927936 * 100" 2]
  by (simp add: round_half_even_def)

lemma round_ex_p1: "fmul64 (Fl (4203359652212463 / 4503599627370496)) (Fl 100)
    = Fl (6567749456581973 / 70368744177664)"
  using fl64_eval [of "4203359652212463 / 4503599627370496 * 100" 6]
  by (simp add: round_half_even_def)

lemma round_ex_q: "fadd64 (Fl (7505999378950827 / 1125899906842624))
      (Fl (6567749456581973 / 70368744177664)) = Fl 100"
  using fl64_eval [of "7505999378950827 / 1125899906842624 + 6567749456581973 / 70368744177664" 6]
  by (simp add: round_half_even_def)

lemma round_ex_te: "fdiv64 (Fl (7505999378950827 / 1125899906842624)) (Fl 100)
    = Fl (4803839602528529 / 72057594037927936)"
  using fl64_eval [of "7505999378950827 / 1125899906842624 / 100" "- 4"]
  by (simp add: round_half_even_def)

lemma round_ex_tm: "fdiv64 (Fl (6567749456581973 / 70368744177664)) (Fl 100)
    = Fl (8406719304424925 / 9007199254740992)"
  using fl64_eval [of "6567749456581973 / 70368744177664 / 100" "- 1"]
  by (simp add: round_half_even_def)

lemma round_ex_sum: "fadd64 (Fl (4803839602528529 / 72057594037927936))
      (Fl (8406719304424925 / 9007199254740992))
    = Fl (9007199254740991 / 9007199254740992)"
  using fl64_eval [of "4803839602528529 / 72057594037927936 + 8406719304424925 / 9007199254740992" "- 1"]
  by (simp add: round_half_even_def)

lemma mode_fractions_1_14:
  "mode_fractions (Fl 1) (Fl 14)
     = (Fl (4803839602528529 / 72057594037927936), Fl (8406719304424925 / 9007199254740992))"
  by (simp add: mode_fractions_def np_sum_def round_ex_total round_ex_n0 round_ex_n1 round_ex_p0 round_ex_p1 round_ex_q round_ex_te round_ex_tm
        del: fadd64.simps fdiv64.simps fmul64.simps)

subsection \<open>The polarization fractions\<close>

lemma mode_fractions_cases:
  assumes "mode_fractions x y = (t', u')"
  shows "(\<forall>a b. x = Fl a \<and> y = Fl b \<and> 0 \<le> a \<and> 0 \<le> b \<and> round64 a = a \<and> round64 b = b
             \<and> a + b \<noteq> 0 \<and> round64 (a + b) < 2 ^ 1024 \<longrightarrow>
           (\<exists>t u. t' = Fl t \<and> u' = Fl u \<and> 0 \<le> t \<and> t \<le> 1 \<and> 0 \<le> u \<and> u \<le> 1
               \<and> \<bar>t + u - 1\<bar> \<le> 1 / 2 ^ 49 \<and> round64 t = t \<and> round64 u = u))
       \<and> (x = Fl 0 \<and> y = Fl 0 \<longrightarrow> t' = NonFinite \<and> u' = NonFinite)
       \<and> (x = NonFinite \<or> y = NonFinite \<longrightarrow> t' = NonFinite \<and> u' = NonFinite)
       \<and> (\<forall>a b. x = Fl a \<and> y = Fl b \<and> 2 ^ 1024 \<le> \<bar>round64 (a + b)\<bar> \<longrightarrow>
             t' = NonFinite \<and> u' = NonFinite)"
proof (intro conjI allI impI)
  fix a b
  assume h: "x = Fl a \<and> y = Fl b \<and> 0 \<le> a \<and> 0 \<le> b \<and> round64 a = a \<and> round64 b = b
             \<and> a + b \<noteq> 0 \<and> round64 (a + b) < 2 ^ 1024"
  then have "\<exists>te tm. mode_fractions (Fl a) (Fl b) = (Fl te, Fl tm)
           \<and> 0 \<le> te \<and> te \<le> 1 \<and> 0 \<le> tm \<and> tm \<le> 1
           \<and> \<bar>te + tm - 1\<bar> \<le> 1 / 2 ^ 49
           \<and> round64 te = te \<and> round64 tm = tm"
    by (intro mode_fractions_tolerance) simp_all
  with assms h show "\<exists>t u. t' = Fl t \<and> u' = Fl u \<and> 0 \<le> t \<and> t \<le> 1 \<and> 0 \<le> u \<and> u \<le> 1
               \<and> \<bar>t + u - 1\<bar> \<le> 1 / 2 ^ 49 \<and> round64 t = t \<and> round64 u = u"
    by auto
next
  assume "x = Fl 0 \<and> y = Fl 0"
  with assms mode_fractions_zero show "t' = NonFinite" "u' = NonFinite"
    by simp_all
next
  assume "x = NonFinite \<or> y = NonFinite"
  with assms mode_fractions_nonfinite [of y] mode_fractions_nonfinite [of x]
  show "t' = NonFinite" "u' = NonFinite"
    by auto
next
  fix a b
  assume h: "x = Fl a \<and> y = Fl b \<and> 2 ^ 1024 \<le> \<bar>round64 (a + b)\<bar>"
  then have "mode_fractions (Fl a) (Fl b) = (NonFinite, NonFinite)"
    by (intro mode_fractions_overflow) simp
  with assms h show "t' = NonFinite" "u' = NonFinite"
    by simp_all
qed

lemma collect_fractions:
  assumes "collect E c sd = Inr d"
  shows "\<exists>fr. fractions_loop E sd [0 ..< nat (num_modes c)] = Inr fr
     \<and> d ''fraction_te'' = Some (RealArr (NdArray [nat (num_modes c)] (map fst fr)))
     \<and> d ''fraction_tm'' = Some (RealArr (NdArray [nat (num_modes c)] (map snd fr)))"
  using assms
  by (auto simp: collect_def Let_def split: if_splits sum.splits option.splits)

text \<open>
  Claim C10, corrected. When the result of a first access to \<open>_data\<close> is computed, not
  loaded, \<open>fraction_te\<close> and \<open>fraction_tm\<close> are arrays of \<open>num_modes\<close> floats. For a mode
  \<open>i < num_modes\<close> let \<open>a\<close> and \<open>b\<close> be the numbers \<open>np.sum(np.abs(e) ** 2)\<close> of its fields
  \<open>Ex\<close> and \<open>Ey\<close>. When they are float64 numbers, not negative and not both zero, whose sum
  does not overflow, the two fractions are float64 numbers between 0 and 1, and their
  exact sum differs from 1 by \<open>2^-49\<close> at most: the float64 operations round, and the sum
  need not be 1. When \<open>a\<close> and \<open>b\<close> are both zero, when one of them is \<open>nan\<close> or an
  infinity, and when their sum overflows, both fractions are \<open>nan\<close>.
\<close>

theorem computed_fractions:
  assumes "private_cached_data self = None"
    and "filepath E self w = (Inr fp, w1)"
    and "\<not> (\<exists>p d0. fp = Some p \<and> files w p = Some d0 \<and> \<not> overwrite (cfg self))"
    and "private_data E self w = (Inr d, self', w')"
  shows "\<exists>wg sd te tm.
        private_waveguide self' = Some wg \<and> mode_solver_data E wg = Inr sd
      \<and> d ''fraction_te'' = Some (RealArr (NdArray [nat (num_modes (cfg self))] te))
      \<and> d ''fraction_tm'' = Some (RealArr (NdArray [nat (num_modes (cfg self))] tm))
      \<and> length te = nat (num_modes (cfg self)) \<and> length tm = nat (num_modes (cfg self))
      \<and> (\<forall>i < nat (num_modes (cfg self)). \<exists>ex ey.
            field_sel sd ''Ex'' i = Some ex \<and> field_sel sd ''Ey'' i = Some ey
          \<and> (\<forall>a b. np_sum_abs2 E ex = Fl a \<and> np_sum_abs2 E ey = Fl b \<and> 0 \<le> a \<and> 0 \<le> b
                  \<and> round64 a = a \<and> round64 b = b
                  \<and> a + b \<noteq> 0 \<and> round64 (a + b) < 2 ^ 1024 \<longrightarrow>
               (\<exists>t u. te ! i = Fl t \<and> tm ! i = Fl u
                    \<and> 0 \<le> t \<and> t \<le> 1 \<and> 0 \<le> u \<and> u \<le> 1
                    \<and> \<bar>t + u - 1\<bar> \<le> 1 / 2 ^ 49 \<and> round64 t = t \<and> round64 u = u))
          \<and> (np_sum_abs2 E ex = Fl 0 \<and> np_sum_abs2 E ey = Fl 0 \<longrightarrow>
                te ! i = NonFinite \<and> tm ! i = NonFinite)
          \<and> (np_sum_abs2 E ex = NonFinite \<or> np_sum_abs2 E ey = NonFinite \<longrightarrow>
                te ! i = NonFinite \<and> tm ! i = NonFinite)
          \<and> (\<forall>a b. np_sum_abs2 E ex = Fl a \<and> np_sum_abs2 E ey = Fl b
                  \<and> 2 ^ 1024 \<le> \<bar>round64 (a + b)\<bar> \<longrightarrow>
                te ! i = NonFinite \<and> tm ! i = NonFinite))"
proof -
  let ?n = "nat (num_modes (cfg self))"
  note fw = filepath_world [OF assms(2)]
  have "cached_file (cfg self) fp w1 = None"
    using assms(3) fw by (auto simp: cached_file_def split: option.splits)
  then have "compute_data E fp self w1 = (Inr d, self', w')"
    using assms by (simp add: private_data_def)
  from compute_data_result [OF this]
  obtain wg sd where wg: "private_waveguide self' = Some wg" "mode_solver_data E wg = Inr sd"
    and col: "collect E (cfg self) sd = Inr d"
    by blast
  from collect_fractions [OF col]
  obtain fr where fr: "fractions_loop E sd [0 ..< ?n] = Inr fr"
    and te: "d ''fraction_te'' = Some (RealArr (NdArray [?n] (map fst fr)))"
    and tm: "d ''fraction_tm'' = Some (RealArr (NdArray [?n] (map snd fr)))"
    by blast
  from fractions_loop_nth [OF fr]
  have len: "length fr = ?n"
    and nth: "\<forall>k < ?n. \<exists>ex ey. field_sel sd ''Ex'' k = Some ex
        \<and> field_sel sd ''Ey'' k = Some ey
        \<and> fr ! k = mode_fractions (np_sum_abs2 E ex) (np_sum_abs2 E ey)"
    by auto
  have "\<exists>ex ey. field_sel sd ''Ex'' i = Some ex \<and> field_sel sd ''Ey'' i = Some ey
          \<and> (\<forall>a b. np_sum_abs2 E ex = Fl a \<and> np_sum_abs2 E ey = Fl b \<and> 0 \<le> a \<and> 0 \<le> b
                  \<and> round64 a = a \<and> round64 b = b
                  \<and> a + b \<noteq> 0 \<and> round64 (a + b) < 2 ^ 1024 \<longrightarrow>
               (\<exists>t u. map fst fr ! i = Fl t \<and> map snd fr ! i = Fl u
                    \<and> 0 \<le> t \<and> t \<le> 1 \<and> 0 \<le> u \<and> u \<le> 1
                    \<and> \<bar>t + u - 1\<bar> \<le> 1 / 2 ^ 49 \<and> round64 t = t \<and> round64 u = u))
          \<and> (np_sum_abs2 E ex = Fl 0 \<and> np_sum_abs2 E ey = Fl 0 \<longrightarrow>
                map fst fr ! i = NonFinite \<and> map snd fr ! i = NonFinite)
          \<and> (np_sum_abs2 E ex = NonFinite \<or> np_sum_abs2 E ey = NonFinite \<longrightarrow>
                map fst fr ! i = NonFinite \<and> map snd fr ! i = NonFinite)
          \<and> (\<forall>a b. np_sum_abs2 E ex = Fl a \<and> np_sum_abs2 E ey = Fl b
                  \<and> 2 ^ 1024 \<le> \<bar>round64 (a + b)\<bar> \<longrightarrow>
                map fst fr ! i = NonFinite \<and> map snd fr ! i = NonFinite)"
    if i: "i < ?n" for i
  proof -
    from nth i obtain ex ey where sel: "field_sel sd ''Ex'' i = Some ex"
      "field_sel sd ''Ey'' i = Some ey"
      "fr ! i = mode_fractions (np_sum_abs2 E ex) (np_sum_abs2 E ey)"
      by blast
    have "mode_fractions (np_sum_abs2 E ex) (np_sum_abs2 E ey)
        = (map fst fr ! i, map snd fr ! i)"
      using sel(3) i len by simp
    from mode_fractions_cases [OF this] sel(1,2) show ?thesis
      by (intro exI [of _ ex] exI [of _ ey] conjI) simp_all
  qed
  with wg te tm len show ?thesis
    by (intro exI [of _ wg] exI [of _ sd] exI [of _ "map fst fr"] exI [of _ "map snd fr"]) simp
qed

lemma round_build_waveguide: "build_waveguide round_env c = Inr 7"
  by (simp add: build_waveguide_def bind_def resolve_medium_def round_env_def ex_env_def Let_def
           split: material.splits option.splits)

lemma round_energies:
  "np_sum_abs2 round_env [1, 0, 0] = Fl 1" "np_sum_abs2 round_env [3, 2, 1] = Fl 14"
  by (simp_all add: round_env_def ex_env_def ex_sum_abs2_def)

lemma round_fractions:
  "fractions_loop round_env round_solver_data [0 ..< nat 2] =
     Inr [(Fl (4803839602528529 / 72057594037927936), Fl (8406719304424925 / 9007199254740992)),
          (Fl (4803839602528529 / 72057594037927936), Fl (8406719304424925 / 9007199254740992))]"
  by (simp add: round_solver_data_def numeral_2_eq_2 round_energies mode_fractions_1_14)

lemma round_data:
  "private_data round_env ex_nocache ex_world =
     (Inr (the (private_cached_data (fst (snd (private_data round_env ex_nocache ex_world))))),
      snd (private_data round_env ex_nocache ex_world))
   \<and> the (private_cached_data (fst (snd (private_data round_env ex_nocache ex_world)))) ''fraction_te''
       = Some (RealArr (NdArray [2] [Fl (4803839602528529 / 72057594037927936),
                                     Fl (4803839602528529 / 72057594037927936)]))
   \<and> the (private_cached_data (fst (snd (private_data round_env ex_nocache ex_world)))) ''fraction_tm''
       = Some (RealArr (NdArray [2] [Fl (8406719304424925 / 9007199254740992),
                                     Fl (8406719304424925 / 9007199254740992)]))"
proof -
  let ?te = "RealArr (NdArray [2] [Fl (4803839602528529 / 72057594037927936),
                                   Fl (4803839602528529 / 72057594037927936)])"
  let ?tm = "RealArr (NdArray [2] [Fl (8406719304424925 / 9007199254740992),
                                   Fl (8406719304424925 / 9007199254740992)])"
  have fp: "filepath round_env ex_nocache ex_world = (Inr None, ex_world)"
    by (simp add: filepath_def cache_dir_def ex_nocache_def)
  have ms: "mode_solver_data round_env wg = Inr round_solver_data" for wg :: nat
    by (simp add: round_env_def)
  have nm: "num_modes (cfg ex_nocache) = 2"
    by (simp add: ex_nocache_def ex_config_def)
  have col: "collect round_env (cfg ex_nocache) round_solver_data =
      Inr ((partial_dict round_solver_data)(''fraction_te'' \<mapsto> ?te, ''fraction_tm'' \<mapsto> ?tm))"
    using round_fractions
    by (simp add: collect_def nm Let_def round_solver_data_def ex_solver_data_def)
  have pc: "private_cached_data ex_nocache = None" "private_waveguide ex_nocache = None"
    by (simp_all add: ex_nocache_def)
  have "private_data round_env ex_nocache ex_world
      = compute_data round_env None ex_nocache ex_world"
    by (simp add: private_data_def fp pc cached_file_def)
  also have "\<dots> = (Inr ((partial_dict round_solver_data)
                      (''fraction_te'' \<mapsto> ?te, ''fraction_tm'' \<mapsto> ?tm)),
        ex_nocache\<lparr>private_waveguide := Some 7, private_cached_data :=
           Some ((partial_dict round_solver_data)
                   (''fraction_te'' \<mapsto> ?te, ''fraction_tm'' \<mapsto> ?tm))\<rparr>,
        log_call [RunModeSolver (ident ex_nocache)]
          (ex_world\<lparr>calls := calls ex_world @ [Construct (ident ex_nocache)]\<rparr>))"
    by (simp add: compute_data_def waveguide_def pc round_build_waveguide ms col Let_def store_def)
  finally show ?thesis
    by simp
qed

lemma data_item_fst:
  "fst (private_data E self w) = Inr d \<Longrightarrow> fst (data_item k E self w) = getitem d k"
  by (cases "private_data E self w") (auto simp: data_item_def)

theorem fractions_rounding_counterexample:
  "fst (fraction_te round_env ex_nocache ex_world)
     = Inr (RealArr (NdArray [2] [Fl (4803839602528529 / 72057594037927936),
                                  Fl (4803839602528529 / 72057594037927936)]))
   \<and> fst (fraction_tm round_env ex_nocache ex_world)
     = Inr (RealArr (NdArray [2] [Fl (8406719304424925 / 9007199254740992),
                                  Fl (8406719304424925 / 9007199254740992)]))
   \<and> (4803839602528529 / 72057594037927936 + 8406719304424925 / 9007199254740992 :: real)
     = 1 - 7 / 2 ^ 56
   \<and> fadd64 (Fl (4803839602528529 / 72057594037927936)) (Fl (8406719304424925 / 9007199254740992))
     = Fl (1 - 1 / 2 ^ 53)
   \<and> field_sel round_solver_data ''Ex'' 0 = Some [1, 0, 0]
   \<and> field_sel round_solver_data ''Ey'' 0 = Some [3, 2, 1]
   \<and> np_sum_abs2 round_env [1, 0, 0] = Fl 1
   \<and> np_sum_abs2 round_env [3, 2, 1] = Fl 14"
proof -
  let ?r = "private_data round_env ex_nocache ex_world"
  obtain d where d: "?r = (Inr d, snd ?r)"
    and te: "d ''fraction_te''
       = Some (RealArr (NdArray [2] [Fl (4803839602528529 / 72057594037927936),
                                     Fl (4803839602528529 / 72057594037927936)]))"
    and tm: "d ''fraction_tm''
       = Some (RealArr (NdArray [2] [Fl (8406719304424925 / 9007199254740992),
                                     Fl (8406719304424925 / 9007199254740992)]))"
    using round_data by blast
  have "fst ?r = Inr d"
    by (subst d) simp
  then have "fst (fraction_te round_env ex_nocache ex_world) = getitem d ''fraction_te''"
    "fst (fraction_tm round_env ex_nocache ex_world) = getitem d ''fraction_tm''"
    by (simp_all add: fraction_te_def fraction_tm_def data_item_fst)
  then have a: "fst (fraction_te round_env ex_nocache ex_world)
     = Inr (RealArr (NdArray [2] [Fl (4803839602528529 / 72057594037927936),
                                  Fl (4803839602528529 / 72057594037927936)]))"
    and b: "fst (fraction_tm round_env ex_nocache ex_world)
     = Inr (RealArr (NdArray [2] [Fl (8406719304424925 / 9007199254740992),
                                  Fl (8406719304424925 / 9007199254740992)]))"
    by (simp_all add: getitem_def te tm)
  have c: "(4803839602528529 / 72057594037927936 + 8406719304424925 / 9007199254740992 :: real)
     = 1 - 7 / 2 ^ 56"
    by simp
  have e: "fadd64 (Fl (4803839602528529 / 72057594037927936))
        (Fl (8406719304424925 / 9007199254740992)) = Fl (1 - 1 / 2 ^ 53)"
    by (simp add: round_ex_sum del: fadd64.simps)
  have f: "field_sel round_solver_data ''Ex'' 0 = Some [1, 0, 0]"
    "field_sel round_solver_data ''Ey'' 0 = Some [3, 2, 1]"
    by (simp_all add: round_solver_data_def)
  from a b c e f round_energies show ?thesis
    by (intro conjI)
qed

lemma ex_collect_modes:
  assumes "num_modes c = 2"
  shows "\<exists>d. collect ex_env c ex_solver_data = Inr d"
proof -
  have "\<exists>fr. fractions_loop ex_env ex_solver_data [0 ..< nat 2] = Inr fr"
    by (rule fractions_loop_total) (simp add: ex_solver_data_def)
  then show ?thesis
    using assms by (auto simp: collect_def Let_def)
qed

lemma round64_50: "round64 50 = 50"
  using round64_eval [of 50 5] by (simp add: round_half_even_def)

theorem computed_fractions_witness:
  "\<exists>te tm t u.
      fst (fraction_te ex_env ex_nocache ex_world) = Inr (RealArr (NdArray [2] te))
    \<and> fst (fraction_tm ex_env ex_nocache ex_world) = Inr (RealArr (NdArray [2] tm))
    \<and> te ! 0 = Fl t \<and> tm ! 0 = Fl u \<and> 0 \<le> t \<and> t \<le> 1 \<and> 0 \<le> u \<and> u \<le> 1
    \<and> \<bar>t + u - 1\<bar> \<le> 1 / 2 ^ 49"
proof -
  let ?r = "private_data ex_env ex_nocache ex_world"
  have pc: "private_cached_data ex_nocache = None" "private_waveguide ex_nocache = None"
    by (simp_all add: ex_nocache_def)
  have fp: "filepath ex_env ex_nocache ex_world = (Inr None, ex_world)"
    by (simp add: filepath_def cache_dir_def ex_nocache_def)
  have nm: "num_modes (cfg ex_nocache) = 2"
    by (simp add: ex_nocache_def ex_config_def)
  have ms: "mode_solver_data ex_env wg = Inr ex_solver_data" for wg :: nat
    by (simp add: ex_env_def)
  obtain d0 where "collect ex_env (cfg ex_nocache) ex_solver_data = Inr d0"
    using ex_collect_modes [OF nm] by blast
  then have "\<exists>d. fst (compute_data ex_env None ex_nocache ex_world) = Inr d"
    by (simp add: compute_data_def waveguide_def pc ex_build_waveguide ms Let_def)
  moreover have "?r = compute_data ex_env None ex_nocache ex_world"
    by (simp add: private_data_def fp pc cached_file_def)
  ultimately obtain d where "fst ?r = Inr d"
    by auto
  then obtain self' w' where res: "?r = (Inr d, self', w')"
    by (cases ?r) auto
  have nofile: "\<not> (\<exists>p d0. (None :: path option) = Some p \<and> files ex_world p = Some d0
      \<and> \<not> overwrite (cfg ex_nocache))"
    by simp
  from computed_fractions [OF pc(1) fp nofile res]
  obtain wg sd te tm where sd: "mode_solver_data ex_env wg = Inr sd"
    and te: "d ''fraction_te'' = Some (RealArr (NdArray [nat (num_modes (cfg ex_nocache))] te))"
    and tm: "d ''fraction_tm'' = Some (RealArr (NdArray [nat (num_modes (cfg ex_nocache))] tm))"
    and modes: "\<forall>i < nat (num_modes (cfg ex_nocache)). \<exists>ex ey.
            field_sel sd ''Ex'' i = Some ex \<and> field_sel sd ''Ey'' i = Some ey
          \<and> (\<forall>a b. np_sum_abs2 ex_env ex = Fl a \<and> np_sum_abs2 ex_env ey = Fl b
                  \<and> 0 \<le> a \<and> 0 \<le> b \<and> round64 a = a \<and> round64 b = b
                  \<and> a + b \<noteq> 0 \<and> round64 (a + b) < 2 ^ 1024 \<longrightarrow>
               (\<exists>t u. te ! i = Fl t \<and> tm ! i = Fl u
                    \<and> 0 \<le> t \<and> t \<le> 1 \<and> 0 \<le> u \<and> u \<le> 1
                    \<and> \<bar>t + u - 1\<bar> \<le> 1 / 2 ^ 49 \<and> round64 t = t \<and> round64 u = u))
          \<and> (np_sum_abs2 ex_env ex = Fl 0 \<and> np_sum_abs2 ex_env ey = Fl 0 \<longrightarrow>
                te ! i = NonFinite \<and> tm ! i = NonFinite)
          \<and> (np_sum_abs2 ex_env ex = NonFinite \<or> np_sum_abs2 ex_env ey = NonFinite \<longrightarrow>
                te ! i = NonFinite \<and> tm ! i = NonFinite)
          \<and> (\<forall>a b. np_sum_abs2 ex_env ex = Fl a \<and> np_sum_abs2 ex_env ey = Fl b
                  \<and> 2 ^ 1024 \<le> \<bar>round64 (a + b)\<bar> \<longrightarrow>
                te ! i = NonFinite \<and> tm ! i = NonFinite)"
    by (elim exE conjE) (rule that)
  have sde: "sd = ex_solver_data"
    using sd ms by simp
  have en: "np_sum_abs2 ex_env [Complex 3 4, 0] = Fl 25"
    "np_sum_abs2 ex_env [0, Complex 0 5] = Fl 25"
    by (simp_all add: ex_env_def ex_sum_abs2_def cmod_power2)
  have "(0 :: nat) < nat (num_modes (cfg ex_nocache))"
    by (simp add: nm)
  with modes [rule_format, of 0] obtain ex ey where sel: "field_sel sd ''Ex'' 0 = Some ex"
    "field_sel sd ''Ey'' 0 = Some ey"
    and tol: "\<forall>a b. np_sum_abs2 ex_env ex = Fl a \<and> np_sum_abs2 ex_env ey = Fl b
                  \<and> 0 \<le> a \<and> 0 \<le> b \<and> round64 a = a \<and> round64 b = b
                  \<and> a + b \<noteq> 0 \<and> round64 (a + b) < 2 ^ 1024 \<longrightarrow>
               (\<exists>t u. te ! 0 = Fl t \<and> tm ! 0 = Fl u
                    \<and> 0 \<le> t \<and> t \<le> 1 \<and> 0 \<le> u \<and> u \<le> 1
                    \<and> \<bar>t + u - 1\<bar> \<le> 1 / 2 ^ 49 \<and> round64 t = t \<and> round64 u = u)"
    by blast
  from sel have "ex = [Complex 3 4, 0]" "ey = [0, Complex 0 5]"
    by (simp_all add: sde ex_solver_data_def)
  with en have "np_sum_abs2 ex_env ex = Fl 25 \<and> np_sum_abs2 ex_env ey = Fl 25
      \<and> (0 :: real) \<le> 25 \<and> (0 :: real) \<le> 25 \<and> round64 25 = 25 \<and> round64 25 = 25
      \<and> (25 + 25 :: real) \<noteq> 0 \<and> round64 (25 + 25) < 2 ^ 1024"
    by (simp add: round64_25 round64_50)
  with tol have "\<exists>t u. te ! 0 = Fl t \<and> tm ! 0 = Fl u
                    \<and> 0 \<le> t \<and> t \<le> 1 \<and> 0 \<le> u \<and> u \<le> 1
                    \<and> \<bar>t + u - 1\<bar> \<le> 1 / 2 ^ 49 \<and> round64 t = t \<and> round64 u = u"
    by blast
  then obtain t u where tu: "te ! 0 = Fl t" "tm ! 0 = Fl u" "0 \<le> t" "t \<le> 1" "0 \<le> u" "u \<le> 1"
    "\<bar>t + u - 1\<bar> \<le> 1 / 2 ^ 49"
    by blast
  have "fst ?r = Inr d"
    by (simp add: res)
  then have "fst (fraction_te ex_env ex_nocache ex_world) = getitem d ''fraction_te''"
    "fst (fraction_tm ex_env ex_nocache ex_world) = getitem d ''fraction_tm''"
    by (simp_all add: fraction_te_def fraction_tm_def data_item_fst)
  then have "fst (fraction_te ex_env ex_nocache ex_world) = Inr (RealArr (NdArray [2] te))"
    "fst (fraction_tm ex_env ex_nocache ex_world) = Inr (RealArr (NdArray [2] tm))"
    using te tm by (simp_all add: getitem_def nm)
  with tu show ?thesis
    by blast
qed


subsection \<open>The propagation loss\<close>
















lemma collect_n_eff: "collect E c sd = Inr d \<Longrightarrow> d ''n_eff'' = Some (n_complex sd)"
  by (auto simp: collect_def Let_def partial_dict_def split: if_splits sum.splits option.splits)



subsection \<open>The rejections of \<open>plot_field\<close>\<close>

lemma str_int_2: "str_int 2 = ''2''"
  by code_simp

lemma collect_keys:
  assumes "collect E c sd = Inr d"
  shows "(d k \<noteq> None) =
     (k \<in> set field_names
      \<or> k \<in> {''x'', ''y'', ''n_eff'', ''mode_area'', ''fraction_te'', ''fraction_tm''}
      \<or> k = ''n_group'' \<and> wg_n_group sd \<noteq> None)"
  using assms
  by (auto simp: collect_def Let_def partial_dict_def map_of_keys
           split: if_splits sum.splits option.splits)

lemma ex_nocache_run:
  "\<exists>d self'. private_data ex_env ex_nocache ex_world
        = (Inr d, self', ex_world\<lparr>calls := [Construct 1, RunModeSolver 1]\<rparr>)
      \<and> collect ex_env (cfg ex_nocache) ex_solver_data = Inr d"
proof -
  have pc: "private_cached_data ex_nocache = None" "private_waveguide ex_nocache = None"
    "ident ex_nocache = 1"
    by (simp_all add: ex_nocache_def)
  have fp: "filepath ex_env ex_nocache ex_world = (Inr None, ex_world)"
    by (simp add: filepath_def cache_dir_def ex_nocache_def)
  have nm: "num_modes (cfg ex_nocache) = 2"
    by (simp add: ex_nocache_def ex_config_def)
  have ms: "mode_solver_data ex_env wg = Inr ex_solver_data" for wg :: nat
    by (simp add: ex_env_def)
  obtain d where d: "collect ex_env (cfg ex_nocache) ex_solver_data = Inr d"
    using ex_collect_modes [OF nm] by blast
  then have "compute_data ex_env None ex_nocache ex_world
      = (Inr d, ex_nocache\<lparr>private_waveguide := Some 7, private_cached_data := Some d\<rparr>,
         ex_world\<lparr>calls := [Construct 1, RunModeSolver 1]\<rparr>)"
    by (simp add: compute_data_def waveguide_def pc ex_build_waveguide ms Let_def store_def
          log_call_def ex_world_def)
  moreover have "private_data ex_env ex_nocache ex_world
      = compute_data ex_env None ex_nocache ex_world"
    by (simp add: private_data_def fp pc cached_file_def)
  ultimately show ?thesis
    using d by auto
qed

text \<open>
  Claim C6, as amended. \<open>plot_field\<close> reads \<open>self._data\<close> first. When that returns the
  mapping \<open>d\<close>, a field name that is not a key of \<open>d\<close> raises KeyError, and a field name
  that is a key with \<open>mode_index \<ge> num_modes\<close> raises the ValueError of the source; in
  both cases the instance and the world are those the access to \<open>_data\<close> has left, and
  nothing is plotted.
\<close>

theorem plot_field_rejections:
  assumes "private_data E self w = (Inr d, self1, w1)"
  shows "(d field_name = None \<longrightarrow>
            plot_field E self field_name val mode_index wl w
              = (Inl (KeyError field_name), self1, w1))
       \<and> (d field_name \<noteq> None \<and> num_modes (cfg self) \<le> mode_index \<longrightarrow>
            plot_field E self field_name val mode_index wl w
              = (Inl (ValueError (''mode_index = '' @ str_int mode_index
                    @ '' must be less than num_modes '' @ str_int (num_modes (cfg self)))),
                 self1, w1))"
  using assms
  by (auto simp: plot_field_def plot_field_body_def bind_def getitem_def)

theorem plot_field_rejections_witness:
  "plot_field ex_env ex_nocache ''Ex'' ''real'' 2 None ex_world
     = (Inl (ValueError ''mode_index = 2 must be less than num_modes 2''),
        snd (private_data ex_env ex_nocache ex_world))
   \<and> plot_field ex_env ex_nocache ''Q'' ''real'' 0 None ex_world
     = (Inl (KeyError ''Q''), snd (private_data ex_env ex_nocache ex_world))"
proof -
  obtain d self' where res: "private_data ex_env ex_nocache ex_world
        = (Inr d, self', ex_world\<lparr>calls := [Construct 1, RunModeSolver 1]\<rparr>)"
    and col: "collect ex_env (cfg ex_nocache) ex_solver_data = Inr d"
    using ex_nocache_run by blast
  have "d ''Ex'' \<noteq> None" "d ''Q'' = None"
    using collect_keys [OF col, of "''Ex''"] collect_keys [OF col, of "''Q''"]
    by (simp_all add: field_names_def ex_solver_data_def)
  moreover have "num_modes (cfg ex_nocache) = 2"
    by (simp add: ex_nocache_def ex_config_def)
  ultimately show ?thesis
    using plot_field_rejections [OF res, of "''Ex''" "''real''" 2 None]
      plot_field_rejections [OF res, of "''Q''" "''real''" 0 None]
    by (simp add: res str_int_2)
qed

theorem plot_field_computes_first_counterexample:
  "fst (plot_field ex_env ex_nocache ''Ex'' ''real'' 2 None ex_world)
     = Inl (ValueError ''mode_index = 2 must be less than num_modes 2'')
   \<and> calls (snd (snd (plot_field ex_env ex_nocache ''Ex'' ''real'' 2 None ex_world)))
     = [Construct 1, RunModeSolver 1]
   \<and> fst (plot_field ex_env ex_nocache ''Q'' ''real'' 0 None ex_world)
     = Inl (KeyError ''Q'')
   \<and> calls (snd (snd (plot_field ex_env ex_nocache ''Q'' ''real'' 0 None ex_world)))
     = [Construct 1, RunModeSolver 1]
   \<and> calls ex_world = []"
proof -
  obtain d self' where res: "private_data ex_env ex_nocache ex_world
        = (Inr d, self', ex_world\<lparr>calls := [Construct 1, RunModeSolver 1]\<rparr>)"
    and col: "collect ex_env (cfg ex_nocache) ex_solver_data = Inr d"
    using ex_nocache_run by blast
  have keys: "d ''Ex'' \<noteq> None" "d ''Q'' = None"
    using collect_keys [OF col, of "''Ex''"] collect_keys [OF col, of "''Q''"]
    by (simp_all add: field_names_def ex_solver_data_def)
  have nm: "num_modes (cfg ex_nocache) = 2"
    by (simp add: ex_nocache_def ex_config_def)
  have "plot_field ex_env ex_nocache ''Ex'' ''real'' 2 None ex_world
      = (Inl (ValueError ''mode_index = 2 must be less than num_modes 2''), self',
         ex_world\<lparr>calls := [Construct 1, RunModeSolver 1]\<rparr>)"
    using keys(1)
    by (auto simp: plot_field_def plot_field_body_def bind_def getitem_def res nm str_int_2)
  moreover have "plot_field ex_env ex_nocache ''Q'' ''real'' 0 None ex_world
      = (Inl (KeyError ''Q''), self', ex_world\<lparr>calls := [Construct 1, RunModeSolver 1]\<rparr>)"
    using keys(2)
    by (simp add: plot_field_def plot_field_body_def bind_def getitem_def res)
  ultimately show ?thesis
    by (simp add: ex_world_def)
qed

subsection \<open>The memoized simulation object and the declared fields\<close>

lemma memo_refl: "memo_step self w self w"
  by (simp add: memo_step_def)

lemma memo_trans:
  "memo_step s0 w0 s1 w1 \<Longrightarrow> memo_step s1 w1 s2 w2 \<Longrightarrow> memo_step s0 w0 s2 w2"
  by (auto simp: memo_step_def built_def split: option.splits)

lemma memo_waveguide:
  "waveguide E self w = (r, self', w') \<Longrightarrow> memo_step self w self' w'"
  by (auto simp: waveguide_def memo_step_def built_def constructions_def
           split: option.splits sum.splits)

lemma memo_filepath:
  "filepath E self w = (r, w') \<Longrightarrow> memo_step self w self w'"
  by (auto simp: filepath_def memo_step_def mkdir_def constructions_def Let_def
           split: option.splits sum.splits)

lemma memo_compute_data:
  assumes "compute_data E fp self w = (r, self', w')"
  shows "memo_step self w self' w'"
proof -
  obtain r1 self1 w1 where wg: "waveguide E self w = (r1, self1, w1)"
    by (cases "waveguide E self w") auto
  from memo_waveguide [OF wg] assms wg show ?thesis
    by (auto simp: compute_data_def memo_step_def built_def constructions_def Let_def
          log_call_def store_def split: sum.splits option.splits)
qed

lemma memo_private_data:
  assumes "private_data E self w = (r, self', w')"
  shows "memo_step self w self' w'"
proof (cases "private_cached_data self")
  case (Some d)
  with assms show ?thesis
    by (simp add: private_data_def memo_refl)
next
  case None
  obtain r1 w1 where fp: "filepath E self w = (r1, w1)"
    by (cases "filepath E self w") auto
  note m1 = memo_filepath [OF fp]
  show ?thesis
  proof (cases r1)
    case (Inl e)
    with assms None fp m1 show ?thesis
      by (simp add: private_data_def)
  next
    case (Inr p)
    show ?thesis
    proof (cases "cached_file (cfg self) p w1")
      case None': None
      with assms None fp Inr have "compute_data E p self w1 = (r, self', w')"
        by (simp add: private_data_def)
      from memo_trans [OF m1 memo_compute_data [OF this]] show ?thesis .
    next
      case (Some pd)
      with assms None fp Inr m1 show ?thesis
        by (auto simp: private_data_def memo_step_def built_def constructions_def log_call_def
              split: prod.splits)
    qed
  qed
qed

lemma memo_data_item:
  assumes "data_item k E self w = (r, self', w')"
  shows "memo_step self w self' w'"
proof -
  obtain r1 s1 w1 where pd: "private_data E self w = (r1, s1, w1)"
    by (cases "private_data E self w") auto
  from memo_private_data [OF pd] assms pd show ?thesis
    by (auto simp: data_item_def split: sum.splits)
qed

lemma memo_n_group:
  assumes "n_group E self w = (r, self', w')"
  shows "memo_step self w self' w'"
proof -
  obtain r1 s1 w1 where pd: "private_data E self w = (r1, s1, w1)"
    by (cases "private_data E self w") auto
  from memo_private_data [OF pd] assms pd show ?thesis
    by (auto simp: n_group_def split: sum.splits)
qed

lemma memo_loss:
  assumes "loss_dB_per_cm E self w = (r, self', w')"
  shows "memo_step self w self' w'"
proof -
  obtain r1 s1 w1 where pd: "n_eff E self w = (r1, s1, w1)"
    by (cases "n_eff E self w") auto
  then have "memo_step self w s1 w1"
    unfolding n_eff_def by (rule memo_data_item)
  with assms pd show ?thesis
    by (auto simp: loss_dB_per_cm_def Let_def split: sum.splits)
qed

lemma memo_index:
  assumes "index E self w = (r, self', w')"
  shows "memo_step self w self' w'"
proof -
  obtain r1 s1 w1 where wg: "waveguide E self w = (r1, s1, w1)"
    by (cases "waveguide E self w") auto
  from memo_waveguide [OF wg] assms wg show ?thesis
    by (auto simp: index_def Let_def split: sum.splits)
qed

lemma memo_log:
  "(\<And>k. Construct k \<notin> set cs) \<Longrightarrow> memo_step self w self (log_call cs w)"
  by (auto simp: memo_step_def log_call_def constructions_def filter_empty_conv)

lemma memo_plot_grid:
  assumes "plot_grid E self w = (r, self', w')"
  shows "memo_step self w self' w'"
proof -
  obtain r1 s1 w1 where wg: "waveguide E self w = (r1, s1, w1)"
    by (cases "waveguide E self w") auto
  have "memo_step s1 w1 s1 (log_call [PlotGrid (ident self)] w1)"
    by (rule memo_log) simp
  with memo_waveguide [OF wg] assms wg show ?thesis
    by (auto simp: plot_grid_def split: sum.splits intro: memo_trans)
qed

lemma memo_plot_index:
  assumes "plot_index E self w = (r, self', w')"
  shows "memo_step self w self' w'"
proof -
  obtain r1 s1 w1 where ix: "index E self w = (r1, s1, w1)"
    by (cases "index E self w") auto
  have "memo_step s1 w1 s1 (log_call [Plot (ident self) ''index''] w1)"
    by (rule memo_log) simp
  with memo_index [OF ix] assms ix show ?thesis
    by (auto simp: plot_index_def split: sum.splits intro: memo_trans)
qed

lemma memo_plot_field:
  assumes "plot_field E self f v m wl w = (r, self', w')"
  shows "memo_step self w self' w'"
proof -
  obtain r1 s1 w1 where pd: "private_data E self w = (r1, s1, w1)"
    by (cases "private_data E self w") auto
  have "memo_step s1 w1 s1 (log_call [Plot (ident self) f] w1)"
    by (rule memo_log) simp
  with memo_private_data [OF pd] assms pd show ?thesis
    by (auto simp: plot_field_def split: sum.splits intro: memo_trans)
qed

lemma memo_heap_refl: "memo_heap h w h w"
  by (simp add: memo_heap_def)

lemma memo_heap_trans:
  assumes "memo_heap h0 w0 h1 w1" and "memo_heap h1 w1 h2 w2"
  shows "memo_heap h0 w0 h2 w2"
  unfolding memo_heap_def
proof (intro allI)
  fix k
  from assms(1) have a: "ident (h1 k) = ident (h0 k)" "cfg (h1 k) = cfg (h0 k)"
    "\<forall>wg. private_waveguide (h0 k) = Some wg \<longrightarrow> private_waveguide (h1 k) = Some wg"
    "constructions k (calls w1) + built (h0 k) = constructions k (calls w0) + built (h1 k)"
    by (simp_all add: memo_heap_def)
  from assms(2) have b: "ident (h2 k) = ident (h1 k)" "cfg (h2 k) = cfg (h1 k)"
    "\<forall>wg. private_waveguide (h1 k) = Some wg \<longrightarrow> private_waveguide (h2 k) = Some wg"
    "constructions k (calls w2) + built (h1 k) = constructions k (calls w1) + built (h2 k)"
    by (simp_all add: memo_heap_def)
  from a b show "ident (h2 k) = ident (h0 k) \<and> cfg (h2 k) = cfg (h0 k)
        \<and> (\<forall>wg. private_waveguide (h0 k) = Some wg \<longrightarrow> private_waveguide (h2 k) = Some wg)
        \<and> constructions k (calls w2) + built (h0 k)
            = constructions k (calls w0) + built (h2 k)"
    by auto
qed

lemma memo_update:
  assumes "memo_step (h i) w s1 w1" and "ident (h i) = i"
  shows "memo_heap h w (h(i := s1)) w1"
  using assms by (auto simp: memo_step_def memo_heap_def)

lemma memo_on_self:
  assumes "ident (h i) = i"
    and "\<And>r s1 w1. m (h i) w = (r, s1, w1) \<Longrightarrow> memo_step (h i) w s1 w1"
  shows "memo_heap h w (fst (on_self m i h w)) (snd (on_self m i h w))"
proof -
  obtain r s1 w1 where res: "m (h i) w = (r, s1, w1)"
    by (cases "m (h i) w") auto
  from memo_update [of h i w s1 w1] assms(2) [OF res] assms(1) res show ?thesis
    by (simp add: on_self_def)
qed

lemma memo_heap_log:
  "(\<And>k. Construct k \<notin> set cs) \<Longrightarrow> memo_heap h w h (log_call cs w)"
  by (auto simp: memo_heap_def log_call_def constructions_def filter_empty_conv)

lemma memo_overlap:
  assumes wf: "\<forall>k. ident (h k) = k"
  shows "memo_heap h w (fst (snd (overlap E i j c h w))) (snd (snd (overlap E i j c h w)))"
proof -
  obtain r1 s1 w1 where wg: "waveguide E (h i) w = (r1, s1, w1)"
    by (cases "waveguide E (h i) w") auto
  define h1 where "h1 = h(i := s1)"
  define w2 where "w2 = log_call [RunModeSolver (ident (h i))] w1"
  have m1: "memo_heap h w h1 w1"
    unfolding h1_def using memo_waveguide [OF wg] wf by (intro memo_update) simp_all
  have "memo_heap h1 w1 h1 w2"
    unfolding w2_def by (rule memo_heap_log) simp
  with m1 have m2: "memo_heap h w h1 w2"
    by (rule memo_heap_trans)
  have wf1: "ident (h1 j) = j"
    using m1 wf by (simp add: memo_heap_def)
  obtain r3 o3 w3 where wg': "waveguide E (h1 j) w2 = (r3, o3, w3)"
    by (cases "waveguide E (h1 j) w2") auto
  define h2 where "h2 = h1(j := o3)"
  define w4 where "w4 = log_call [RunModeSolver (ident (h1 j))] w3"
  have "memo_heap h1 w2 h2 w3"
    unfolding h2_def using memo_waveguide [OF wg'] wf1 by (intro memo_update) simp_all
  with m2 have m3: "memo_heap h w h2 w3"
    by (rule memo_heap_trans)
  have "memo_heap h2 w3 h2 w4"
    unfolding w4_def by (rule memo_heap_log) simp
  with m3 have m4: "memo_heap h w h2 w4"
    by (rule memo_heap_trans)
  have "overlap E i j c h w =
      (case r1 of
         Inl e \<Rightarrow> (Inl e, h1, w1)
       | Inr wg \<Rightarrow>
           (case mode_solver_data E wg of
              Inl e \<Rightarrow> (Inl e, h1, w2)
            | Inr self_data \<Rightarrow>
                (case r3 of
                   Inl e \<Rightarrow> (Inl e, h2, w3)
                 | Inr wg' \<Rightarrow>
                     (case mode_solver_data E wg' of
                        Inl e \<Rightarrow> (Inl e, h2, w4)
                      | Inr other_data \<Rightarrow>
                          (bind (outer_dot E self_data other_data c) (\<lambda>r. Inr (squeeze r)),
                           h2, w4)))))"
    using wg wg'
    by (simp add: overlap_def Let_def h1_def [symmetric] w2_def [symmetric]
          h2_def [symmetric] w4_def [symmetric] split: sum.splits)
  with m1 m2 m3 m4 show ?thesis
    by (simp split: sum.splits)
qed

lemma memo_exec:
  assumes wf: "\<forall>k. ident (h k) = k"
  shows "memo_heap h w (fst (exec E i op h w)) (snd (exec E i op h w))"
proof -
  have wfi: "ident (h i) = i"
    using wf by simp
  show ?thesis
  proof (cases op)
    case Get_filepath
    obtain r w1 where fp: "filepath E (h i) w = (r, w1)"
      by (cases "filepath E (h i) w") auto
    from memo_update [of h i w "h i" w1] memo_filepath [OF fp] wfi fp Get_filepath
    show ?thesis
      by simp
  next
    case Get_waveguide
    then show ?thesis
      using memo_on_self [of h i "waveguide E" w] wfi by (simp add: memo_waveguide)
  next
    case Get_data
    then show ?thesis
      using memo_on_self [of h i "private_data E" w] wfi by (simp add: memo_private_data)
  next
    case Get_fraction_te
    then show ?thesis
      using memo_on_self [of h i "data_item ''fraction_te'' E" w] wfi
      by (simp add: memo_data_item fraction_te_def)
  next
    case Get_fraction_tm
    then show ?thesis
      using memo_on_self [of h i "data_item ''fraction_tm'' E" w] wfi
      by (simp add: memo_data_item fraction_tm_def)
  next
    case Get_n_eff
    then show ?thesis
      using memo_on_self [of h i "data_item ''n_eff'' E" w] wfi
      by (simp add: memo_data_item n_eff_def)
  next
    case Get_n_group
    then show ?thesis
      using memo_on_self [of h i "n_group E" w] wfi by (simp add: memo_n_group)
  next
    case Get_mode_area
    then show ?thesis
      using memo_on_self [of h i "data_item ''mode_area'' E" w] wfi
      by (simp add: memo_data_item mode_area_def)
  next
    case Get_loss_dB_per_cm
    then show ?thesis
      using memo_on_self [of h i "loss_dB_per_cm E" w] wfi by (simp add: memo_loss)
  next
    case Get_index
    then show ?thesis
      using memo_on_self [of h i "index E" w] wfi by (simp add: memo_index)
  next
    case (Call_overlap j c)
    then show ?thesis
      using memo_overlap [OF wf, of w E i j c] by simp
  next
    case Call_plot_grid
    then show ?thesis
      using memo_on_self [of h i "plot_grid E" w] wfi by (simp add: memo_plot_grid)
  next
    case Call_plot_index
    then show ?thesis
      using memo_on_self [of h i "plot_index E" w] wfi by (simp add: memo_plot_index)
  next
    case (Call_plot_field f v m wl)
    then show ?thesis
      using memo_on_self [of h i "\<lambda>self. plot_field E self f v m wl" w] wfi
      by (simp add: memo_plot_field)
  next
    case Call_ipython_display
    then show ?thesis
      using memo_on_self [of h i "plot_index E" w] wfi
      by (simp add: memo_plot_index ipython_display_def)
  next
    case Call_repr
    then show ?thesis
      by (simp add: memo_heap_refl)
  next
    case Call_str
    then show ?thesis
      by (simp add: memo_heap_refl)
  qed
qed

lemma memo_run:
  "\<forall>k. ident (h k) = k \<Longrightarrow> run E cs h w = (h', w') \<Longrightarrow> memo_heap h w h' w'"
proof (induction cs arbitrary: h w)
  case Nil
  then show ?case by (simp add: memo_heap_refl)
next
  case (Cons c cs)
  obtain i op where c: "c = (i, op)"
    by (cases c) auto
  obtain h1 w1 where ex: "exec E i op h w = (h1, w1)"
    by (cases "exec E i op h w") auto
  have m1: "memo_heap h w h1 w1"
    using memo_exec [OF Cons.prems(1), of w E i op] ex by simp
  then have "\<forall>k. ident (h1 k) = k"
    using Cons.prems(1) by (simp add: memo_heap_def)
  moreover have "run E cs h1 w1 = (h', w')"
    using Cons.prems(2) c ex by simp
  ultimately have "memo_heap h1 w1 h' w'"
    by (rule Cons.IH)
  with m1 show ?case
    by (rule memo_heap_trans)
qed

lemma cfg_on_self:
  assumes "\<And>r s1 w1. m (h i) w = (r, s1, w1) \<Longrightarrow> memo_step (h i) w s1 w1"
  shows "cfg (fst (on_self m i h w) k) = cfg (h k)"
proof -
  obtain r s1 w1 where res: "m (h i) w = (r, s1, w1)"
    by (cases "m (h i) w") auto
  from assms [OF res] res show ?thesis
    by (simp add: on_self_def memo_step_def)
qed

lemma cfg_overlap: "cfg (fst (snd (overlap E i j c h w)) k) = cfg (h k)"
proof -
  obtain r1 s1 w1 where wg: "waveguide E (h i) w = (r1, s1, w1)"
    by (cases "waveguide E (h i) w") auto
  define h1 where "h1 = h(i := s1)"
  define w2 where "w2 = log_call [RunModeSolver (ident (h i))] w1"
  have c1: "cfg (h1 k) = cfg (h k)" for k
    using waveguide_world [OF wg] by (simp add: h1_def)
  obtain r3 o3 w3 where wg': "waveguide E (h1 j) w2 = (r3, o3, w3)"
    by (cases "waveguide E (h1 j) w2") auto
  define h2 where "h2 = h1(j := o3)"
  have c2: "cfg (h2 k) = cfg (h k)" for k
    using waveguide_world [OF wg'] c1 by (simp add: h2_def)
  from wg wg' c1 c2 show ?thesis
    by (simp add: overlap_def Let_def h1_def [symmetric] w2_def [symmetric]
          h2_def [symmetric] split: sum.splits)
qed

lemma cfg_exec: "cfg (fst (exec E i op h w) k) = cfg (h k)"
proof (cases op)
  case Get_fraction_te
  then show ?thesis
    using cfg_on_self [of "data_item ''fraction_te'' E" h i w k]
    by (simp add: memo_data_item fraction_te_def)
next
  case Get_fraction_tm
  then show ?thesis
    using cfg_on_self [of "data_item ''fraction_tm'' E" h i w k]
    by (simp add: memo_data_item fraction_tm_def)
next
  case Get_n_eff
  then show ?thesis
    using cfg_on_self [of "data_item ''n_eff'' E" h i w k]
    by (simp add: memo_data_item n_eff_def)
next
  case Get_mode_area
  then show ?thesis
    using cfg_on_self [of "data_item ''mode_area'' E" h i w k]
    by (simp add: memo_data_item mode_area_def)
next
  case (Call_plot_field f v m wl)
  then show ?thesis
    using cfg_on_self [of "\<lambda>self. plot_field E self f v m wl" h i w k]
    by (simp add: memo_plot_field)
next
  case Call_ipython_display
  then show ?thesis
    using cfg_on_self [of "plot_index E" h i w k]
    by (simp add: memo_plot_index ipython_display_def)
qed (simp_all add: cfg_on_self cfg_overlap memo_waveguide memo_private_data memo_n_group
       memo_loss memo_index memo_plot_grid memo_plot_index)

lemma cfg_run: "cfg (fst (run E cs h w) k) = cfg (h k)"
proof (induction cs arbitrary: h w)
  case Nil
  then show ?case by simp
next
  case (Cons c cs)
  obtain i op where c: "c = (i, op)"
    by (cases c) auto
  have "cfg (fst (run E (c # cs) h w) k)
      = cfg (fst (run E cs (fst (exec E i op h w)) (snd (exec E i op h w))) k)"
    by (simp add: c split: prod.splits)
  also have "\<dots> = cfg (fst (exec E i op h w) k)"
    by (rule Cons.IH)
  also have "\<dots> = cfg (h k)"
    by (rule cfg_exec)
  finally show ?case .
qed

text \<open>
  Claim C9. No property or method of the class changes a declared field: after any call
  on any instance, and after any sequence of calls, every instance of the heap has the
  configuration it was built with; this holds of the instance the call is made on, of the
  other instance of an \<open>overlap\<close>, and of every instance that is not involved. Only the two
  private attributes are ever assigned.
\<close>

theorem fields_never_change:
  "cfg (fst (exec E i op h w) k) = cfg (h k)
   \<and> cfg (fst (run E cs h w) k) = cfg (h k)
   \<and> cfg (fst (snd (overlap E i j conjugate h w)) k) = cfg (h k)"
  by (simp add: cfg_exec cfg_run cfg_overlap)

theorem fields_never_change_witness:
  "cfg (fst (run ex_env [(1, Get_data), (1, Get_loss_dB_per_cm),
                         (1, Call_plot_field ''Ex'' ''dB'' 0 None), (1, Call_overlap 2 True)]
               ex_heap ex_world) 2) = cfg ex_nocache"
  using fields_never_change
    [of ex_env 1 Get_data ex_heap ex_world 2
        "[(1, Get_data), (1, Get_loss_dB_per_cm),
          (1, Call_plot_field ''Ex'' ''dB'' 0 None), (1, Call_overlap 2 True)]" 1 True]
  by (simp add: ex_heap_def)

lemma first_waveguide:
  assumes "private_waveguide self = None" and "build_waveguide E (cfg self) = Inr wg"
  shows "waveguide E self w =
           (Inr wg, self\<lparr>private_waveguide := Some wg\<rparr>,
            w\<lparr>calls := calls w @ [Construct (ident self)]\<rparr>)"
  using assms by (simp add: waveguide_def)

lemma failed_waveguide:
  assumes "private_waveguide self = None" and "build_waveguide E (cfg self) = Inl e"
  shows "waveguide E self w = (Inl e, self, w)"
  using assms by (simp add: waveguide_def)

lemma later_waveguide:
  assumes "private_waveguide self = Some wg"
  shows "waveguide E self w = (Inr wg, self, w)"
  using assms by (simp add: waveguide_def)

lemma on_self_sets:
  assumes "\<And>r s1 w1. m (h i) w = (r, s1, w1) \<Longrightarrow> private_waveguide s1 = Some wg"
  shows "private_waveguide (fst (on_self m i h w) i) = Some wg"
proof -
  obtain r s1 w1 where res: "m (h i) w = (r, s1, w1)"
    by (cases "m (h i) w") auto
  from assms [OF res] res show ?thesis
    by (simp add: on_self_def)
qed

lemma index_sets:
  assumes "private_waveguide self = None" and "build_waveguide E (cfg self) = Inr wg"
    and "index E self w = (r, s1, w1)"
  shows "private_waveguide s1 = Some wg"
  using assms(3) by (auto simp: index_def first_waveguide [OF assms(1,2)] Let_def)

lemma plot_grid_sets:
  assumes "private_waveguide self = None" and "build_waveguide E (cfg self) = Inr wg"
    and "plot_grid E self w = (r, s1, w1)"
  shows "private_waveguide s1 = Some wg"
  using assms(3) by (auto simp: plot_grid_def first_waveguide [OF assms(1,2)])

lemma plot_index_sets:
  assumes "private_waveguide self = None" and "build_waveguide E (cfg self) = Inr wg"
    and "plot_index E self w = (r, s1, w1)"
  shows "private_waveguide s1 = Some wg"
proof -
  obtain r2 s2 w2 where ix: "index E self w = (r2, s2, w2)"
    by (cases "index E self w") auto
  from index_sets [OF assms(1,2) ix] assms(3) ix show ?thesis
    by (auto simp: plot_index_def split: sum.splits)
qed

lemma overlap_sets:
  assumes "private_waveguide (h i) = None" and "build_waveguide E (cfg (h i)) = Inr wg"
  shows "private_waveguide (fst (snd (overlap E i j c h w)) i) = Some wg"
proof -
  define s1 where "s1 = (h i)\<lparr>private_waveguide := Some wg\<rparr>"
  define w1 where "w1 = w\<lparr>calls := calls w @ [Construct (ident (h i))]\<rparr>"
  have wg: "waveguide E (h i) w = (Inr wg, s1, w1)"
    unfolding s1_def w1_def using assms by (rule first_waveguide)
  define h1 where "h1 = h(i := s1)"
  define w2 where "w2 = log_call [RunModeSolver (ident (h i))] w1"
  have p1: "private_waveguide (h1 i) = Some wg"
    by (simp add: h1_def s1_def)
  obtain r3 o3 w3 where wg': "waveguide E (h1 j) w2 = (r3, o3, w3)"
    by (cases "waveguide E (h1 j) w2") auto
  define h2 where "h2 = h1(j := o3)"
  have p2: "private_waveguide (h2 i) = Some wg"
  proof (cases "j = i")
    case True
    with wg' p1 have "o3 = h1 i"
      by (simp add: later_waveguide)
    with p1 True show ?thesis
      by (simp add: h2_def)
  next
    case False
    with p1 show ?thesis
      by (simp add: h2_def)
  qed
  from wg wg' p1 p2 show ?thesis
    by (simp add: overlap_def Let_def h1_def [symmetric] w2_def [symmetric]
          h2_def [symmetric] split: sum.splits)
qed

lemma exec_sets:
  assumes "reads_waveguide op"
    and "private_waveguide (h i) = None" and "build_waveguide E (cfg (h i)) = Inr wg"
  shows "private_waveguide (fst (exec E i op h w) i) = Some wg"
proof (cases op)
  case Get_waveguide
  then show ?thesis
    using on_self_sets [of "waveguide E" h i w wg]
    by (simp add: first_waveguide [OF assms(2,3)])
next
  case Get_index
  then show ?thesis
    using on_self_sets [of "index E" h i w wg] index_sets [OF assms(2,3)] by simp
next
  case (Call_overlap j c)
  then show ?thesis
    using overlap_sets [of h i E wg] assms(2,3) by simp
next
  case Call_plot_grid
  then show ?thesis
    using on_self_sets [of "plot_grid E" h i w wg] plot_grid_sets [OF assms(2,3)] by simp
next
  case Call_plot_index
  then show ?thesis
    using on_self_sets [of "plot_index E" h i w wg] plot_index_sets [OF assms(2,3)] by simp
next
  case Call_ipython_display
  then show ?thesis
    using on_self_sets [of "plot_index E" h i w wg] plot_index_sets [OF assms(2,3)]
    by (simp add: ipython_display_def)
qed (use assms(1) in simp_all)

lemma computed_data_sets:
  assumes "private_waveguide self = None" and "build_waveguide E (cfg self) = Inr wg"
    and "private_cached_data self = None"
    and "filepath E self w = (Inr fp, w1)"
    and "cached_file (cfg self) fp w1 = None"
  shows "private_waveguide (fst (snd (private_data E self w))) = Some wg"
proof -
  have "private_data E self w = compute_data E fp self w1"
    using assms(3-5) by (simp add: private_data_def)
  then show ?thesis
    by (simp add: compute_data_def first_waveguide [OF assms(1,2)] Let_def
          split: sum.splits)
qed

lemma loaded_data_keeps:
  assumes "private_cached_data self = None"
    and "filepath E self w = (Inr fp, w1)"
    and "cached_file (cfg self) fp w1 = Some (p, d)"
  shows "private_waveguide (fst (snd (private_data E self w))) = private_waveguide self
       \<and> constructions k (calls (snd (snd (private_data E self w)))) = constructions k (calls w)"
proof -
  have "constructions k (calls w1) = constructions k (calls w)"
    using memo_filepath [OF assms(2)] by (cases "k = ident self") (simp_all add: memo_step_def)
  then show ?thesis
    using assms by (simp add: private_data_def log_call_def constructions_def)
qed

text \<open>
  Claim C8, corrected. In any sequence of calls on the instances of a heap (an \<open>overlap\<close>
  may be with the instance itself), for every instance \<open>k\<close>: from an instance without
  simulation object at most one is constructed, and exactly one if the attribute is set at
  the end; a simulation object that is set stays the same object and nothing is
  constructed for the instance; an access to \<open>waveguide\<close> after the run returns the stored
  object and changes nothing. The object is constructed on the first access that reads
  \<open>waveguide\<close>: while the attribute is unset and the libraries build an object \<open>wg\<close>, the
  property \<open>waveguide\<close> constructs once, stores \<open>wg\<close> and returns it; so does every call
  whose body reads \<open>waveguide\<close>, and so does \<open>_data\<close> when it computes. An access to \<open>_data\<close>
  that loads the cache file constructs nothing and leaves the attribute as it is, and so
  does an access to \<open>waveguide\<close> in which a library raises.
\<close>

theorem waveguide_built_once:
  assumes "\<forall>k. ident (h k) = k"
    and "run E cs h w = (h', w')"
  shows "(private_waveguide (h k) = None \<longrightarrow>
            constructions k (calls w') \<le> constructions k (calls w) + 1
          \<and> (constructions k (calls w') = constructions k (calls w) + 1)
              = (private_waveguide (h' k) \<noteq> None))
       \<and> (\<forall>wg. private_waveguide (h k) = Some wg \<longrightarrow>
            private_waveguide (h' k) = Some wg
          \<and> constructions k (calls w') = constructions k (calls w))
       \<and> (\<forall>wg. private_waveguide (h' k) = Some wg \<longrightarrow>
            waveguide E (h' k) w' = (Inr wg, h' k, w'))
       \<and> (\<forall>wg. private_waveguide (h k) = None \<and> build_waveguide E (cfg (h k)) = Inr wg \<longrightarrow>
            waveguide E (h k) w =
              (Inr wg, (h k)\<lparr>private_waveguide := Some wg\<rparr>,
               w\<lparr>calls := calls w @ [Construct k]\<rparr>)
          \<and> (\<forall>op. reads_waveguide op \<longrightarrow>
                private_waveguide (fst (exec E k op h w) k) = Some wg
              \<and> constructions k (calls (snd (exec E k op h w)))
                  = constructions k (calls w) + 1)
          \<and> (\<forall>fp w1. private_cached_data (h k) = None \<and> filepath E (h k) w = (Inr fp, w1)
                  \<and> cached_file (cfg (h k)) fp w1 = None \<longrightarrow>
                private_waveguide (fst (snd (private_data E (h k) w))) = Some wg
              \<and> constructions k (calls (snd (snd (private_data E (h k) w))))
                  = constructions k (calls w) + 1))
       \<and> (\<forall>fp w1 p d. private_cached_data (h k) = None \<and> filepath E (h k) w = (Inr fp, w1)
               \<and> cached_file (cfg (h k)) fp w1 = Some (p, d) \<longrightarrow>
            private_waveguide (fst (snd (private_data E (h k) w))) = private_waveguide (h k)
          \<and> constructions k (calls (snd (snd (private_data E (h k) w))))
              = constructions k (calls w))
       \<and> (\<forall>e. private_waveguide (h k) = None \<and> build_waveguide E (cfg (h k)) = Inl e \<longrightarrow>
            waveguide E (h k) w = (Inl e, h k, w))"
proof -
  have idk: "ident (h k) = k"
    using assms(1) by simp
  from memo_run [OF assms]
  have keep: "\<forall>wg. private_waveguide (h k) = Some wg \<longrightarrow> private_waveguide (h' k) = Some wg"
    and cnt: "constructions k (calls w') + built (h k)
          = constructions k (calls w) + built (h' k)"
    by (simp_all add: memo_heap_def)
  have a: "private_waveguide (h k) = None \<longrightarrow>
            constructions k (calls w') \<le> constructions k (calls w) + 1
          \<and> (constructions k (calls w') = constructions k (calls w) + 1)
              = (private_waveguide (h' k) \<noteq> None)"
    using cnt by (auto simp: built_def split: option.splits)
  have b: "\<forall>wg. private_waveguide (h k) = Some wg \<longrightarrow>
            private_waveguide (h' k) = Some wg
          \<and> constructions k (calls w') = constructions k (calls w)"
    using cnt keep by (auto simp: built_def split: option.splits)
  have c: "\<forall>wg. private_waveguide (h' k) = Some wg \<longrightarrow>
            waveguide E (h' k) w' = (Inr wg, h' k, w')"
    by (simp add: later_waveguide)
  have d1: "waveguide E (h k) w =
              (Inr wg, (h k)\<lparr>private_waveguide := Some wg\<rparr>,
               w\<lparr>calls := calls w @ [Construct k]\<rparr>)"
    if "private_waveguide (h k) = None" "build_waveguide E (cfg (h k)) = Inr wg" for wg
    using first_waveguide [OF that, of w] idk by simp
  have d2: "private_waveguide (fst (exec E k op h w) k) = Some wg
              \<and> constructions k (calls (snd (exec E k op h w)))
                  = constructions k (calls w) + 1"
    if "private_waveguide (h k) = None" "build_waveguide E (cfg (h k)) = Inr wg"
      "reads_waveguide op" for wg op
  proof -
    have s: "private_waveguide (fst (exec E k op h w) k) = Some wg"
      using that(3,1,2) by (rule exec_sets)
    from memo_exec [OF assms(1), of w E k op]
    have "constructions k (calls (snd (exec E k op h w))) + built (h k)
          = constructions k (calls w) + built (fst (exec E k op h w) k)"
      by (simp add: memo_heap_def)
    with s that(1) show ?thesis
      by (simp add: built_def)
  qed
  have d3: "private_waveguide (fst (snd (private_data E (h k) w))) = Some wg
              \<and> constructions k (calls (snd (snd (private_data E (h k) w))))
                  = constructions k (calls w) + 1"
    if "private_waveguide (h k) = None" "build_waveguide E (cfg (h k)) = Inr wg"
      "private_cached_data (h k) = None" "filepath E (h k) w = (Inr fp, w1)"
      "cached_file (cfg (h k)) fp w1 = None" for wg fp w1
  proof -
    have s: "private_waveguide (fst (snd (private_data E (h k) w))) = Some wg"
      using that by (rule computed_data_sets)
    obtain r s1 w2 where pd: "private_data E (h k) w = (r, s1, w2)"
      by (cases "private_data E (h k) w") auto
    from memo_private_data [OF pd] idk
    have "constructions k (calls w2) + built (h k) = constructions k (calls w) + built s1"
      by (simp add: memo_step_def)
    with s pd that(1) show ?thesis
      by (simp add: built_def)
  qed
  have d: "\<forall>wg. private_waveguide (h k) = None \<and> build_waveguide E (cfg (h k)) = Inr wg \<longrightarrow>
            waveguide E (h k) w =
              (Inr wg, (h k)\<lparr>private_waveguide := Some wg\<rparr>,
               w\<lparr>calls := calls w @ [Construct k]\<rparr>)
          \<and> (\<forall>op. reads_waveguide op \<longrightarrow>
                private_waveguide (fst (exec E k op h w) k) = Some wg
              \<and> constructions k (calls (snd (exec E k op h w)))
                  = constructions k (calls w) + 1)
          \<and> (\<forall>fp w1. private_cached_data (h k) = None \<and> filepath E (h k) w = (Inr fp, w1)
                  \<and> cached_file (cfg (h k)) fp w1 = None \<longrightarrow>
                private_waveguide (fst (snd (private_data E (h k) w))) = Some wg
              \<and> constructions k (calls (snd (snd (private_data E (h k) w))))
                  = constructions k (calls w) + 1)"
    using d1 d2 d3 by blast
  have e: "\<forall>fp w1 p d. private_cached_data (h k) = None \<and> filepath E (h k) w = (Inr fp, w1)
               \<and> cached_file (cfg (h k)) fp w1 = Some (p, d) \<longrightarrow>
            private_waveguide (fst (snd (private_data E (h k) w))) = private_waveguide (h k)
          \<and> constructions k (calls (snd (snd (private_data E (h k) w))))
              = constructions k (calls w)"
    using loaded_data_keeps by blast
  have f: "\<forall>e. private_waveguide (h k) = None \<and> build_waveguide E (cfg (h k)) = Inl e \<longrightarrow>
            waveguide E (h k) w = (Inl e, h k, w)"
    by (simp add: failed_waveguide)
  from a b c d e f show ?thesis
    by (intro conjI)
qed

lemma ex_heap_first:
  "exec ex_env 1 Get_waveguide ex_heap ex_world =
     (ex_heap(1 := (ex_heap 1)\<lparr>private_waveguide := Some 7\<rparr>),
      ex_world\<lparr>calls := [Construct 1]\<rparr>)"
  by (simp add: on_self_def waveguide_def ex_build_waveguide ex_heap_def ex_nocache_def
        ex_world_def)

theorem waveguide_built_once_witness:
  "constructions 1
     (calls (snd (run ex_env [(1, Get_waveguide), (1, Call_overlap 1 True), (1, Get_data),
                              (2, Get_index), (1, Get_waveguide)] ex_heap ex_world))) = 1
   \<and> private_waveguide
       (fst (run ex_env [(1, Get_waveguide), (1, Call_overlap 1 True), (1, Get_data),
                         (2, Get_index), (1, Get_waveguide)] ex_heap ex_world) 1) = Some 7"
proof -
  let ?rest = "[(1, Call_overlap 1 True), (1, Get_data), (2, Get_index), (1, Get_waveguide)]"
  let ?h1 = "ex_heap(1 := (ex_heap 1)\<lparr>private_waveguide := Some 7\<rparr>)"
  let ?w1 = "ex_world\<lparr>calls := [Construct 1]\<rparr>"
  have wf: "\<forall>k. ident (?h1 k) = k"
    by (simp add: ex_heap_def)
  have res: "run ex_env ?rest ?h1 ?w1
      = (fst (run ex_env ?rest ?h1 ?w1), snd (run ex_env ?rest ?h1 ?w1))"
    by simp
  have set: "private_waveguide (?h1 1) = Some 7"
    by simp
  have one: "constructions 1 (calls ?w1) = 1"
    by (simp add: constructions_def)
  from waveguide_built_once [OF wf res, of 1] set one
  have "private_waveguide (fst (run ex_env ?rest ?h1 ?w1) 1) = Some 7
      \<and> constructions 1 (calls (snd (run ex_env ?rest ?h1 ?w1))) = 1"
    by simp
  moreover have "run ex_env ((1, Get_waveguide) # ?rest) ex_heap ex_world
      = run ex_env ?rest ?h1 ?w1"
    by (simp only: run.simps ex_heap_first prod.case)
  ultimately show ?thesis
    by simp
qed

theorem n_eff_from_cache_counterexample:
  "fst (n_eff ex_env ex_other
          (snd (snd (private_data ex_env (ex_self (WNumber (31 / 20))) ex_world))))
     = Inr (n_complex ex_solver_data)
   \<and> private_waveguide
       (fst (snd (n_eff ex_env ex_other
          (snd (snd (private_data ex_env (ex_self (WNumber (31 / 20))) ex_world))))))
     = None
   \<and> constructions (ident ex_other)
       (calls (snd (snd (n_eff ex_env ex_other
          (snd (snd (private_data ex_env (ex_self (WNumber (31 / 20))) ex_world)))))))
     = 0"
proof -
  let ?a = "ex_self (WNumber (31 / 20))"
  have fresh: "private_cached_data ?a = None" "private_cached_data ex_other = None"
    by (simp_all add: ex_self_def ex_other_def)
  have pa: "private_data ex_env ?a ex_world
      = compute_data ex_env (Some ex_path) ?a (mkdir ''modes'' ex_world)"
    by (simp add: private_data_def ex_filepath fresh cached_file_def mkdir_def ex_world_def)
  with ex_compute [of "Some ex_path" "WNumber (31 / 20)" "mkdir ''modes'' ex_world"]
  obtain d where d: "fst (private_data ex_env ?a ex_world) = Inr d"
    by auto
  obtain a' w' where res: "private_data ex_env ?a ex_world = (Inr d, a', w')"
    using d by (cases "private_data ex_env ?a ex_world") auto
  have stored: "files w' ex_path = Some d"
    using fresh(1) ex_filepath res by (rule private_data_persisted)
  have "\<exists>sd. mode_solver_data ex_env (7 :: nat) = Inr sd \<and> collect ex_env (cfg ?a) sd = Inr d"
    using compute_data_result [of ex_env "Some ex_path" ?a "mkdir ''modes'' ex_world" d a' w']
      res pa by (auto simp: ex_env_def)
  then have "collect ex_env (cfg ?a) ex_solver_data = Inr d"
    by (simp add: ex_env_def)
  then have neff: "d ''n_eff'' = Some (n_complex ex_solver_data)"
    by (rule collect_n_eff)
  have "memo_step ?a ex_world a' w'"
    using res by (rule memo_private_data)
  then have "constructions 5 (calls w') = constructions 5 (calls ex_world)"
    by (simp add: memo_step_def ex_self_def)
  then have zero: "constructions 5 (calls w') = 0"
    by (simp add: constructions_def ex_world_def)
  have "cfg ex_other = ex_config (WList [31 / 20])"
    by (simp add: ex_other_def)
  then have fpb: "filepath ex_env ex_other w' = (Inr (Some ex_path), mkdir ''modes'' w')"
    by (rule ex_filepath_cfg)
  have ow: "\<not> overwrite (cfg ex_other)"
    by (simp add: ex_other_def ex_config_def)
  from private_data_load [OF fresh(2) fpb stored ow]
  have load: "private_data ex_env ex_other w' =
           (Inr d, ex_other\<lparr>private_cached_data := Some d\<rparr>,
            log_call [LogInfo (''load data from '' @ path_str ex_path @ ''.''), NpLoad ex_path]
              (mkdir (parent ex_path) w'))" .
  have n: "n_eff ex_env ex_other w' =
           (getitem d ''n_eff'', ex_other\<lparr>private_cached_data := Some d\<rparr>,
            log_call [LogInfo (''load data from '' @ path_str ex_path @ ''.''), NpLoad ex_path]
              (mkdir (parent ex_path) w'))"
    by (simp add: n_eff_def data_item_def load)
  have "fst (n_eff ex_env ex_other w') = Inr (n_complex ex_solver_data)"
    by (simp add: n getitem_def neff)
  moreover have "private_waveguide (fst (snd (n_eff ex_env ex_other w'))) = None"
    unfolding n by (simp add: ex_other_def)
  moreover have "constructions (ident ex_other) (calls (snd (snd (n_eff ex_env ex_other w')))) = 0"
    using zero unfolding n
    by (simp add: ex_other_def log_call_def mkdir_def constructions_def)
  ultimately show ?thesis
    using res by simp
qed

subsection \<open>Exceptions of the serializer\<close>

text \<open>
  The derivation of the key raises nothing of its own: when it raises, the exception is
  one the serializer has raised on a declared field.
\<close>

lemma settings_raises:
  "settings ser c ns = Inl e \<Longrightarrow> \<exists>n \<in> set ns. ser (getattr c n) = Inl e"
  by (induction ns) (auto split: sum.splits)

lemma cache_key_raises:
  assumes "cache_key E c = Inl e"
  shows "\<exists>n \<in> set fields_keys. custom_serializer E (getattr c n) = Inl e"
proof -
  from assms have "settings (custom_serializer E) c (sort fields_keys) = Inl e"
    by (simp add: cache_key_def split: sum.splits)
  from settings_raises [OF this] show ?thesis
    by simp
qed

end
